theory Spec2Isabelle
  imports Main "HOL-Library.Word" "HOL-Library.Monad_Syntax"
begin

unbundle bit_operations_syntax

section \<open>Machine types and the block device boundary\<close>

type_synonym u8 = "8 word"
type_synonym u16 = "16 word"
type_synonym u32 = "32 word"
type_synonym sector = "u8 list"

text \<open>
  The filesystem sees the SD card only through \<open>read_block\<close> and \<open>write_block\<close>, each of
  which either transfers one 512-byte block or reports failure and leaves the caller's buffer
  alone.  At this boundary the card is a store of blocks together with the set of addresses
  at which a transfer fails.
\<close>

record blockdev =
  blocks :: "u32 \<Rightarrow> sector"
  read_fails :: "u32 \<Rightarrow> bool"
  write_fails :: "u32 \<Rightarrow> bool"

definition read_block :: "blockdev \<Rightarrow> u32 \<Rightarrow> sector option" where
  "read_block d lba = (if read_fails d lba then None else Some (blocks d lba))"

definition write_block :: "blockdev \<Rightarrow> u32 \<Rightarrow> sector \<Rightarrow> blockdev option" where
  "write_block d lba buf =
     (if write_fails d lba then None else Some (d\<lparr>blocks := (blocks d)(lba := buf)\<rparr>))"

section \<open>FAT32 driver state (FAT32.h)\<close>

record ReadHandler =
  rh_Dir_Entry :: u32
  rh_File_Size :: u32
  rh_FAT_Entry :: u32
  rh_SectorOffset :: u16

record WriteHandler =
  wh_Dir_Entry :: u32
  wh_File_Size :: u32
  wh_BaseFatEntry :: u32
  wh_CurrentFatEntry :: u32
  wh_ClusterIndex :: u16
  wh_SectorIndex :: u16

record FAT32 =
  sd_card :: blockdev
  initialized :: bool
  sectors_per_fat :: u32
  sectors_in_partition :: u32
  sector_size :: u16
  cluster_size :: u16
  fat_base :: u16
  data_base :: u16
  main_offset :: u16
  last_cluster :: u16
  root_dir_first_cluster :: u32
  first_data_sector :: u32
  read_buffer :: sector
  fat_cache_sector :: u32
  fat_cache_valid :: bool
  fat_cache :: sector
  read_handler :: ReadHandler
  write_handler :: WriteHandler
  current_dir_cluster :: u32
  lfn_index :: u8

definition CLUSTER_FREE :: u32 where "CLUSTER_FREE = 0"
definition EOC_MIN :: u32 where "EOC_MIN = 0x0FFFFFF8"
definition INVALID_CLUSTER :: u32 where "INVALID_CLUSTER = 0xFFFFFFFF"

definition get_physical_block :: "FAT32 \<Rightarrow> u32 \<Rightarrow> sector option" where
  "get_physical_block s block_num = read_block (sd_card s) block_num"

definition store_physical_block :: "FAT32 \<Rightarrow> u32 \<Rightarrow> sector \<Rightarrow> FAT32 option" where
  "store_physical_block s block_num buffer =
     (case write_block (sd_card s) block_num buffer of
        None \<Rightarrow> None
      | Some d \<Rightarrow> Some (s\<lparr>sd_card := d\<rparr>))"

section \<open>FAT table access (FAT32::fat_entry)\<close>

text \<open>Little-endian 32-bit load and store on a byte buffer, byte by byte as the driver does.\<close>

definition load_le32 :: "sector \<Rightarrow> nat \<Rightarrow> u32" where
  "load_le32 buf off =
     ucast (buf ! off) OR push_bit 8 (ucast (buf ! (off + 1)))
       OR push_bit 16 (ucast (buf ! (off + 2))) OR push_bit 24 (ucast (buf ! (off + 3)))"

definition store_le32 :: "sector \<Rightarrow> nat \<Rightarrow> u32 \<Rightarrow> sector" where
  "store_le32 buf off v =
     buf[off := ucast (v AND 0xFF),
         off + 1 := ucast (drop_bit 8 v AND 0xFF),
         off + 2 := ucast (drop_bit 16 v AND 0xFF),
         off + 3 := ucast (drop_bit 24 v AND 0xFF)]"

text \<open>
  \<open>fat_load\<close> is the cache-miss part of \<open>fat_entry\<close>: the owning FAT sector is read into the
  single cache line unless it is already resident.
\<close>

definition fat_load :: "FAT32 \<Rightarrow> u32 \<Rightarrow> FAT32 option" where
  "fat_load s fat_lba =
     (if \<not> fat_cache_valid s \<or> fat_cache_sector s \<noteq> fat_lba then
        (case get_physical_block s fat_lba of
           None \<Rightarrow> None
         | Some b \<Rightarrow> Some (s\<lparr>fat_cache := b, fat_cache_sector := fat_lba, fat_cache_valid := True\<rparr>))
      else Some s)"

text \<open>The local variables \<open>fat_lba\<close> and \<open>entry_offset\<close> of \<open>fat_entry\<close>, in \<open>uint32_t\<close> arithmetic.\<close>

definition fat_lba :: "FAT32 \<Rightarrow> u32 \<Rightarrow> u32" where
  "fat_lba s cluster_num = ucast (fat_base s) + (cluster_num * 4) div ucast (sector_size s)"

definition entry_offset :: "FAT32 \<Rightarrow> u32 \<Rightarrow> nat" where
  "entry_offset s cluster_num = unat ((cluster_num * 4) mod ucast (sector_size s))"

definition fat_entry :: "FAT32 \<Rightarrow> u32 \<Rightarrow> u32 \<Rightarrow> bool \<Rightarrow> u32 \<times> FAT32" where
  "fat_entry s cluster_num fat_value write_entry =
     (if \<not> initialized s \<or> cluster_num < 2 then (INVALID_CLUSTER, s)
      else
        case fat_load s (fat_lba s cluster_num) of
          None \<Rightarrow> (INVALID_CLUSTER, s\<lparr>fat_cache_valid := False\<rparr>)
        | Some s1 \<Rightarrow>
            let raw_value = load_le32 (fat_cache s1) (entry_offset s cluster_num);
                current_value = raw_value AND 0x0FFFFFFF
            in if write_entry then
                 let masked_value = (raw_value AND 0xF0000000) OR (fat_value AND 0x0FFFFFFF);
                     s2 = s1\<lparr>fat_cache :=
                            store_le32 (fat_cache s1) (entry_offset s cluster_num) masked_value\<rparr>
                 in case store_physical_block s2 (fat_lba s cluster_num) (fat_cache s2) of
                      None \<Rightarrow> (INVALID_CLUSTER, s2\<lparr>fat_cache_valid := False\<rparr>)
                    | Some s3 \<Rightarrow> (masked_value AND 0x0FFFFFFF, s3)
               else (current_value, s1))"

text \<open>The cache line holds FAT sector \<open>lba\<close>.\<close>

definition resident :: "FAT32 \<Rightarrow> u32 \<Rightarrow> bool" where
  "resident s lba \<longleftrightarrow> fat_cache_valid s \<and> fat_cache_sector s = lba"

text \<open>
  The cache line agrees with the card: when valid, it holds the contents of the sector it
  is tagged with.  The constructor establishes this (the line starts invalid).
\<close>

definition coherent :: "FAT32 \<Rightarrow> bool" where
  "coherent s \<longleftrightarrow> (fat_cache_valid s \<longrightarrow> fat_cache s = blocks (sd_card s) (fat_cache_sector s))"


text \<open>
  The copy of FAT sector \<open>lba\<close> that \<open>fat_entry\<close> works on: the cache line when it is tagged
  with \<open>lba\<close>, the sector as the card holds it otherwise.
\<close>

definition working :: "FAT32 \<Rightarrow> u32 \<Rightarrow> sector" where
  "working s lba = (if resident s lba then fat_cache s else blocks (sd_card s) lba)"

section \<open>Directory entries (root_Entries, DIR_ENT_LFN)\<close>

text \<open>
  The driver casts the 512-byte sector buffer to an array of packed 32-byte \<open>root_Entries\<close>.
  An entry is therefore its 32 bytes, and each field is read at its offset in the packed
  layout: \<open>FileName\<close> 0..7, \<open>Extension\<close> 8..10, \<open>Attributes\<close> 11, \<open>FirstClusterHigh\<close> 20..21,
  \<open>FirstClusterNumber\<close> 26..27, \<open>SizeofFile\<close> 28..31 (little-endian, as on the RP2040).
\<close>

type_synonym root_Entries = "u8 list"

definition FILE_CLEAR :: u8 where "FILE_CLEAR = 0x00"
definition FILE_ERASED :: u8 where "FILE_ERASED = 0xE5"
definition AT_VOLUME_ID :: u8 where "AT_VOLUME_ID = 0x08"
definition AT_DIRECTORY :: u8 where "AT_DIRECTORY = 0x10"
definition AT_ARCHIVE :: u8 where "AT_ARCHIVE = 0x20"
definition AT_LFN :: u8 where "AT_LFN = 0x0F"
definition MAX_LFN_CHARACTERS :: nat where "MAX_LFN_CHARACTERS = 255"
definition MAX_PATH_LENGTH :: nat where "MAX_PATH_LENGTH = 260"

definition entry_at :: "sector \<Rightarrow> nat \<Rightarrow> root_Entries" where
  "entry_at buf i = take 32 (drop (32 * i) buf)"

definition FileName :: "root_Entries \<Rightarrow> u8 list" where "FileName e = take 8 e"
definition Extension :: "root_Entries \<Rightarrow> u8 list" where "Extension e = take 3 (drop 8 e)"
definition Attributes :: "root_Entries \<Rightarrow> u8" where "Attributes e = e ! 11"
definition Ordinal :: "root_Entries \<Rightarrow> u8" where "Ordinal e = e ! 0"

definition load_le16 :: "u8 list \<Rightarrow> nat \<Rightarrow> u16" where
  "load_le16 buf off = ucast (buf ! off) OR push_bit 8 (ucast (buf ! (off + 1)))"

definition store_le16 :: "u8 list \<Rightarrow> nat \<Rightarrow> u16 \<Rightarrow> u8 list" where
  "store_le16 buf off v = buf[off := ucast (v AND 0xFF), off + 1 := ucast (drop_bit 8 v AND 0xFF)]"

definition FirstClusterHigh :: "root_Entries \<Rightarrow> u16" where "FirstClusterHigh e = load_le16 e 20"
definition FirstClusterNumber :: "root_Entries \<Rightarrow> u16" where "FirstClusterNumber e = load_le16 e 26"
definition SizeofFile :: "root_Entries \<Rightarrow> u32" where "SizeofFile e = load_le32 e 28"

text \<open>\<open>((uint32_t)e->FirstClusterHigh << 16) | (uint32_t)e->FirstClusterNumber\<close>\<close>

definition first_cluster_of :: "root_Entries \<Rightarrow> u32" where
  "first_cluster_of e = push_bit 16 (ucast (FirstClusterHigh e)) OR ucast (FirstClusterNumber e)"

text \<open>\<open>memcpy\<close> into a buffer at an offset; bytes that would fall outside are not modelled.\<close>

definition memcpy_at :: "u8 list \<Rightarrow> nat \<Rightarrow> u8 list \<Rightarrow> u8 list" where
  "memcpy_at buf off src = take off buf @ take (length buf - off) src @ drop (off + length src) buf"

section \<open>Name utilities (namespace FAT\_Utils)\<close>

definition bytes :: "string \<Rightarrow> u8 list" where
  "bytes s = map of_char s"

definition toupper :: "u8 \<Rightarrow> u8" where
  "toupper c = (if 0x61 \<le> c \<and> c \<le> 0x7A then c - 0x20 else c)"

text \<open>C strings are byte lists without the terminating NUL.\<close>

fun iequals :: "u8 list \<Rightarrow> u8 list \<Rightarrow> bool" where
  "iequals (a # as) (b # bs) = (if toupper a \<noteq> toupper b then False else iequals as bs)"
| "iequals [] [] = True"
| "iequals _ _ = False"

text \<open>The characters \<open>"*/:<>?\|+,. ;=[]\<close> of \<open>to_dos_8_3\<close>, as byte values.\<close>

definition invalid_chars :: "u8 list" where
  "invalid_chars = [0x22, 0x2A, 0x2F, 0x3A, 0x3C, 0x3E, 0x3F, 0x5C, 0x7C, 0x2B, 0x2C, 0x2E, 0x20,
                    0x3B, 0x3D, 0x5B, 0x5D]"

text \<open>
  One of the two copy loops of \<open>to_dos_8_3\<close>: spaces are skipped, an invalid character
  rejects the name, at most \<open>n\<close> characters are kept and the loop stops as soon as \<open>n\<close> are
  stored, without looking at what follows.
\<close>

fun dos_copy :: "nat \<Rightarrow> u8 list \<Rightarrow> u8 list \<Rightarrow> u8 list option" where
  "dos_copy n acc [] = Some acc"
| "dos_copy n acc (c # cs) =
     (if n \<le> length acc then Some acc
      else if c = 0x20 then dos_copy n acc cs
      else if c \<in> set invalid_chars then None
      else dos_copy n (acc @ [toupper c]) cs)"

definition pad :: "nat \<Rightarrow> u8 list \<Rightarrow> u8 list" where
  "pad n xs = take n xs @ replicate (n - length xs) 0x20"

definition to_dos_8_3 :: "u8 list \<Rightarrow> u8 list option" where
  "to_dos_8_3 name =
     (let has_dot = (0x2E \<in> set name);
          base_part = takeWhile (\<lambda>c. c \<noteq> 0x2E) name;
          ext_part = (if has_dot then tl (dropWhile (\<lambda>c. c \<noteq> 0x2E) name) else [])
      in case dos_copy 8 [] base_part of
           None \<Rightarrow> None
         | Some base \<Rightarrow>
             (case dos_copy 3 [] ext_part of
                None \<Rightarrow> None
              | Some ext \<Rightarrow> Some (pad 8 base @ pad 3 ext)))"

section \<open>Filename parser (FAT32::fat\_filename\_parser)\<close>

datatype FileEntryType = File | Directory | LongFileNameOK | LongFileNameNOK | Error

definition LFN_CHAR_POSITIONS :: "nat list" where
  "LFN_CHAR_POSITIONS = [1, 3, 5, 7, 9, 14, 16, 18, 20, 22, 24, 28, 30]"

text \<open>
  The character loop of the long-name branch, over the remaining positions; \<open>i\<close> is the loop
  counter.  Both the \<open>0x0000\<close> terminator and \<open>0xFFFF\<close> padding leave the loop.
\<close>

fun lfn_chars :: "u8 list \<Rightarrow> nat \<Rightarrow> nat \<Rightarrow> nat list \<Rightarrow> u8 list \<Rightarrow> u8 list" where
  "lfn_chars dir_bytes idx i [] out = out"
| "lfn_chars dir_bytes idx i (pos # ps) out =
     (let lo = dir_bytes ! pos; hi = dir_bytes ! (pos + 1)
      in if lo = 0x00 \<and> hi = 0x00 then out[idx + i := 0]
         else if lo = 0xFF \<and> hi = 0xFF then out
         else lfn_chars dir_bytes idx (i + 1) ps (out[idx + i := lo]))"

text \<open>
  The parser takes the entry, the caller's output buffer and the function-static
  \<open>lfn_index\<close>; it returns the entry type, the buffer and the new \<open>lfn_index\<close>.
\<close>

definition fat_filename_parser ::
  "root_Entries \<Rightarrow> u8 list \<Rightarrow> u8 \<Rightarrow> FileEntryType \<times> u8 list \<times> u8" where
  "fat_filename_parser dir_entry filename_out0 lfn_index0 =
     (let filename_out = filename_out0[0 := 0] in
      if FileName dir_entry ! 0 \<noteq> FILE_CLEAR then
        if FileName dir_entry ! 0 \<noteq> FILE_ERASED \<and> Attributes dir_entry AND AT_VOLUME_ID = 0 then
          if Attributes dir_entry = AT_LFN then
            let (idx, out1) =
                  (if Ordinal dir_entry > 0x40
                   then ((Ordinal dir_entry - 0x41) * 13,
                         filename_out[unat ((Ordinal dir_entry - 0x41) * 13) + 13 := 0])
                   else (lfn_index0 - 13, filename_out));
                out2 = lfn_chars dir_entry (unat idx) 0 LFN_CHAR_POSITIONS out1
            in if idx \<noteq> 0 then (LongFileNameNOK, out2, idx) else (LongFileNameOK, out2, idx)
          else
            let name = takeWhile (\<lambda>c. c \<noteq> 0x20) (FileName dir_entry);
                out1 = memcpy_at filename_out 0 name
            in if Attributes dir_entry AND AT_DIRECTORY \<noteq> 0
               then (Directory, memcpy_at out1 (length name) [0x5C, 0], lfn_index0)
               else (File, memcpy_at out1 (length name) ([0x2E] @ Extension dir_entry @ [0]), lfn_index0)
        else (Error, filename_out, lfn_index0)
      else (Error, filename_out, lfn_index0))"

section \<open>Opening files (FAT32::file\_open)\<close>

datatype FileFunction = READ | CREATE | MODIFY | DELETE | OVERWRITE

datatype FAT_ErrorCode = ERROR_IDLE | FILE_FOUND | FILE_NOT_FOUND | FILE_CREATE_OK
  | NO_FILE_ENTRY_AVAILABLE | NO_FAT_ENTRY_AVAILABLE | NO_MORE_FREE_CLUSTER | ERROR_READ_FAIL

text \<open>A C string held in a byte buffer: the bytes before the first NUL.\<close>

definition cstr :: "u8 list \<Rightarrow> u8 list" where
  "cstr xs = takeWhile (\<lambda>c. c \<noteq> 0) xs"

text \<open>\<open>strtok_r(_, "/", _)\<close> called until it returns null: the non-empty pieces between slashes.\<close>

fun strtok_all :: "u8 list \<Rightarrow> u8 list \<Rightarrow> u8 list list" where
  "strtok_all tok [] = (if tok = [] then [] else [tok])"
| "strtok_all tok (c # cs) =
     (if c = 0x2F then (if tok = [] then strtok_all [] cs else tok # strtok_all [] cs)
      else strtok_all (tok @ [c]) cs)"

text \<open>\<open>data_base + ((cluster - 2) * cluster_size) + sec\<close>, in \<open>uint32_t\<close> arithmetic.\<close>

definition cluster_lba :: "FAT32 \<Rightarrow> u32 \<Rightarrow> u16 \<Rightarrow> u32" where
  "cluster_lba s cluster sec =
     ucast (data_base s) + ((cluster - 2) * ucast (cluster_size s)) + ucast sec"

text \<open>\<open>ents = sector_size / sizeof(root_Entries)\<close>\<close>

definition ents :: "FAT32 \<Rightarrow> nat" where
  "ents s = unat (sector_size s) div 32"

text \<open>
  The loop that frees a cluster chain.  It need not end when the card rejects the writes
  and the chain is cyclic, so it runs on fuel: \<open>None\<close> means the fuel ran out.
\<close>

fun free_chain :: "nat \<Rightarrow> FAT32 \<Rightarrow> u32 \<Rightarrow> FAT32 option" where
  "free_chain 0 s c = (if 2 \<le> c \<and> c < EOC_MIN then None else Some s)"
| "free_chain (Suc fuel) s c =
     (if 2 \<le> c \<and> c < EOC_MIN then
        (let (next, s1) = fat_entry s c 0 False;
             (_, s2) = fat_entry s1 c CLUSTER_FREE True
         in free_chain fuel s2 next)
      else Some s)"

text \<open>
  The display name the lookup builds for a short entry when no long name precedes it, and
  the name \<open>rename_file\<close> builds: base up to the first space, then a dot and the extension
  up to its first space unless the extension starts with a space.  Directories get the base
  only in \<open>file_open\<close>.
\<close>

definition dos_name :: "root_Entries \<Rightarrow> bool \<Rightarrow> u8 list" where
  "dos_name e is_dir =
     (let base = takeWhile (\<lambda>c. c \<noteq> 0x20) (FileName e)
      in if is_dir then base
         else if Extension e ! 0 \<noteq> 0x20
           then base @ [0x2E] @ takeWhile (\<lambda>c. c \<noteq> 0x20) (Extension e)
           else base)"

definition empty_write_handler :: "u32 \<Rightarrow> WriteHandler" where
  "empty_write_handler lba = \<lparr>wh_Dir_Entry = lba, wh_File_Size = 0, wh_BaseFatEntry = 0,
     wh_CurrentFatEntry = 0, wh_ClusterIndex = 0, wh_SectorIndex = 0\<rparr>"

text \<open>\<open>FirstClusterHigh = 0; FirstClusterNumber = 0; SizeofFile = 0\<close> on entry \<open>i\<close> of the buffer.\<close>

definition truncate_entry :: "sector \<Rightarrow> nat \<Rightarrow> sector" where
  "truncate_entry buf i =
     store_le32 (store_le16 (store_le16 buf (32 * i + 20) 0) (32 * i + 26) 0) (32 * i + 28) 0"

text \<open>
  What \<open>file_open\<close> does with the entry \<open>i\<close> of sector \<open>lba\<close> whose name matched the last path
  component.  Every branch returns from \<open>file_open\<close>.
\<close>

definition open_matched ::
  "nat \<Rightarrow> FAT32 \<Rightarrow> FileFunction \<Rightarrow> u32 \<Rightarrow> nat \<Rightarrow> (FAT_ErrorCode \<times> FAT32) option" where
  "open_matched fuel s function lba i =
     (let e = entry_at (read_buffer s) i;
          first_cluster = first_cluster_of e;
          is_dir = (Attributes e AND AT_DIRECTORY \<noteq> 0)
      in case function of
           READ \<Rightarrow>
             if \<not> is_dir
             then Some (FILE_FOUND, s\<lparr>read_handler := \<lparr>rh_Dir_Entry = 0, rh_File_Size = SizeofFile e,
                                       rh_FAT_Entry = first_cluster, rh_SectorOffset = 0\<rparr>\<rparr>)
             else Some (FILE_NOT_FOUND, s)
         | DELETE \<Rightarrow>
             if is_dir then Some (FILE_NOT_FOUND, s)
             else (case free_chain fuel s first_cluster of
                     None \<Rightarrow> None
                   | Some s1 \<Rightarrow>
                       let s2 = s1\<lparr>read_buffer := (read_buffer s1)[32 * i := FILE_ERASED]\<rparr>
                       in (case store_physical_block s2 lba (read_buffer s2) of
                             None \<Rightarrow> Some (FILE_NOT_FOUND, s2)
                           | Some s3 \<Rightarrow> Some (FILE_FOUND, s3)))
         | MODIFY \<Rightarrow>
             if is_dir then Some (FILE_NOT_FOUND, s)
             else Some (FILE_FOUND, s\<lparr>write_handler := \<lparr>wh_Dir_Entry = lba,
                          wh_File_Size = SizeofFile e, wh_BaseFatEntry = first_cluster,
                          wh_CurrentFatEntry = first_cluster, wh_ClusterIndex = 0,
                          wh_SectorIndex = 0\<rparr>\<rparr>)
         | OVERWRITE \<Rightarrow>
             if is_dir then Some (FILE_NOT_FOUND, s)
             else (case free_chain fuel s first_cluster of
                     None \<Rightarrow> None
                   | Some s1 \<Rightarrow>
                       let s2 = s1\<lparr>read_buffer := truncate_entry (read_buffer s1) i\<rparr>
                       in (case store_physical_block s2 lba (read_buffer s2) of
                             None \<Rightarrow> Some (FILE_NOT_FOUND, s2)
                           | Some s3 \<Rightarrow>
                               Some (FILE_FOUND, s3\<lparr>write_handler := \<lparr>wh_Dir_Entry = lba,
                                  wh_File_Size = SizeofFile (entry_at (read_buffer s3) i),
                                  wh_BaseFatEntry = 0, wh_CurrentFatEntry = 0,
                                  wh_ClusterIndex = 0, wh_SectorIndex = 0\<rparr>\<rparr>)))
         | CREATE \<Rightarrow>
             if is_dir then Some (FILE_NOT_FOUND, s)
             else (case free_chain fuel s first_cluster of
                     None \<Rightarrow> None
                   | Some s1 \<Rightarrow>
                       let s2 = s1\<lparr>read_buffer := truncate_entry (read_buffer s1) i\<rparr>
                       in (case store_physical_block s2 lba (read_buffer s2) of
                             None \<Rightarrow> Some (FILE_NOT_FOUND, s2)
                           | Some s3 \<Rightarrow>
                               Some (FILE_CREATE_OK,
                                     s3\<lparr>write_handler := empty_write_handler lba\<rparr>))))"

text \<open>
  How the scan of a directory for one path component can end: \<open>file_open\<close> returns at once
  (a sector could not be read), or the last component matched entry \<open>i\<close> of sector \<open>lba\<close>
  (\<open>found_pos\<close>), or a subdirectory was entered (\<open>found\<close>, with the new \<open>dir_cluster\<close>), or the
  entries ran out; the last case carries \<open>lfn_flag\<close> and \<open>lfn_name\<close> on to the next sector.
  What \<open>file_open\<close> does at a match is \<open>open_matched\<close>; every branch of it returns, so the
  scan hands the match to \<open>file_open\<close>, which runs \<open>open_matched\<close> there.
\<close>

datatype scan = Returned FAT_ErrorCode FAT32 | Matched u32 nat FAT32 | Found u32 FAT32
  | NotFound bool "u8 list" FAT32

text \<open>
  The loop over the entries \<open>i\<close> of the sector in \<open>read_buffer\<close>.  The parser's output buffer
  \<open>parsed_name\<close> is an uninitialised local in the source; it is taken as zeroed here.
\<close>

fun scan_entries :: "u8 list \<Rightarrow> bool \<Rightarrow> u32 \<Rightarrow> bool \<Rightarrow> u8 list \<Rightarrow> FAT32 \<Rightarrow> nat list \<Rightarrow> scan" where
  "scan_entries name is_last lba lfn_flag lfn_name s [] = NotFound lfn_flag lfn_name s"
| "scan_entries name is_last lba lfn_flag lfn_name s (i # rest) =
     (let e = entry_at (read_buffer s) i in
      if FileName e ! 0 = FILE_CLEAR then NotFound lfn_flag lfn_name s
      else if FileName e ! 0 = FILE_ERASED
        then scan_entries name is_last lba lfn_flag lfn_name s rest
      else
        (case fat_filename_parser e (replicate MAX_LFN_CHARACTERS 0) (lfn_index s) of
           (type, parsed_name, idx) \<Rightarrow>
             let s = s\<lparr>lfn_index := idx\<rparr> in
             if type = LongFileNameOK
               then scan_entries name is_last lba True
                      (take (MAX_LFN_CHARACTERS - 1) (cstr parsed_name)) s rest
             else if type = LongFileNameNOK \<or> type = Error
               then scan_entries name is_last lba lfn_flag lfn_name s rest
             else
               let comp_name = (if lfn_flag \<and> lfn_name \<noteq> [] then lfn_name
                                else cstr (dos_name e (type = Directory)))
               in if iequals comp_name name then
                    if is_last then Matched lba i s
                    else if Attributes e AND AT_DIRECTORY \<noteq> 0
                            \<and> 2 \<le> first_cluster_of e \<and> first_cluster_of e < EOC_MIN
                      then Found (first_cluster_of e) s
                    else scan_entries name is_last lba False [] s rest
                  else scan_entries name is_last lba False [] s rest))"

text \<open>The loop over the sectors of one directory cluster.\<close>

fun scan_sectors :: "u8 list \<Rightarrow> bool \<Rightarrow> u32 \<Rightarrow> bool \<Rightarrow> u8 list \<Rightarrow> FAT32 \<Rightarrow> nat list \<Rightarrow> scan" where
  "scan_sectors name is_last cluster lfn_flag lfn_name s [] = NotFound lfn_flag lfn_name s"
| "scan_sectors name is_last cluster lfn_flag lfn_name s (sec # rest) =
     (let lba = cluster_lba s cluster (of_nat sec) in
      case get_physical_block s lba of
        None \<Rightarrow> Returned FILE_NOT_FOUND s
      | Some b \<Rightarrow>
          (case scan_entries name is_last lba lfn_flag lfn_name (s\<lparr>read_buffer := b\<rparr>)
                  [0..<ents s] of
             NotFound lf ln s' \<Rightarrow> scan_sectors name is_last cluster lf ln s' rest
           | r \<Rightarrow> r))"

text \<open>
  The loop over the cluster chain of the directory.  A cyclic chain that never holds the
  name keeps it running, so it takes fuel as well.
\<close>

fun scan_chain ::
  "nat \<Rightarrow> u8 list \<Rightarrow> bool \<Rightarrow> u32 \<Rightarrow> bool \<Rightarrow> u8 list \<Rightarrow> FAT32 \<Rightarrow> scan option" where
  "scan_chain 0 name is_last cluster lfn_flag lfn_name s =
     (if 2 \<le> cluster \<and> cluster < EOC_MIN then None else Some (NotFound lfn_flag lfn_name s))"
| "scan_chain (Suc n) name is_last cluster lfn_flag lfn_name s =
     (if 2 \<le> cluster \<and> cluster < EOC_MIN then
        (case scan_sectors name is_last cluster lfn_flag lfn_name s [0..<unat (cluster_size s)] of
           NotFound lf ln s1 \<Rightarrow>
             (let (next, s2) = fat_entry s1 cluster 0 False
              in if EOC_MIN \<le> next \<or> next = 0 then Some (NotFound lf ln s2)
                 else scan_chain n name is_last next lf ln s2)
         | r \<Rightarrow> Some r)
      else Some (NotFound lfn_flag lfn_name s))"

section \<open>Mounting (FAT32::FAT32, read\_master\_block, init)\<close>

text \<open>
  The constructor.  \<open>root_dir_first_cluster\<close> and \<open>first_data_sector\<close> are not in its
  initialiser list; they are taken as 0 here.
\<close>

definition FAT32_new :: "blockdev \<Rightarrow> FAT32" where
  "FAT32_new sd = \<lparr>sd_card = sd, initialized = False, sectors_per_fat = 0,
     sectors_in_partition = 0, sector_size = 512, cluster_size = 0, fat_base = 0,
     data_base = 0, main_offset = 0, last_cluster = 0, root_dir_first_cluster = 0,
     first_data_sector = 0, read_buffer = replicate 512 0, fat_cache_sector = 0xFFFFFFFF,
     fat_cache_valid = False, fat_cache = replicate 512 0,
     read_handler = \<lparr>rh_Dir_Entry = 0, rh_File_Size = 0, rh_FAT_Entry = 0, rh_SectorOffset = 0\<rparr>,
     write_handler = \<lparr>wh_Dir_Entry = 0, wh_File_Size = 0, wh_BaseFatEntry = 0,
        wh_CurrentFatEntry = 0, wh_ClusterIndex = 0, wh_SectorIndex = 0\<rparr>,
     current_dir_cluster = 0, lfn_index = 0\<rparr>"

text \<open>\<open>EB xx 90\<close> or \<open>E9 xx xx\<close> at the start of the sector.\<close>

definition looks_like_bpb :: "sector \<Rightarrow> bool" where
  "looks_like_bpb b \<longleftrightarrow> (b ! 0 = 0xEB \<and> b ! 2 = 0x90) \<or> b ! 0 = 0xE9"

text \<open>The scan of the four MBR partition entries for type \<open>0x0B\<close> or \<open>0x0C\<close>.\<close>

fun find_partition :: "sector \<Rightarrow> nat list \<Rightarrow> u32" where
  "find_partition b [] = 0"
| "find_partition b (i # rest) =
     (let p = 0x1BE + 16 * i
      in if b ! (p + 4) = 0x0B \<or> b ! (p + 4) = 0x0C then load_le32 b (p + 8)
         else find_partition b rest)"

text \<open>
  The geometry computed from the BPB in \<open>read_buffer\<close>.  The class keeps \<open>main_offset\<close>,
  \<open>fat_base\<close>, \<open>data_base\<close> and \<open>last_cluster\<close> in \<open>uint16_t\<close> fields, so the 32-bit values
  computed here are cut to 16 bits when stored.  The copy into \<open>master_boot\<close>, used for
  printing only, is left out.
\<close>

definition parse_bpb :: "FAT32 \<Rightarrow> u32 \<Rightarrow> FAT32" where
  "parse_bpb s bpb_lba =
     (let b = read_buffer s;
          bytes_per_sector = load_le16 b 0x0B;
          sectors_per_cluster = b ! 0x0D;
          reserved_sectors = load_le16 b 0x0E;
          fat_count = b ! 0x10;
          root_entries = load_le16 b 0x11;
          total_sectors_16 = load_le16 b 0x13;
          fat_size_16 = load_le16 b 0x16;
          total_sectors_32 = load_le32 b 0x20;
          fat_size_32 = load_le32 b 0x24;
          root_cluster = load_le32 b 0x2C;
          fatsz = (if fat_size_16 \<noteq> 0 then ucast fat_size_16 else fat_size_32) :: u32;
          tot_sec = (if total_sectors_16 \<noteq> 0 then ucast total_sectors_16 else total_sectors_32) :: u32;
          main_off = ucast bpb_lba :: u16;
          root_dir_sectors =
            (ucast root_entries * 32 + (ucast bytes_per_sector - 1)) div ucast bytes_per_sector :: u32;
          first_data = ucast reserved_sectors + (ucast fat_count * fatsz) + root_dir_sectors :: u32;
          data_sectors = tot_sec - first_data;
          total = data_sectors div ucast sectors_per_cluster :: u32
      in s\<lparr>main_offset := main_off, sector_size := bytes_per_sector,
           cluster_size := ucast sectors_per_cluster, sectors_per_fat := fatsz,
           sectors_in_partition := tot_sec, fat_base := main_off + reserved_sectors,
           root_dir_first_cluster := root_cluster, first_data_sector := first_data,
           data_base := ucast (ucast main_off + first_data :: u32),
           last_cluster := ucast (total + 1)\<rparr>)"

text \<open>
  \<open>None\<close> stands for the division by zero the source runs into when the BPB announces
  0 bytes per sector or 0 sectors per cluster.
\<close>

definition read_master_block :: "FAT32 \<Rightarrow> (bool \<times> FAT32) option" where
  "read_master_block s =
     (case get_physical_block s 0 of
        None \<Rightarrow> Some (False, s)
      | Some b0 \<Rightarrow>
          let s1 = s\<lparr>read_buffer := b0\<rparr> in
          if load_le16 b0 510 \<noteq> 0xAA55 then Some (False, s1)
          else
            let bpb_lba = (if \<not> looks_like_bpb b0 then find_partition b0 [0..<4] else 0)
            in case get_physical_block s1 bpb_lba of
                 None \<Rightarrow> Some (False, s1)
               | Some b \<Rightarrow>
                   let s2 = s1\<lparr>read_buffer := b\<rparr> in
                   if load_le16 b 510 \<noteq> 0xAA55 then Some (False, s2)
                   else if load_le16 b 0x0B = 0 \<or> b ! 0x0D = 0 then None
                   else Some (True, parse_bpb s2 bpb_lba))"

text \<open>\<open>init\<close>, for a card that is present and initialised.\<close>

definition init :: "FAT32 \<Rightarrow> (bool \<times> FAT32) option" where
  "init s =
     (case read_master_block s of
        None \<Rightarrow> None
      | Some (False, s1) \<Rightarrow> Some (False, s1)
      | Some (True, s1) \<Rightarrow>
          Some (True, s1\<lparr>initialized := True, current_dir_cluster := root_dir_first_cluster s1\<rparr>))"

text \<open>The FAT as the card holds it: the entry of a cluster, top four bits cleared.\<close>

definition fat_val :: "FAT32 \<Rightarrow> u32 \<Rightarrow> u32" where
  "fat_val s c = load_le32 (blocks (sd_card s) (fat_lba s c)) (entry_offset s c) AND 0x0FFFFFFF"

text \<open>The fields that fix where FAT and data sectors lie; no file operation changes them.\<close>

definition geometry :: "FAT32 \<Rightarrow> bool \<times> u16 \<times> u16 \<times> u16 \<times> u16 \<times> u16 \<times> u32 \<times> u32" where
  "geometry s = (initialized s, sector_size s, cluster_size s, fat_base s, data_base s,
                 last_cluster s, root_dir_first_cluster s, current_dir_cluster s)"

section \<open>A small formatted volume\<close>

text \<open>
  A 134-sector volume with 512-byte sectors and one sector per cluster: 32 reserved sectors,
  two FAT copies of one sector each, data region from sector 34, root directory in cluster 2,
  hence 100 data clusters.  Sector 0 is the BPB, the FAT holds the two reserved entries and
  the end-of-chain mark of the root directory, everything else is zero.  \<open>example_fs\<close> is the
  driver state after mounting it; \<open>faulty_fs\<close> is the same volume on a card that cannot
  read sector 33 (the backup FAT).
\<close>

definition bpb_sector :: "u16 \<Rightarrow> u8 \<Rightarrow> u16 \<Rightarrow> u8 \<Rightarrow> u32 \<Rightarrow> u32 \<Rightarrow> u32 \<Rightarrow> sector" where
  "bpb_sector bytes_per_sector sectors_per_cluster reserved_sectors fat_count total_sectors_32
      fat_size_32 root_cluster =
     store_le16 (store_le32 (store_le32 (store_le32 (store_le16 (store_le16
       ((replicate 512 0)[0 := 0xEB, 1 := 0x58, 2 := 0x90, 0x0D := sectors_per_cluster,
                          0x10 := fat_count, 0x15 := 0xF8])
       0x0B bytes_per_sector) 0x0E reserved_sectors) 0x20 total_sectors_32) 0x24 fat_size_32)
       0x2C root_cluster) 510 0xAA55"

definition example_bpb :: sector where
  "example_bpb = bpb_sector 512 1 32 2 134 1 2"

definition example_fat :: sector where
  "example_fat = [0xF8, 0xFF, 0xFF, 0x0F, 0xFF, 0xFF, 0xFF, 0x0F, 0xFF, 0xFF, 0xFF, 0x0F] @ replicate 500 0"

definition example_dev :: blockdev where
  "example_dev = \<lparr>blocks = (\<lambda>_. replicate 512 0)(0 := example_bpb, 32 := example_fat),
                   read_fails = (\<lambda>_. False), write_fails = (\<lambda>_. False)\<rparr>"

definition example_fs :: FAT32 where
  "example_fs = \<lparr>sd_card = example_dev, initialized = True, sectors_per_fat = 1,
     sectors_in_partition = 134, sector_size = 512, cluster_size = 1, fat_base = 32,
     data_base = 34, main_offset = 0, last_cluster = 101, root_dir_first_cluster = 2,
     first_data_sector = 34, read_buffer = example_bpb, fat_cache_sector = 0xFFFFFFFF,
     fat_cache_valid = False, fat_cache = replicate 512 0,
     read_handler = \<lparr>rh_Dir_Entry = 0, rh_File_Size = 0, rh_FAT_Entry = 0, rh_SectorOffset = 0\<rparr>,
     write_handler = \<lparr>wh_Dir_Entry = 0, wh_File_Size = 0, wh_BaseFatEntry = 0,
        wh_CurrentFatEntry = 0, wh_ClusterIndex = 0, wh_SectorIndex = 0\<rparr>,
     current_dir_cluster = 2, lfn_index = 0\<rparr>"

definition faulty_fs :: FAT32 where
  "faulty_fs = example_fs\<lparr>sd_card := example_dev\<lparr>read_fails := (\<lambda>a. a = 33)\<rparr>\<rparr>"

text \<open>
  A volume with 65540 data clusters, numbered 2 to 65541: 32 reserved sectors, two FAT
  copies of 513 sectors, one sector per cluster, 66598 sectors in all.  Clusters 2, 3 and 4
  are in use; every other cluster, 65538 among them, is free.
\<close>

definition big_dev :: blockdev where
  "big_dev = \<lparr>blocks = (\<lambda>_. replicate 512 0)
                 (0 := bpb_sector 512 1 32 2 66598 513 2,
                  32 := [0xF8, 0xFF, 0xFF, 0x0F, 0xFF, 0xFF, 0xFF, 0x0F, 0xFF, 0xFF, 0xFF, 0x0F,
                         0xFF, 0xFF, 0xFF, 0x0F, 0xFF, 0xFF, 0xFF, 0x0F] @ replicate 492 0),
               read_fails = (\<lambda>_. False), write_fails = (\<lambda>_. False)\<rparr>"
text \<open>
  A 16 GB volume: 32 reserved sectors, two FAT copies of 32768 sectors, eight sectors per
  cluster, 33619984 sectors in all.  Its first data sector is 65568; the driver's 16-bit
  \<open>data_base\<close> holds 32, the number of the first FAT sector.
\<close>

definition alias_dev :: blockdev where
  "alias_dev = \<lparr>blocks = (\<lambda>_. replicate 512 0)
                   (0 := bpb_sector 512 8 32 2 33619984 32768 2, 32 := example_fat),
                 read_fails = (\<lambda>_. False), write_fails = (\<lambda>_. False)\<rparr>"

text \<open>A long-name directory entry: ordinal \<open>0x41\<close> (last fragment, number 1), the name \<open>A\<close>.\<close>

definition lfn_entry_A :: root_Entries where
  "lfn_entry_A = [0x41, 0x41, 0x00, 0x00, 0x00, 0xFF, 0xFF, 0xFF, 0xFF, 0xFF, 0xFF, 0x0F, 0x00, 0x00]
                 @ replicate 18 0xFF"

section \<open>Free-cluster search (FAT32::fat\_search\_available\_cluster)\<close>

text \<open>One of the two linear scans: the first cluster of the list whose FAT entry reads FREE.\<close>

fun fat_scan :: "FAT32 \<Rightarrow> u32 list \<Rightarrow> u32 option \<times> FAT32" where
  "fat_scan s [] = (None, s)"
| "fat_scan s (c # cs) =
     (let (v, s1) = fat_entry s c 0 False
      in if v = CLUSTER_FREE then (Some c, s1) else fat_scan s1 cs)"

text \<open>The clusters \<open>c\<close> with \<open>lo \<le> c < hi\<close>, in order: the range of a \<open>uint32_t\<close> for-loop.\<close>

definition cluster_range :: "u32 \<Rightarrow> u32 \<Rightarrow> u32 list" where
  "cluster_range lo hi = map of_nat [unat lo..<unat hi]"

definition fat_search_available_cluster :: "FAT32 \<Rightarrow> u16 \<Rightarrow> u16 \<times> FAT32" where
  "fat_search_available_cluster s current_cluster =
     (let start = (if 2 \<le> current_cluster then ucast current_cluster else 2) :: u32
      in case fat_scan s (cluster_range start (ucast (last_cluster s))) of
           (Some c, s1) \<Rightarrow> (ucast c, s1)
         | (None, s1) \<Rightarrow>
             (case fat_scan s1 (cluster_range 2 start) of
                (Some c, s2) \<Rightarrow> (ucast c, s2)
              | (None, s2) \<Rightarrow> (0, s2)))"

section \<open>Creating a missing file (the tail of FAT32::file\_open)\<close>

text \<open>
  Zeroing the sectors of a freshly allocated cluster; \<open>False\<close> when a write fails, which
  makes the caller give up at once.
\<close>

fun zero_cluster :: "FAT32 \<Rightarrow> u32 \<Rightarrow> nat list \<Rightarrow> bool \<times> FAT32" where
  "zero_cluster s c [] = (True, s)"
| "zero_cluster s c (sec # rest) =
     (case store_physical_block s (cluster_lba s c (of_nat sec)) (replicate 512 0) of
        None \<Rightarrow> (False, s)
      | Some s1 \<Rightarrow> zero_cluster s1 c rest)"

text \<open>A fresh zero-length 8.3 entry: name, \<open>AT_ARCHIVE\<close>, everything else zero.\<close>

definition fresh_entry :: "u8 list \<Rightarrow> root_Entries" where
  "fresh_entry dos11 = take 11 dos11 @ [AT_ARCHIVE] @ replicate 20 0"

text \<open>The search for a clear or erased slot among the entries of the sector in \<open>read_buffer\<close>.\<close>

fun place_entries :: "u8 list \<Rightarrow> u32 \<Rightarrow> FAT32 \<Rightarrow> nat list \<Rightarrow> (FAT_ErrorCode \<times> FAT32) option" where
  "place_entries dos11 lba s [] = None"
| "place_entries dos11 lba s (i # rest) =
     (if FileName (entry_at (read_buffer s) i) ! 0 = FILE_CLEAR
         \<or> FileName (entry_at (read_buffer s) i) ! 0 = FILE_ERASED
      then
        (let s1 = s\<lparr>read_buffer := memcpy_at (read_buffer s) (32 * i) (fresh_entry dos11)\<rparr>
         in case store_physical_block s1 lba (read_buffer s1) of
              None \<Rightarrow> Some (FILE_NOT_FOUND, s1)
            | Some s2 \<Rightarrow> Some (FILE_CREATE_OK, s2\<lparr>write_handler := empty_write_handler lba\<rparr>))
      else place_entries dos11 lba s rest)"

text \<open>The loop over the sectors of the cluster; \<open>Inl\<close> is a return from \<open>file_open\<close>.\<close>

fun place_sectors :: "u8 list \<Rightarrow> u32 \<Rightarrow> FAT32 \<Rightarrow> nat list \<Rightarrow> (FAT_ErrorCode \<times> FAT32) + FAT32" where
  "place_sectors dos11 cluster2 s [] = Inr s"
| "place_sectors dos11 cluster2 s (sec # rest) =
     (let lba = cluster_lba s cluster2 (of_nat sec) in
      case get_physical_block s lba of
        None \<Rightarrow> Inl (FILE_NOT_FOUND, s)
      | Some b \<Rightarrow>
          (case place_entries dos11 lba (s\<lparr>read_buffer := b\<rparr>) [0..<ents s] of
             Some r \<Rightarrow> Inl r
           | None \<Rightarrow> place_sectors dos11 cluster2 (s\<lparr>read_buffer := b\<rparr>) rest))"

text \<open>Extending the directory by a new cluster \<open>freec\<close> and placing the entry at its start.\<close>

definition extend_directory :: "u8 list \<Rightarrow> u32 \<Rightarrow> FAT32 \<Rightarrow> FAT_ErrorCode \<times> FAT32" where
  "extend_directory dos11 cluster2 s =
     (let (freec, s1) = fat_search_available_cluster s (ucast cluster2)
      in if freec < 2 then (NO_MORE_FREE_CLUSTER, s1)
         else
           let (_, s2) = fat_entry s1 cluster2 (ucast freec) True;
               (_, s3) = fat_entry s2 (ucast freec) EOC_MIN True
           in case zero_cluster s3 (ucast freec) [0..<unat (cluster_size s3)] of
                (False, s4) \<Rightarrow> (FILE_NOT_FOUND, s4)
              | (True, s4) \<Rightarrow>
                  (let lba = cluster_lba s4 (ucast freec) 0 in
                   case get_physical_block s4 lba of
                     None \<Rightarrow> (FILE_NOT_FOUND, s4)
                   | Some b \<Rightarrow>
                       let s5 = s4\<lparr>read_buffer :=
                                  memcpy_at (replicate (unat (sector_size s4)) 0
                                             @ drop (unat (sector_size s4)) b) 0 (fresh_entry dos11)\<rparr>
                       in (case store_physical_block s5 lba (read_buffer s5) of
                             None \<Rightarrow> (FILE_NOT_FOUND, s5)
                           | Some s6 \<Rightarrow>
                               (FILE_CREATE_OK, s6\<lparr>write_handler := empty_write_handler lba\<rparr>))))"

text \<open>The loop over the directory's cluster chain, on fuel for the same reason as the lookup.\<close>

fun place_chain :: "nat \<Rightarrow> u8 list \<Rightarrow> u32 \<Rightarrow> FAT32 \<Rightarrow> (FAT_ErrorCode \<times> FAT32) option" where
  "place_chain 0 dos11 cluster2 s =
     (if 2 \<le> cluster2 \<and> cluster2 < EOC_MIN then None else Some (FILE_NOT_FOUND, s))"
| "place_chain (Suc n) dos11 cluster2 s =
     (if 2 \<le> cluster2 \<and> cluster2 < EOC_MIN then
        (case place_sectors dos11 cluster2 s [0..<unat (cluster_size s)] of
           Inl r \<Rightarrow> Some r
         | Inr s1 \<Rightarrow>
             (let (next, s2) = fat_entry s1 cluster2 0 False
              in if EOC_MIN \<le> next \<or> next = 0 then Some (extend_directory dos11 cluster2 s2)
                 else place_chain n dos11 next s2))
      else Some (FILE_NOT_FOUND, s))"

definition create_missing ::
  "nat \<Rightarrow> FileFunction \<Rightarrow> u8 list \<Rightarrow> u32 \<Rightarrow> FAT32 \<Rightarrow> (FAT_ErrorCode \<times> FAT32) option" where
  "create_missing n function name dir_cluster s =
     (if function = READ \<or> function = DELETE \<or> function = MODIFY then Some (FILE_NOT_FOUND, s)
      else case to_dos_8_3 name of
             None \<Rightarrow> Some (FILE_NOT_FOUND, s)
           | Some dos11 \<Rightarrow> place_chain n dos11 dir_cluster s)"

section \<open>FAT32::file\_open\<close>

text \<open>
  Where the walk over the path components ends: with a return code, at the directory entry
  the path names (entry \<open>i\<close> of sector \<open>lba\<close>), or with the last component missing from the
  directory \<open>dir_cluster\<close>.
\<close>

datatype resolved = Failed FAT_ErrorCode FAT32 | Hit u32 nat FAT32 | Missing "u8 list" u32 FAT32

fun walk :: "nat \<Rightarrow> u32 \<Rightarrow> FAT32 \<Rightarrow> u8 list list \<Rightarrow> resolved option" where
  "walk n dir_cluster s [] = Some (Failed FILE_NOT_FOUND s)"
| "walk n dir_cluster s (name # rest) =
     (let is_last = (rest = []) in
      case scan_chain n name is_last dir_cluster False [] s of
        None \<Rightarrow> None
      | Some (Returned code s1) \<Rightarrow> Some (Failed code s1)
      | Some (Matched lba i s1) \<Rightarrow> Some (Hit lba i s1)
      | Some (Found dc s1) \<Rightarrow>
          if is_last then Some (Missing name dc s1) else walk n dc s1 rest
      | Some (NotFound lf ln s1) \<Rightarrow>
          if is_last then Some (Missing name dir_cluster s1)
          else Some (Failed FILE_NOT_FOUND s1))"

text \<open>
  The first tokenising loop: leading \<open>.\<close> tokens are skipped and the next token decides;
  \<open>True\<close> when that token is \<open>..\<close>.
\<close>

fun leading_dotdot :: "u8 list list \<Rightarrow> bool" where
  "leading_dotdot [] = False"
| "leading_dotdot (token # rest) =
     (if token = [0x2E] then leading_dotdot rest else token = [0x2E, 0x2E])"

text \<open>
  Path resolution, the part of \<open>file_open\<close> that does not depend on the requested function.
  \<open>n\<close> is the fuel handed to each of the unbounded loops; \<open>None\<close> means one of them used
  it up.
\<close>

definition resolve :: "nat \<Rightarrow> FAT32 \<Rightarrow> u8 list \<Rightarrow> resolved option" where
  "resolve n s filename0 =
     (let filename = cstr filename0 in
      if \<not> initialized s \<or> filename = [] then Some (Failed FILE_NOT_FOUND s)
      else
        let absolute = (hd filename = 0x2F);
            dir_cluster = (if \<not> absolute \<and> 2 \<le> current_dir_cluster s
                           then current_dir_cluster s else root_dir_first_cluster s);
            p = (if absolute then tl filename else filename);
            tokens = strtok_all [] (take MAX_PATH_LENGTH p)
        in if tokens = [] then Some (Failed FILE_NOT_FOUND s)
           else if leading_dotdot tokens then Some (Failed FILE_NOT_FOUND s)
           else
             let parts = filter (\<lambda>t. t \<noteq> [0x2E]) tokens
             in if parts = [] then Some (Failed FILE_NOT_FOUND s)
                else walk n dir_cluster s parts)"

definition file_open ::
  "nat \<Rightarrow> FAT32 \<Rightarrow> u8 list \<Rightarrow> FileFunction \<Rightarrow> (FAT_ErrorCode \<times> FAT32) option" where
  "file_open n s filename function =
     (case resolve n s filename of
        None \<Rightarrow> None
      | Some (Failed code s1) \<Rightarrow> Some (code, s1)
      | Some (Hit lba i s1) \<Rightarrow> open_matched n s1 function lba i
      | Some (Missing name dir_cluster s1) \<Rightarrow> create_missing n function name dir_cluster s1)"

section \<open>Writing (FAT32::file\_write)\<close>

text \<open>
  The heuristic that stores the first cluster of the file being written: the first live
  short entry of the directory sector whose size equals the handle's and whose cluster is
  zero.  The result of the write-back is ignored by the driver.
\<close>

fun set_first_cluster :: "FAT32 \<Rightarrow> u32 \<Rightarrow> nat list \<Rightarrow> FAT32" where
  "set_first_cluster s dir_lba [] = s"
| "set_first_cluster s dir_lba (i # rest) =
     (let e = entry_at (read_buffer s) i in
      if FileName e ! 0 = FILE_CLEAR then s
      else if FileName e ! 0 = FILE_ERASED then set_first_cluster s dir_lba rest
      else if Attributes e AND AT_LFN = AT_LFN then set_first_cluster s dir_lba rest
      else if SizeofFile e = wh_File_Size (write_handler s)
              \<and> FirstClusterHigh e = 0 \<and> FirstClusterNumber e = 0
        then
          (let base = wh_BaseFatEntry (write_handler s);
               buf = store_le16 (store_le16 (read_buffer s) (32 * i + 20)
                        (ucast (drop_bit 16 base AND 0xFFFF))) (32 * i + 26) (ucast (base AND 0xFFFF));
               s1 = s\<lparr>read_buffer := buf\<rparr>
           in case store_physical_block s1 dir_lba buf of None \<Rightarrow> s1 | Some s2 \<Rightarrow> s2)
      else set_first_cluster s dir_lba rest)"

text \<open>
  Allocation of the first cluster when the handle has none; \<open>False\<close> when \<open>file_write\<close>
  returns early (no free cluster, or a failed write while zeroing).
\<close>

definition ensure_start :: "FAT32 \<Rightarrow> u32 \<Rightarrow> bool \<times> FAT32" where
  "ensure_start s dir_lba =
     (if wh_CurrentFatEntry (write_handler s) < 2 then
        (let (newc, s1) = fat_search_available_cluster s 2
         in if newc < 2 then (False, s1)
            else
              let (_, s2) = fat_entry s1 (ucast newc) EOC_MIN True
              in case zero_cluster s2 (ucast newc) [0..<unat (cluster_size s2)] of
                   (False, s3) \<Rightarrow> (False, s3)
                 | (True, s3) \<Rightarrow>
                     let s4 = s3\<lparr>write_handler := (write_handler s3)\<lparr>wh_BaseFatEntry := ucast newc,
                                  wh_CurrentFatEntry := ucast newc, wh_ClusterIndex := 0,
                                  wh_SectorIndex := 0\<rparr>\<rparr>
                     in (case get_physical_block s4 dir_lba of
                           None \<Rightarrow> (True, s4)
                         | Some b \<Rightarrow>
                             (True, set_first_cluster (s4\<lparr>read_buffer := b\<rparr>) dir_lba [0..<ents s4])))
      else (True, s))"

text \<open>
  The step to the next cluster once the sector index reaches the cluster size; \<open>False\<close> when
  \<open>file_write\<close> returns early.
\<close>

definition next_write_cluster :: "FAT32 \<Rightarrow> u32 \<Rightarrow> bool \<times> FAT32" where
  "next_write_cluster s cur_cluster =
     (let s0 = s\<lparr>write_handler := (write_handler s)\<lparr>wh_SectorIndex := 0\<rparr>\<rparr>;
          (next, s1) = fat_entry s0 cur_cluster 0 False
      in if next < 2 \<or> EOC_MIN \<le> next then
           (let (newc, s2) = fat_search_available_cluster s1 (ucast cur_cluster)
            in if newc < 2 then (False, s2)
               else
                 let (_, s3) = fat_entry s2 cur_cluster (ucast newc) True;
                     (_, s4) = fat_entry s3 (ucast newc) EOC_MIN True
                 in case zero_cluster s4 (ucast newc) [0..<unat (cluster_size s4)] of
                      (False, s5) \<Rightarrow> (False, s5)
                    | (True, s5) \<Rightarrow>
                        (True, s5\<lparr>write_handler :=
                                   (write_handler s5)\<lparr>wh_CurrentFatEntry := ucast newc\<rparr>\<rparr>))
         else (True, s1\<lparr>write_handler := (write_handler s1)\<lparr>wh_CurrentFatEntry := next\<rparr>\<rparr>))"

text \<open>
  The streaming loop.  Each round writes \<open>chunk = min(remaining, sector_size)\<close> bytes to the
  sector under the cursor and then moves the cursor to the next sector, whatever the size
  of the chunk.  With \<open>sector_size = 0\<close> the loop makes no progress; that is \<open>None\<close>.
\<close>

function write_loop :: "FAT32 \<Rightarrow> u8 list \<Rightarrow> (bool \<times> FAT32) option" where
  "write_loop s data =
     (if data = [] then Some (True, s)
      else if sector_size s = 0 then None
      else
        let cur_cluster = wh_CurrentFatEntry (write_handler s);
            lba = cluster_lba s cur_cluster (wh_SectorIndex (write_handler s));
            chunk = min (length data) (unat (sector_size s));
            stored =
              (if chunk \<noteq> unat (sector_size s) then
                 (case get_physical_block s lba of
                    None \<Rightarrow> Inl s
                  | Some b \<Rightarrow>
                      let s1 = s\<lparr>read_buffer := memcpy_at b 0 (take chunk data)\<rparr>
                      in (case store_physical_block s1 lba (read_buffer s1) of
                            None \<Rightarrow> Inl s1 | Some s2 \<Rightarrow> Inr s2))
               else
                 (case store_physical_block s lba (take chunk data) of
                    None \<Rightarrow> Inl s | Some s2 \<Rightarrow> Inr s2))
        in case stored of
             Inl s' \<Rightarrow> Some (False, s')
           | Inr s2 \<Rightarrow>
               let s3 = s2\<lparr>write_handler := (write_handler s2)\<lparr>
                              wh_File_Size := wh_File_Size (write_handler s2) + of_nat chunk,
                              wh_SectorIndex := wh_SectorIndex (write_handler s2) + 1\<rparr>\<rparr>
               in if cluster_size s3 \<le> wh_SectorIndex (write_handler s3) then
                    (case next_write_cluster s3 cur_cluster of
                       (False, s4) \<Rightarrow> Some (False, s4)
                     | (True, s4) \<Rightarrow> write_loop s4 (drop chunk data))
                  else write_loop s3 (drop chunk data))"
  by pat_completeness auto
termination
  by (relation "measure (\<lambda>(s, data). length data)") (auto simp: unat_gt_0)

text \<open>The size update that ends \<open>file_write\<close>, with its own way of picking the entry.\<close>

fun write_size :: "FAT32 \<Rightarrow> u32 \<Rightarrow> nat list \<Rightarrow> FAT32" where
  "write_size s dir_lba [] = s"
| "write_size s dir_lba (i # rest) =
     (let e = entry_at (read_buffer s) i;
          base = wh_BaseFatEntry (write_handler s);
          fc = first_cluster_of e
      in if FileName e ! 0 = FILE_CLEAR then s
         else if FileName e ! 0 = FILE_ERASED then write_size s dir_lba rest
         else if Attributes e AND AT_LFN = AT_LFN then write_size s dir_lba rest
         else if (base \<noteq> 0 \<and> fc = base) \<or> (base = 0 \<and> fc \<noteq> 0) then
           (let buf = store_le32 (read_buffer s) (32 * i + 28) (wh_File_Size (write_handler s));
                s1 = s\<lparr>read_buffer := buf\<rparr>
            in case store_physical_block s1 dir_lba buf of None \<Rightarrow> s1 | Some s2 \<Rightarrow> s2)
         else write_size s dir_lba rest)"

definition file_write :: "FAT32 \<Rightarrow> u8 list \<Rightarrow> FAT32 option" where
  "file_write s data =
     (if \<not> initialized s \<or> data = [] then Some s
      else
        let dir_lba = wh_Dir_Entry (write_handler s)
        in if dir_lba = 0 then Some s
           else case ensure_start s dir_lba of
                  (False, s1) \<Rightarrow> Some s1
                | (True, s1) \<Rightarrow>
                    (case write_loop s1 data of
                       None \<Rightarrow> None
                     | Some (False, s2) \<Rightarrow> Some s2
                     | Some (True, s2) \<Rightarrow>
                         (case get_physical_block s2 dir_lba of
                            None \<Rightarrow> Some s2
                          | Some b \<Rightarrow>
                              Some (write_size (s2\<lparr>read_buffer := b\<rparr>) dir_lba [0..<ents s2]))))"

section \<open>Closing (FAT32::file\_close, update\_directory\_entry\_size)\<close>

fun update_size_entries :: "FAT32 \<Rightarrow> u32 \<Rightarrow> nat list \<Rightarrow> FAT32" where
  "update_size_entries s dir_lba [] = s"
| "update_size_entries s dir_lba (i # rest) =
     (let e = entry_at (read_buffer s) i;
          base = wh_BaseFatEntry (write_handler s)
      in if FileName e ! 0 = FILE_CLEAR then s
         else if FileName e ! 0 = FILE_ERASED then update_size_entries s dir_lba rest
         else if Attributes e AND AT_LFN = AT_LFN then update_size_entries s dir_lba rest
         else if base \<noteq> 0 \<and> first_cluster_of e = base then
           (let buf = store_le32 (read_buffer s) (32 * i + 28) (wh_File_Size (write_handler s));
                s1 = s\<lparr>read_buffer := buf\<rparr>
            in case store_physical_block s1 dir_lba buf of None \<Rightarrow> s1 | Some s2 \<Rightarrow> s2)
         else update_size_entries s dir_lba rest)"

definition update_directory_entry_size :: "FAT32 \<Rightarrow> FAT32" where
  "update_directory_entry_size s =
     (if wh_Dir_Entry (write_handler s) = 0 then s
      else case get_physical_block s (wh_Dir_Entry (write_handler s)) of
             None \<Rightarrow> s
           | Some b \<Rightarrow>
               update_size_entries (s\<lparr>read_buffer := b\<rparr>) (wh_Dir_Entry (write_handler s))
                 [0..<ents s])"

definition file_close :: "FAT32 \<Rightarrow> FAT32" where
  "file_close s =
     (let s1 = (if wh_Dir_Entry (write_handler s) \<noteq> 0
                then (update_directory_entry_size s)\<lparr>write_handler := empty_write_handler 0\<rparr>
                else s)
      in if rh_Dir_Entry (read_handler s1) \<noteq> 0
         then s1\<lparr>read_handler := \<lparr>rh_Dir_Entry = 0, rh_File_Size = 0, rh_FAT_Entry = 0,
                                     rh_SectorOffset = 0\<rparr>\<rparr>
         else s1)"

section \<open>Reading (FAT32::file\_read)\<close>

text \<open>
  \<open>file_read\<close> works on the caller's handle when one is passed and on the driver's own
  otherwise.  A caller's handle with size 0 and cluster 0 is first replaced by a copy of the
  driver's handle when that one has bytes left.  The result is the bytes copied to the
  caller's buffer (their number is the return value), the caller's handle, and the state.
\<close>

definition read_step :: "FAT32 \<Rightarrow> ReadHandler \<Rightarrow> u8 list \<times> ReadHandler \<times> FAT32" where
  "read_step s h =
     (if rh_File_Size h = 0 then ([], h, s)
      else
        let bytes_to_read = (if rh_File_Size h < 512 then ucast (rh_File_Size h) else 512) :: u16;
            cluster_sector = cluster_lba s (rh_FAT_Entry h) (rh_SectorOffset h)
        in case get_physical_block s cluster_sector of
             None \<Rightarrow> ([], h, s)
           | Some b \<Rightarrow>
               let s1 = s\<lparr>read_buffer := b\<rparr>;
                   h1 = h\<lparr>rh_File_Size := rh_File_Size h - ucast bytes_to_read,
                          rh_SectorOffset := rh_SectorOffset h + 1\<rparr>
               in if cluster_size s1 \<le> rh_SectorOffset h1 then
                    (let (next_cluster, s2) = fat_entry s1 (rh_FAT_Entry h1) 0 False;
                         h2 = h1\<lparr>rh_SectorOffset := 0, rh_FAT_Entry := next_cluster\<rparr>
                     in (take (unat bytes_to_read) b,
                         (if EOC_MIN \<le> next_cluster \<or> next_cluster < 2
                          then h2\<lparr>rh_File_Size := 0\<rparr> else h2), s2))
                  else (take (unat bytes_to_read) b, h1, s1))"

definition file_read :: "FAT32 \<Rightarrow> ReadHandler option \<Rightarrow> u8 list \<times> ReadHandler option \<times> FAT32" where
  "file_read s handler =
     (if \<not> initialized s then ([], handler, s)
      else case handler of
             None \<Rightarrow>
               (case read_step s (read_handler s) of
                  (out, h', s') \<Rightarrow> (out, None, s'\<lparr>read_handler := h'\<rparr>))
           | Some h \<Rightarrow>
               let h0 = (if rh_File_Size h = 0 \<and> rh_FAT_Entry h = 0
                            \<and> rh_File_Size (read_handler s) \<noteq> 0
                         then read_handler s else h)
               in (case read_step s h0 of (out, h', s') \<Rightarrow> (out, Some h', s')))"

text \<open>
  The handle a \<open>file_read\<close> call is given, or leaves behind: the caller's when one is passed,
  the driver's own otherwise.  \<open>reseeded\<close> tells when the call first replaces the caller's
  handle by a copy of the driver's.
\<close>

definition the_handle :: "FAT32 \<Rightarrow> ReadHandler option \<Rightarrow> ReadHandler" where
  "the_handle s handler = (case handler of None \<Rightarrow> read_handler s | Some h \<Rightarrow> h)"

definition reseeded :: "FAT32 \<Rightarrow> ReadHandler option \<Rightarrow> bool" where
  "reseeded s handler =
     (case handler of
        None \<Rightarrow> False
      | Some h \<Rightarrow> rh_File_Size h = 0 \<and> rh_FAT_Entry h = 0 \<and> rh_File_Size (read_handler s) \<noteq> 0)"

text \<open>The 35 bytes written in the read-back scenario.\<close>

definition hello35 :: "u8 list" where
  "hello35 = bytes ''Hello FAT32 from an embedded core..''"

section \<open>Renaming (FAT32::rename\_file)\<close>

text \<open>\<open>strrchr(path, '/')\<close> and the step past the slash: the part after the last slash.\<close>

definition basename :: "u8 list \<Rightarrow> u8 list" where
  "basename path = rev (takeWhile (\<lambda>c. c \<noteq> 0x2F) (rev path))"

text \<open>The collision check over the directory sector: \<open>True\<close> when an entry bears the new name.\<close>

fun name_collides :: "sector \<Rightarrow> u8 list \<Rightarrow> nat list \<Rightarrow> bool" where
  "name_collides buf new_base [] = False"
| "name_collides buf new_base (i # rest) =
     (let e = entry_at buf i in
      if FileName e ! 0 = FILE_CLEAR then False
      else if FileName e ! 0 = FILE_ERASED then name_collides buf new_base rest
      else if Attributes e = AT_LFN then name_collides buf new_base rest
      else if iequals (cstr (dos_name e False)) new_base then True
      else name_collides buf new_base rest)"

text \<open>The index of the first entry of the sector that bears the old name.\<close>

fun find_old :: "sector \<Rightarrow> u8 list \<Rightarrow> nat list \<Rightarrow> nat option" where
  "find_old buf old_base [] = None"
| "find_old buf old_base (i # rest) =
     (let e = entry_at buf i in
      if FileName e ! 0 = FILE_CLEAR then None
      else if FileName e ! 0 = FILE_ERASED then find_old buf old_base rest
      else if Attributes e = AT_LFN then find_old buf old_base rest
      else if iequals (cstr (dos_name e False)) old_base then Some i
      else find_old buf old_base rest)"

definition rename_file :: "nat \<Rightarrow> FAT32 \<Rightarrow> u8 list \<Rightarrow> u8 list \<Rightarrow> (bool \<times> FAT32) option" where
  "rename_file n s old_name0 new_name0 =
     (let old_name = cstr old_name0; new_name = cstr new_name0 in
      if \<not> initialized s then Some (False, s)
      else
        let old_base = basename old_name; new_base = basename new_name
        in case to_dos_8_3 new_base of
             None \<Rightarrow> Some (False, s)
           | Some dos11_new \<Rightarrow>
               (case file_open n s old_name MODIFY of
                  None \<Rightarrow> None
                | Some (fr, s1) \<Rightarrow>
                    if fr \<noteq> FILE_FOUND \<and> fr \<noteq> FILE_CREATE_OK then Some (False, s1)
                    else
                      let dir_lba = wh_Dir_Entry (write_handler s1)
                      in if dir_lba = 0 then Some (False, s1)
                         else (case get_physical_block s1 dir_lba of
                                 None \<Rightarrow> Some (False, s1)
                               | Some b \<Rightarrow>
                                   let s2 = s1\<lparr>read_buffer := b\<rparr> in
                                   if name_collides b new_base [0..<ents s2] then Some (False, s2)
                                   else (case find_old b old_base [0..<ents s2] of
                                           None \<Rightarrow> Some (False, s2)
                                         | Some i \<Rightarrow>
                                             let s3 = s2\<lparr>read_buffer :=
                                                        memcpy_at b (32 * i) (take 11 dos11_new)\<rparr>
                                             in (case store_physical_block s3 dir_lba (read_buffer s3) of
                                                   None \<Rightarrow> Some (False, s3)
                                                 | Some s4 \<Rightarrow> Some (True, s4))))))"

section \<open>Creating directories (FAT32::create\_directory)\<close>

text \<open>
  A short entry written into a zeroed slot: name, attribute byte, first cluster split into
  its high and low words, everything else zero.
\<close>

definition dir_entry_bytes :: "u8 list \<Rightarrow> u8 \<Rightarrow> u32 \<Rightarrow> root_Entries" where
  "dir_entry_bytes name11 attr cluster =
     store_le16 (store_le16 (take 11 name11 @ [attr] @ replicate 20 0) 20
        (ucast (drop_bit 16 cluster AND 0xFFFF))) 26 (ucast (cluster AND 0xFFFF))"

fun mkdir_entries :: "u8 list \<Rightarrow> u16 \<Rightarrow> u32 \<Rightarrow> FAT32 \<Rightarrow> nat list \<Rightarrow> (bool \<times> FAT32) option" where
  "mkdir_entries dos11 newc lba s [] = None"
| "mkdir_entries dos11 newc lba s (i # rest) =
     (if FileName (entry_at (read_buffer s) i) ! 0 = FILE_CLEAR
         \<or> FileName (entry_at (read_buffer s) i) ! 0 = FILE_ERASED
      then
        (let s1 = s\<lparr>read_buffer := memcpy_at (read_buffer s) (32 * i)
                                       (dir_entry_bytes dos11 AT_DIRECTORY (ucast newc))\<rparr>
         in case store_physical_block s1 lba (read_buffer s1) of
              None \<Rightarrow> Some (False, s1)
            | Some s2 \<Rightarrow> Some (True, s2))
      else mkdir_entries dos11 newc lba s rest)"

fun mkdir_sectors :: "u8 list \<Rightarrow> u16 \<Rightarrow> u32 \<Rightarrow> FAT32 \<Rightarrow> nat list \<Rightarrow> (bool \<times> FAT32) + FAT32" where
  "mkdir_sectors dos11 newc cluster s [] = Inr s"
| "mkdir_sectors dos11 newc cluster s (sec # rest) =
     (let lba = cluster_lba s cluster (of_nat sec) in
      case get_physical_block s lba of
        None \<Rightarrow> Inl (False, s)
      | Some b \<Rightarrow>
          (case mkdir_entries dos11 newc lba (s\<lparr>read_buffer := b\<rparr>) [0..<ents s] of
             Some r \<Rightarrow> Inl r
           | None \<Rightarrow> mkdir_sectors dos11 newc cluster (s\<lparr>read_buffer := b\<rparr>) rest))"

definition mkdir_extend :: "u8 list \<Rightarrow> u16 \<Rightarrow> u32 \<Rightarrow> FAT32 \<Rightarrow> bool \<times> FAT32" where
  "mkdir_extend dos11 newc cluster s =
     (let (freec, s1) = fat_search_available_cluster s (ucast cluster)
      in if freec < 2 then (False, s1)
         else
           let (_, s2) = fat_entry s1 cluster (ucast freec) True;
               (_, s3) = fat_entry s2 (ucast freec) EOC_MIN True
           in case zero_cluster s3 (ucast freec) [0..<unat (cluster_size s3)] of
                (False, s4) \<Rightarrow> (False, s4)
              | (True, s4) \<Rightarrow>
                  (let lba = cluster_lba s4 (ucast freec) 0 in
                   case get_physical_block s4 lba of
                     None \<Rightarrow> (False, s4)
                   | Some b \<Rightarrow>
                       let s5 = s4\<lparr>read_buffer :=
                                  memcpy_at (replicate (unat (sector_size s4)) 0
                                             @ drop (unat (sector_size s4)) b) 0
                                    (dir_entry_bytes dos11 AT_DIRECTORY (ucast newc))\<rparr>
                       in (case store_physical_block s5 lba (read_buffer s5) of
                             None \<Rightarrow> (False, s5)
                           | Some s6 \<Rightarrow> (True, s6))))"

fun mkdir_chain :: "nat \<Rightarrow> u8 list \<Rightarrow> u16 \<Rightarrow> u32 \<Rightarrow> FAT32 \<Rightarrow> (bool \<times> FAT32) option" where
  "mkdir_chain 0 dos11 newc cluster s =
     (if 2 \<le> cluster \<and> cluster < EOC_MIN then None else Some (False, s))"
| "mkdir_chain (Suc n) dos11 newc cluster s =
     (if 2 \<le> cluster \<and> cluster < EOC_MIN then
        (case mkdir_sectors dos11 newc cluster s [0..<unat (cluster_size s)] of
           Inl r \<Rightarrow> Some r
         | Inr s1 \<Rightarrow>
             (let (next, s2) = fat_entry s1 cluster 0 False
              in if EOC_MIN \<le> next \<or> next = 0 then Some (mkdir_extend dos11 newc cluster s2)
                 else mkdir_chain n dos11 newc next s2))
      else Some (False, s))"

definition create_directory :: "nat \<Rightarrow> FAT32 \<Rightarrow> u8 list \<Rightarrow> (bool \<times> FAT32) option" where
  "create_directory n s dir_name0 =
     (let dir_name = cstr dir_name0 in
      if \<not> initialized s then Some (False, s)
      else if 0x2F \<in> set dir_name then Some (False, s)
      else case to_dos_8_3 dir_name of
             None \<Rightarrow> Some (False, s)
           | Some dos11 \<Rightarrow>
               let parent = (if current_dir_cluster s \<noteq> 0 then current_dir_cluster s
                             else root_dir_first_cluster s);
                   (newc, s1) = fat_search_available_cluster s (ucast parent)
               in if newc < 2 then Some (False, s1)
                  else
                    let (_, s2) = fat_entry s1 (ucast newc) EOC_MIN True
                    in case zero_cluster s2 (ucast newc) [0..<unat (cluster_size s2)] of
                         (False, s3) \<Rightarrow> Some (False, s3)
                       | (True, s3) \<Rightarrow>
                           (let lba0 = cluster_lba s3 (ucast newc) 0 in
                            case get_physical_block s3 lba0 of
                              None \<Rightarrow> Some (False, s3)
                            | Some b \<Rightarrow>
                                let zeroed = replicate (unat (sector_size s3)) 0
                                               @ drop (unat (sector_size s3)) b;
                                    dot = dir_entry_bytes (bytes ''.          '') AT_DIRECTORY (ucast newc);
                                    dotdot = dir_entry_bytes (bytes ''..         '') AT_DIRECTORY parent;
                                    s4 = s3\<lparr>read_buffer :=
                                            memcpy_at (memcpy_at zeroed 0 dot) 32 dotdot\<rparr>
                                in (case store_physical_block s4 lba0 (read_buffer s4) of
                                      None \<Rightarrow> Some (False, s4)
                                    | Some s5 \<Rightarrow> mkdir_chain n dos11 newc parent s5)))"

section \<open>Space accounting (count\_free\_clusters, get\_total\_space)\<close>

text \<open>The entries of the FAT sector in \<open>read_buffer\<close> that read FREE once masked.\<close>

definition free_in_sector :: "sector \<Rightarrow> nat \<Rightarrow> nat" where
  "free_in_sector buf entries_per_sector =
     length (filter (\<lambda>entry. load_le32 buf (4 * entry) AND 0x0FFFFFFF = CLUSTER_FREE)
               [0..<entries_per_sector])"

text \<open>The loop over the FAT sectors; a sector that cannot be read is skipped.\<close>

fun count_sectors :: "FAT32 \<Rightarrow> u32 \<Rightarrow> u32 list \<Rightarrow> u32 \<times> FAT32" where
  "count_sectors s free_count [] = (free_count, s)"
| "count_sectors s free_count (sector # rest) =
     (case get_physical_block s sector of
        None \<Rightarrow> count_sectors s free_count rest
      | Some b \<Rightarrow>
          count_sectors (s\<lparr>read_buffer := b\<rparr>)
            (free_count + of_nat (free_in_sector b (unat (sector_size s) div 4))) rest)"

definition count_free_clusters :: "FAT32 \<Rightarrow> u32 \<times> FAT32" where
  "count_free_clusters s =
     (if \<not> initialized s then (0, s)
      else count_sectors s 0
             (cluster_range (ucast (fat_base s)) (ucast (fat_base s) + sectors_per_fat s)))"

text \<open>The \<open>total_clusters\<close> of \<open>get_total_space\<close>: the number of clusters of the data region.\<close>

definition total_clusters :: "FAT32 \<Rightarrow> u32" where
  "total_clusters s =
     (let data_sectors = (if first_data_sector s < sectors_in_partition s
                          then sectors_in_partition s - first_data_sector s else 0)
      in if 0 < cluster_size s then data_sectors div ucast (cluster_size s) else 0)"

definition get_total_space :: "FAT32 \<Rightarrow> u32" where
  "get_total_space s =
     (if \<not> initialized s \<or> cluster_size s = 0 \<or> sector_size s = 0 then 0
      else total_clusters s * ucast (cluster_size s) * ucast (sector_size s))"

definition get_free_space :: "FAT32 \<Rightarrow> u32 \<times> FAT32" where
  "get_free_space s =
     (case count_free_clusters s of
        (free_clusters, s1) \<Rightarrow> (free_clusters * ucast (cluster_size s) * ucast (sector_size s), s1))"

section \<open>The callers in StorageManager and the FAT32 convenience methods\<close>

datatype SDCard_Status = SD_OK | SD_NO_CARD | SD_INIT_FAILS | SD_FILE_NOT_FOUND
  | SD_BAD_FILE_FORMAT | SD_INCOMPLETE_BUFFER_READ | SD_UNSUPPORTED_COMPRESSION
  | SD_WRITE_COMMAND_FAILS | SD_WRITE_DATA_FAILS | SD_READ_COMMAND_FAILS
  | SD_READ_TIMEOUT_TOKEN | SD_READ_BAD_TOKEN | SD_WRITE_TIMEOUT_BUSY
  | SD_WRITE_STATUS_ERROR | SD_ERASE_ERROR | SD_UNKNOWN_ERROR | SD_INIT_TIMEOUT_ACMD41

text \<open>\<open>FAT32::create_file\<close>: open for CREATE, nothing else.\<close>

definition create_file :: "nat \<Rightarrow> FAT32 \<Rightarrow> u8 list \<Rightarrow> (bool \<times> FAT32) option" where
  "create_file n s filename =
     map_option (\<lambda>(r, s1). (r = FILE_CREATE_OK, s1)) (file_open n s filename CREATE)"

text \<open>\<open>StorageManager::write_text_file\<close>: open for CREATE, one \<open>file_write\<close>, close.\<close>

definition write_text_file ::
  "nat \<Rightarrow> FAT32 \<Rightarrow> u8 list \<Rightarrow> u8 list \<Rightarrow> (SDCard_Status \<times> FAT32) option" where
  "write_text_file n s filename buffer =
     (case file_open n s filename CREATE of
        None \<Rightarrow> None
      | Some (fat_result, s1) \<Rightarrow>
          if fat_result \<noteq> FILE_CREATE_OK \<and> fat_result \<noteq> FILE_FOUND
          then Some (SD_FILE_NOT_FOUND, s1)
          else (case file_write s1 buffer of
                  None \<Rightarrow> None
                | Some s2 \<Rightarrow> Some (SD_OK, file_close s2)))"

text \<open>A default-constructed \<open>ReadHandler\<close>, as the callers pass to \<open>file_read\<close>.\<close>

definition fresh_handler :: ReadHandler where
  "fresh_handler = \<lparr>rh_Dir_Entry = 0, rh_File_Size = 0, rh_FAT_Entry = 0, rh_SectorOffset = 0\<rparr>"

text \<open>
  The small volume with one file: \<open>TEST.TXT\<close>, 35 bytes, in cluster 3 (sector 35), and a
  driver whose read handle stands at the start of that file, as \<open>file_open\<close> leaves it.
\<close>

definition hello_dev :: blockdev where
  "hello_dev = \<lparr>blocks = (\<lambda>_. replicate 512 0)
       (0 := example_bpb,
        32 := store_le32 example_fat 12 0x0FFFFFFF,
        34 := store_le32 (dir_entry_bytes (bytes ''TEST    TXT'') AT_ARCHIVE 3) 28 35
                @ replicate 480 0,
        35 := hello35 @ replicate 477 0),
     read_fails = (\<lambda>_. False), write_fails = (\<lambda>_. False)\<rparr>"

definition hello_fs :: FAT32 where
  "hello_fs = example_fs\<lparr>sd_card := hello_dev,
     read_handler := \<lparr>rh_Dir_Entry = 0, rh_File_Size = 35, rh_FAT_Entry = 3, rh_SectorOffset = 0\<rparr>\<rparr>"

text \<open>
  The small volume with one file of three clusters: \<open>BIG.TXT\<close>, 1100 bytes, its chain being
  cluster 3, then 5, then 4.
\<close>

definition chain_dev :: blockdev where
  "chain_dev = \<lparr>blocks = (\<lambda>_. replicate 512 0)
       (0 := example_bpb,
        32 := store_le32 (store_le32 (store_le32 example_fat 12 5) 20 4) 16 0x0FFFFFFF,
        34 := store_le32 (dir_entry_bytes (bytes ''BIG     TXT'') AT_ARCHIVE 3) 28 1100
                @ replicate 480 0),
     read_fails = (\<lambda>_. False), write_fails = (\<lambda>_. False)\<rparr>"

definition chain_fs :: FAT32 where
  "chain_fs = example_fs\<lparr>sd_card := chain_dev\<rparr>"

text \<open>The same volume on a card that rejects writes to sector 32, the FAT sector.\<close>

definition worn_fs :: FAT32 where
  "worn_fs = chain_fs\<lparr>sd_card := chain_dev\<lparr>write_fails := (\<lambda>a. a = 32)\<rparr>\<rparr>"

section \<open>The SD card driver on the SPI bus (SDCard.cpp)\<close>

text \<open>
  Below the block boundary the card is what it answers on the bus.  \<open>miso\<close> holds the bytes
  the card will shift out, one for every byte transferred in either direction (an idle bus
  reads \<open>0xFF\<close> once they are used up); \<open>mosi\<close> logs the bytes the driver has sent;
  \<open>clock_ms\<close> holds the successive readings of the millisecond clock.  A wait loop that
  needs a reading when none is left has no result (\<open>None\<close>).  Baud rate changes and
  microsecond sleeps have no effect in this model.
\<close>

record SDCard =
  sd_initialized :: bool
  card_type :: u8
  last_status :: SDCard_Status
  cs_selected :: bool
  miso :: "u8 list"
  mosi :: "u8 list"
  clock_ms :: "u32 list"

definition CARD_TYPE_SDHC :: u8 where "CARD_TYPE_SDHC = 2"
definition CMD0 :: u8 where "CMD0 = 0"
definition CMD8 :: u8 where "CMD8 = 8"
definition CMD13 :: u8 where "CMD13 = 13"
definition CMD24 :: u8 where "CMD24 = 24"
definition DATA_TOKEN :: u8 where "DATA_TOKEN = 0xFE"
definition BLOCK_SIZE :: u32 where "BLOCK_SIZE = 512"
definition WRITE_TIMEOUT_MS :: u32 where "WRITE_TIMEOUT_MS = 600"

definition spi_cs_select :: "SDCard \<Rightarrow> SDCard" where
  "spi_cs_select c = c\<lparr>cs_selected := True\<rparr>"

definition spi_cs_deselect :: "SDCard \<Rightarrow> SDCard" where
  "spi_cs_deselect c = c\<lparr>cs_selected := False\<rparr>"

definition spi_write_read :: "SDCard \<Rightarrow> u8 \<Rightarrow> u8 \<times> SDCard" where
  "spi_write_read c d =
     (case miso c of
        [] \<Rightarrow> (0xFF, c\<lparr>mosi := mosi c @ [d]\<rparr>)
      | b # bs \<Rightarrow> (b, c\<lparr>miso := bs, mosi := mosi c @ [d]\<rparr>))"

text \<open>The SDK's bulk write: every byte of \<open>src\<close> is sent, what the card answers is dropped.\<close>

definition spi_write_blocking :: "SDCard \<Rightarrow> u8 list \<Rightarrow> SDCard" where
  "spi_write_blocking c src = c\<lparr>miso := drop (length src) (miso c), mosi := mosi c @ src\<rparr>"

text \<open>
  The body of \<open>wait_ready\<close> and \<open>wait_not_busy\<close>: while the clock reading is less than
  \<open>timeout\<close> past \<open>start\<close>, poll one byte and succeed when it is \<open>0xFF\<close>.
\<close>

fun poll_until :: "u32 \<Rightarrow> u32 \<Rightarrow> SDCard \<Rightarrow> u32 list \<Rightarrow> (bool \<times> SDCard) option" where
  "poll_until start timeout c [] = None"
| "poll_until start timeout c (t # ts) =
     (if t - start < timeout then
        (let (r, c1) = spi_write_read (c\<lparr>clock_ms := ts\<rparr>) 0xFF
         in if r = 0xFF then Some (True, c1) else poll_until start timeout c1 ts)
      else Some (False, c\<lparr>clock_ms := ts\<rparr>))"

definition wait_not_busy :: "SDCard \<Rightarrow> u32 \<Rightarrow> (bool \<times> SDCard) option" where
  "wait_not_busy c timeout_ms =
     (case clock_ms c of
        [] \<Rightarrow> None
      | start # ts \<Rightarrow> poll_until start timeout_ms (c\<lparr>clock_ms := ts\<rparr>) ts)"

definition wait_ready :: "SDCard \<Rightarrow> u32 \<Rightarrow> (bool \<times> SDCard) option" where
  "wait_ready c timeout_ms = wait_not_busy c timeout_ms"

text \<open>The 6-byte command packet: start bits and index, big-endian argument, checksum byte.\<close>

definition cmd_packet :: "u8 \<Rightarrow> u32 \<Rightarrow> u8 list" where
  "cmd_packet cmd arg =
     [0x40 OR cmd, ucast (drop_bit 24 arg AND 0xFF), ucast (drop_bit 16 arg AND 0xFF),
      ucast (drop_bit 8 arg AND 0xFF), ucast (arg AND 0xFF),
      (if cmd = CMD0 then 0x95 else if cmd = CMD8 then 0x87 else 0x01)]"

text \<open>The R1 poll: up to \<open>n\<close> bytes are read until one has bit 7 clear.\<close>

fun read_r1 :: "nat \<Rightarrow> u8 \<Rightarrow> SDCard \<Rightarrow> u8 \<times> SDCard" where
  "read_r1 0 r1 c = (r1, c)"
| "read_r1 (Suc n) r1 c =
     (let (r, c1) = spi_write_read c 0xFF
      in if r AND 0x80 = 0 then (r, c1) else read_r1 n r c1)"

text \<open>\<open>send_command_core\<close> without extra response bytes, as \<open>write_block\<close> uses it.\<close>

definition send_command_core :: "SDCard \<Rightarrow> u8 \<Rightarrow> u32 \<Rightarrow> bool \<Rightarrow> (u8 \<times> SDCard) option" where
  "send_command_core c cmd arg keep_cs =
     (let c0 = spi_cs_select c in
      case (if cmd \<noteq> CMD0 then wait_ready c0 500 else Some (True, c0)) of
        None \<Rightarrow> None
      | Some (False, c1) \<Rightarrow> Some (0xFF, spi_cs_deselect c1)
      | Some (True, c1) \<Rightarrow>
          let c2 = spi_write_blocking c1 (cmd_packet cmd arg);
              (r1, c3) = read_r1 20 0xFF c2
          in Some (r1, if \<not> keep_cs then snd (spi_write_read (spi_cs_deselect c3) 0xFF) else c3))"

definition send_command_keep_cs :: "SDCard \<Rightarrow> u8 \<Rightarrow> u32 \<Rightarrow> (u8 \<times> SDCard) option" where
  "send_command_keep_cs c cmd arg = send_command_core c cmd arg True"

text \<open>
  \<open>SDCard::write_block\<close> in its four phases: the CMD24 command, the data phase up to the
  data-response byte, the busy wait, and the CMD13 status check.  (\<open>write_block\<close> on
  \<open>blockdev\<close> is what the filesystem sees of it.)
\<close>

definition write_cmd :: "SDCard \<Rightarrow> u32 \<Rightarrow> (u8 \<times> SDCard) option" where
  "write_cmd c block_num =
     send_command_keep_cs c CMD24
       (if card_type c = CARD_TYPE_SDHC then block_num else block_num * BLOCK_SIZE)"

text \<open>
  The data phase: the token, the 512 bytes \<open>buffer[0]\<close> to \<open>buffer[511]\<close> whatever the caller's
  buffer holds, two dummy CRC bytes, and the byte that reads the data response.
\<close>

definition write_data :: "SDCard \<Rightarrow> u8 list \<Rightarrow> u8 \<times> SDCard" where
  "write_data c buffer =
     (let c1 = snd (spi_write_read c DATA_TOKEN);
          c2 = spi_write_blocking c1 (map (\<lambda>i. buffer ! i) [0..<unat BLOCK_SIZE]);
          c3 = snd (spi_write_read c2 0xFF);
          c4 = snd (spi_write_read c3 0xFF)
      in spi_write_read c4 0xFF)"

definition write_status :: "SDCard \<Rightarrow> (u8 \<times> u8 \<times> SDCard) option" where
  "write_status c =
     (let c1 = snd (spi_write_read (spi_cs_deselect c) 0xFF)
      in case send_command_keep_cs (spi_cs_select c1) CMD13 0 of
           None \<Rightarrow> None
         | Some (r1, c2) \<Rightarrow>
             let (r2, c3) = spi_write_read c2 0xFF
             in Some (r1, r2, snd (spi_write_read (spi_cs_deselect c3) 0xFF)))"

definition SDCard_write_block :: "SDCard \<Rightarrow> u32 \<Rightarrow> u8 list \<Rightarrow> (bool \<times> SDCard) option" where
  "SDCard_write_block c block_num buffer =
     (if \<not> sd_initialized c then Some (False, c\<lparr>last_status := SD_INIT_FAILS\<rparr>)
      else case write_cmd c block_num of
             None \<Rightarrow> None
           | Some (r1, c1) \<Rightarrow>
               if r1 \<noteq> 0x00
               then Some (False, (spi_cs_deselect c1)\<lparr>last_status := SD_WRITE_COMMAND_FAILS\<rparr>)
               else
                 (case write_data c1 buffer of
                    (resp, c2) \<Rightarrow>
                      if resp AND 0x1F \<noteq> 0x05
                      then Some (False, (spi_cs_deselect c2)\<lparr>last_status := SD_WRITE_DATA_FAILS\<rparr>)
                      else
                        (case wait_not_busy c2 WRITE_TIMEOUT_MS of
                           None \<Rightarrow> None
                         | Some (False, c3) \<Rightarrow>
                             Some (False, (spi_cs_deselect c3)\<lparr>last_status := SD_WRITE_TIMEOUT_BUSY\<rparr>)
                         | Some (True, c3) \<Rightarrow>
                             (case write_status c3 of
                                None \<Rightarrow> None
                              | Some (r1', r2, c4) \<Rightarrow>
                                  if r1' \<noteq> 0x00 \<or> r2 \<noteq> 0x00
                                  then Some (False, c4\<lparr>last_status := SD_WRITE_STATUS_ERROR\<rparr>)
                                  else Some (True, c4\<lparr>last_status := SD_OK\<rparr>)))))"

text \<open>
  The bus seen from outside.  \<open>bus m n\<close> is the byte the card shifts out during transfer
  \<open>n\<close> when \<open>m\<close> is what it has left to send: an idle bus reads \<open>0xFF\<close>.  \<open>r1_at m k\<close>: of the
  bytes that follow the six bytes of a command packet, the one numbered \<open>k\<close> is the first
  with bit 7 clear, the R1 response.  \<open>after_command c0 cmd arg n\<close> is the driver after it has
  sent, from \<open>c0\<close>, the packet of \<open>cmd\<close> with argument \<open>arg\<close> and then \<open>n\<close> bytes \<open>0xFF\<close>.
\<close>

definition bus :: "u8 list \<Rightarrow> nat \<Rightarrow> u8" where
  "bus m n = (if n < length m then m ! n else 0xFF)"

definition r1_at :: "u8 list \<Rightarrow> nat \<Rightarrow> bool" where
  "r1_at m k \<longleftrightarrow> (\<forall>j<k. bus m (6 + j) AND 0x80 \<noteq> 0) \<and> bus m (6 + k) AND 0x80 = 0"

definition after_command :: "SDCard \<Rightarrow> u8 \<Rightarrow> u32 \<Rightarrow> nat \<Rightarrow> SDCard" where
  "after_command c0 cmd arg n = spi_write_blocking c0 (cmd_packet cmd arg @ replicate n 0xFF)"

text \<open>
  Three cards for the examples, all initialised and byte-addressed, and a block to write.
  \<open>good_card\<close> answers the write of a block as the protocol prescribes: ready, R1 = 0 to
  CMD24, data accepted (\<open>0xE5\<close>) after token, 512 data bytes and CRC, busy for one byte, then
  ready and a clean CMD13 status.  \<open>refusing_card\<close> answers CMD24 with the illegal-command
  response \<open>0x04\<close>.  \<open>fussy_card\<close> accepts CMD24 and answers the data with the byte \<open>0x15\<close>,
  whose low nibble is \<open>0x05\<close>.
\<close>

definition block512 :: "u8 list" where
  "block512 = [0xDE, 0xAD, 0xBE, 0xEF] @ replicate 508 0x5A"

definition good_card :: SDCard where
  "good_card = \<lparr>sd_initialized = True, card_type = 1, last_status = SD_OK, cs_selected = False,
     miso = [0xFF] @ replicate 6 0xFF @ [0x00] @ replicate 515 0xFF @ [0xE5] @ [0x00, 0xFF]
            @ [0xFF] @ [0xFF] @ replicate 6 0xFF @ [0x00] @ [0x00] @ [0xFF],
     mosi = [], clock_ms = [0, 0, 1, 1, 2, 3, 3]\<rparr>"

definition refusing_card :: SDCard where
  "refusing_card = \<lparr>sd_initialized = True, card_type = 1, last_status = SD_OK,
     cs_selected = False, miso = [0xFF] @ replicate 6 0xFF @ [0x04], mosi = [],
     clock_ms = [0, 0]\<rparr>"

definition fussy_card :: SDCard where
  "fussy_card = \<lparr>sd_initialized = True, card_type = 1, last_status = SD_OK, cs_selected = False,
     miso = [0xFF] @ replicate 6 0xFF @ [0x00] @ replicate 515 0xFF @ [0x15],
     mosi = [], clock_ms = [0, 0]\<rparr>"

section \<open>Cluster chains\<close>

text \<open>
  The cluster chain that starts at \<open>start\<close> in a FAT, given as the map \<open>fat\<close> from a cluster to
  its entry: the clusters reached by following entries for as long as they are valid
  cluster numbers (at least 2, below the end-of-chain range).
\<close>

inductive in_chain :: "(u32 \<Rightarrow> u32) \<Rightarrow> u32 \<Rightarrow> u32 \<Rightarrow> bool" for fat :: "u32 \<Rightarrow> u32" and start :: u32 where
  first: "2 \<le> start \<Longrightarrow> start < EOC_MIN \<Longrightarrow> in_chain fat start start"
| step: "in_chain fat start c \<Longrightarrow> 2 \<le> fat c \<Longrightarrow> fat c < EOC_MIN \<Longrightarrow> in_chain fat start (fat c)"

text \<open>A card without faults, holding 512-byte blocks.\<close>

definition healthy :: "blockdev \<Rightarrow> bool" where
  "healthy d \<longleftrightarrow> (\<forall>a. \<not> read_fails d a \<and> \<not> write_fails d a \<and> length (blocks d a) = 512)"

text \<open>A mounted driver on such a card, with 512-byte sectors and a cache that agrees with it.\<close>

definition fat_ok :: "FAT32 \<Rightarrow> bool" where
  "fat_ok s \<longleftrightarrow> initialized s \<and> sector_size s = 512 \<and> coherent s \<and> healthy (sd_card s)"

text \<open>
  Two driver states on the same volume: the card and the mounted geometry agree, and the
  FAT cache of the second agrees with the card if that of the first does.
\<close>

definition same_volume :: "FAT32 \<Rightarrow> FAT32 \<Rightarrow> bool" where
  "same_volume s s' \<longleftrightarrow>
     sd_card s' = sd_card s \<and> geometry s' = geometry s \<and> (coherent s \<longrightarrow> coherent s')"

text \<open>The driver state a directory scan ends in.\<close>

fun scan_state :: "scan \<Rightarrow> FAT32" where
  "scan_state (Returned c s) = s"
| "scan_state (Matched l i s) = s"
| "scan_state (Found d s) = s"
| "scan_state (NotFound a b s) = s"

section \<open>Properties of the FAT table access\<close>

lemma ff_mask: "(0xFF::u32) = mask 8" by (simp add: mask_eq_decr_exp)

lemma le32_bytes: "(ucast (ucast (v AND 0xFF :: u32) :: u8) :: u32) OR push_bit 8 (ucast (ucast (drop_bit 8 v AND 0xFF) :: u8))
       OR push_bit 16 (ucast (ucast (drop_bit 16 v AND 0xFF) :: u8)) OR push_bit 24 (ucast (ucast (drop_bit 24 v AND 0xFF):: u8)) = v"
  unfolding ff_mask
proof (rule bit_word_eqI)
  fix n assume n: "n < LENGTH(32)"
  consider "n < 8" | "8 \<le> n" "n < 16" | "16 \<le> n" "n < 24" | "24 \<le> n" "n < 32"
    using n by fastforce
  then show "bit (ucast (ucast (v AND mask 8 :: u32) :: u8) OR push_bit 8 (ucast (ucast (drop_bit 8 v AND mask 8) :: u8))
       OR push_bit 16 (ucast (ucast (drop_bit 16 v AND mask 8) :: u8)) OR push_bit 24 (ucast (ucast (drop_bit 24 v AND mask 8):: u8)) :: u32) n = bit v n"
    by cases (auto simp: bit_simps)
qed

lemma load_store_le32:
  "off + 3 < length buf \<Longrightarrow> load_le32 (store_le32 buf off v) off = v"
  by (simp add: load_le32_def store_le32_def le32_bytes)

lemma length_store_le32 [simp]: "length (store_le32 buf off v) = length buf"
  by (simp add: store_le32_def)

lemma mul4_mod512_bound: "((n::nat) * 4) mod 512 + 3 < 512"
proof -
  have "(n * 4) mod 512 = 4 * (n mod 128)"
    using mult_mod_right [of 4 n 128] by (simp add: mult.commute)
  moreover have "n mod 128 < 128" by simp
  ultimately show ?thesis by linarith
qed

lemma unat_mul4_mod512: "unat ((c * 4) mod (512::u32)) = (unat c * 4) mod 512"
proof -
  have d: "(512::nat) dvd 2 ^ 32" by simp
  have "unat ((c * 4) mod (512::u32)) = unat (c * 4) mod 512"
    by (simp add: unat_mod)
  also have "unat (c * 4) = (unat c * 4) mod 2 ^ 32"
    by (simp add: unat_word_ariths)
  also have "(unat c * 4) mod 2 ^ 32 mod 512 = (unat c * 4) mod 512"
    using d by (rule mod_mod_cancel)
  finally show ?thesis .
qed

lemma entry_offset_512: "sector_size s = 512 \<Longrightarrow> entry_offset s c + 3 < 512"
  using mul4_mod512_bound [of "unat c"] by (simp add: entry_offset_def unat_mul4_mod512)

lemma fat_entry_low: "c < 2 \<Longrightarrow> fat_entry s c v w = (INVALID_CLUSTER, s)"
  by (simp add: fat_entry_def)

lemma fat_load_fail:
  "\<not> resident s lba \<Longrightarrow> read_fails (sd_card s) lba \<Longrightarrow> fat_load s lba = None"
  by (auto simp: fat_load_def resident_def get_physical_block_def read_block_def)

lemma fat_load_hit: "resident s lba \<Longrightarrow> fat_load s lba = Some s"
  by (auto simp: fat_load_def resident_def)

lemma fat_load_miss:
  "\<not> resident s lba \<Longrightarrow> \<not> read_fails (sd_card s) lba \<Longrightarrow>
   fat_load s lba = Some (s\<lparr>fat_cache := blocks (sd_card s) lba, fat_cache_sector := lba,
                            fat_cache_valid := True\<rparr>)"
  by (auto simp: fat_load_def resident_def get_physical_block_def read_block_def)

lemma fat_load_some:
  assumes "coherent s" "resident s lba \<or> \<not> read_fails (sd_card s) lba"
  shows "\<exists>s1. fat_load s lba = Some s1 \<and> fat_cache s1 = blocks (sd_card s) lba \<and> sd_card s1 = sd_card s
     \<and> resident s1 lba \<and> initialized s1 = initialized s"
proof (cases "resident s lba")
  case True
  then show ?thesis using assms by (auto simp: fat_load_hit coherent_def resident_def)
next
  case False
  then have "\<not> read_fails (sd_card s) lba" using assms(2) by simp
  from fat_load_miss [OF False this] show ?thesis by (simp add: resident_def)
qed

lemma fat_entry_read:
  assumes "initialized s" "2 \<le> c" "coherent s"
    and "resident s (fat_lba s c) \<or> \<not> read_fails (sd_card s) (fat_lba s c)"
  shows "fst (fat_entry s c v False) = load_le32 (blocks (sd_card s) (fat_lba s c)) (entry_offset s c) AND 0x0FFFFFFF"
    and "sd_card (snd (fat_entry s c v False)) = sd_card s"
    and "resident (snd (fat_entry s c v False)) (fat_lba s c)"
    and "coherent (snd (fat_entry s c v False))"
proof -
  obtain s1 where s1: "fat_load s (fat_lba s c) = Some s1" "fat_cache s1 = blocks (sd_card s) (fat_lba s c)"
    "sd_card s1 = sd_card s" "resident s1 (fat_lba s c)"
    using fat_load_some [OF assms(3,4)] by blast
  have nl: "\<not> c < 2" using assms(2) by (simp add: not_less)
  have e: "fat_entry s c v False = (load_le32 (fat_cache s1) (entry_offset s c) AND 0x0FFFFFFF, s1)"
    using assms(1) nl s1(1) by (simp add: fat_entry_def Let_def)
  show "fst (fat_entry s c v False) = load_le32 (blocks (sd_card s) (fat_lba s c)) (entry_offset s c) AND 0x0FFFFFFF"
    by (simp add: e s1)
  show "sd_card (snd (fat_entry s c v False)) = sd_card s" by (simp add: e s1)
  show "resident (snd (fat_entry s c v False)) (fat_lba s c)" by (simp add: e s1)
  show "coherent (snd (fat_entry s c v False))" using s1 by (simp add: e coherent_def resident_def)
qed

lemma fat_entry_write:
  assumes "initialized s" "2 \<le> c" "coherent s"
    and "resident s (fat_lba s c) \<or> \<not> read_fails (sd_card s) (fat_lba s c)"
    and "\<not> write_fails (sd_card s) (fat_lba s c)"
  shows "fat_entry s c v True =
     (v AND 0x0FFFFFFF,
      s\<lparr>fat_cache := store_le32 (blocks (sd_card s) (fat_lba s c)) (entry_offset s c)
              ((load_le32 (blocks (sd_card s) (fat_lba s c)) (entry_offset s c) AND 0xF0000000) OR (v AND 0x0FFFFFFF)),
         fat_cache_sector := fat_lba s c, fat_cache_valid := True,
         sd_card := (sd_card s)\<lparr>blocks := (blocks (sd_card s))(fat_lba s c :=
            store_le32 (blocks (sd_card s) (fat_lba s c)) (entry_offset s c)
              ((load_le32 (blocks (sd_card s) (fat_lba s c)) (entry_offset s c) AND 0xF0000000) OR (v AND 0x0FFFFFFF)))\<rparr>\<rparr>)"
proof -
  have nl: "\<not> c < 2" using assms(2) by (simp add: not_less)
  have m: "((x AND 0xF0000000) OR (v AND 0x0FFFFFFF)) AND 0x0FFFFFFF = v AND (0x0FFFFFFF::u32)" for x
  proof -
    have "((x AND 0xF0000000) OR (v AND 0x0FFFFFFF)) AND 0x0FFFFFFF
          = (x AND (0xF0000000 AND 0x0FFFFFFF)) OR (v AND (0x0FFFFFFF AND (0x0FFFFFFF::u32)))"
      by (simp only: bit.conj_disj_distrib2 and.assoc)
    also have "\<dots> = v AND 0x0FFFFFFF" by simp
    finally show ?thesis .
  qed
  show ?thesis
  proof (cases "resident s (fat_lba s c)")
    case True
    then have c: "fat_cache s = blocks (sd_card s) (fat_lba s c)" 
      using assms(3) by (auto simp: coherent_def resident_def)
    show ?thesis using assms(1,5) nl True c
      by (simp add: fat_entry_def fat_load_hit Let_def store_physical_block_def write_block_def m)
         (simp add: resident_def)
  next
    case False
    then have r: "\<not> read_fails (sd_card s) (fat_lba s c)" using assms(4) by simp
    show ?thesis using assms(1,5) nl
      by (simp add: fat_entry_def fat_load_miss [OF False r] Let_def store_physical_block_def write_block_def m)
  qed
qed

lemma fat_entry_coherent: "coherent s \<Longrightarrow> coherent (snd (fat_entry s c v w))"
  by (auto simp: fat_entry_def coherent_def fat_load_def get_physical_block_def read_block_def
      store_physical_block_def write_block_def Let_def split: option.splits if_splits)

lemma length_store_le16 [simp]: "length (store_le16 buf off v) = length buf"
  by (simp add: store_le16_def)

lemma length_example_bpb [simp]: "length example_bpb = 512"
  by (simp add: example_bpb_def bpb_sector_def)

lemma faulty_fs_ok:
  "initialized faulty_fs" "sector_size faulty_fs = 512" "coherent faulty_fs"
  "\<forall>a. length (blocks (sd_card faulty_fs) a) = 512"
  by (simp_all add: faulty_fs_def example_fs_def example_dev_def example_fat_def coherent_def)

lemma low28: "((x AND 0xF0000000) OR (v AND 0x0FFFFFFF)) AND 0x0FFFFFFF = v AND (0x0FFFFFFF::u32)"
proof -
  have "((x AND 0xF0000000) OR (v AND 0x0FFFFFFF)) AND 0x0FFFFFFF
        = (x AND (0xF0000000 AND 0x0FFFFFFF)) OR (v AND (0x0FFFFFFF AND (0x0FFFFFFF::u32)))"
    by (simp only: bit.conj_disj_distrib2 and.assoc)
  also have "\<dots> = v AND 0x0FFFFFFF" by simp
  finally show ?thesis .
qed

lemma fat_load_working:
  assumes "resident s lba \<or> \<not> read_fails (sd_card s) lba"
  shows "fat_load s lba = Some (s\<lparr>fat_cache := working s lba, fat_cache_sector := lba,
                                  fat_cache_valid := True\<rparr>)"
proof (cases "resident s lba")
  case True
  then have "s\<lparr>fat_cache := working s lba, fat_cache_sector := lba, fat_cache_valid := True\<rparr> = s"
    by (cases s) (simp add: working_def resident_def)
  then show ?thesis using True by (simp add: fat_load_hit)
next
  case False
  then show ?thesis using assms by (simp add: fat_load_miss working_def)
qed

lemma fat_entry_read_working:
  assumes "initialized s" "2 \<le> c"
    and "resident s (fat_lba s c) \<or> \<not> read_fails (sd_card s) (fat_lba s c)"
  shows "fat_entry s c v False
     = (load_le32 (working s (fat_lba s c)) (entry_offset s c) AND 0x0FFFFFFF,
        s\<lparr>fat_cache := working s (fat_lba s c), fat_cache_sector := fat_lba s c,
          fat_cache_valid := True\<rparr>)"
proof -
  have nl: "\<not> c < 2" using assms(2) by (simp add: not_less)
  show ?thesis using assms(1) nl
    by (simp add: fat_entry_def fat_load_working [OF assms(3)] Let_def)
qed

lemma fat_entry_write_working:
  assumes "initialized s" "2 \<le> c"
    and "resident s (fat_lba s c) \<or> \<not> read_fails (sd_card s) (fat_lba s c)"
  shows "fat_entry s c v True
     = (let new_raw = (load_le32 (working s (fat_lba s c)) (entry_offset s c) AND 0xF0000000)
                        OR (v AND 0x0FFFFFFF);
            line = store_le32 (working s (fat_lba s c)) (entry_offset s c) new_raw
        in if write_fails (sd_card s) (fat_lba s c)
           then (INVALID_CLUSTER, s\<lparr>fat_cache := line, fat_cache_sector := fat_lba s c,
                                     fat_cache_valid := False\<rparr>)
           else (v AND 0x0FFFFFFF,
                 s\<lparr>fat_cache := line, fat_cache_sector := fat_lba s c, fat_cache_valid := True,
                   sd_card := (sd_card s)\<lparr>blocks := (blocks (sd_card s))(fat_lba s c := line)\<rparr>\<rparr>))"
proof -
  have nl: "\<not> c < 2" using assms(2) by (simp add: not_less)
  show ?thesis using assms(1) nl
    by (simp add: fat_entry_def fat_load_working [OF assms(3)] Let_def store_physical_block_def
        write_block_def low28)
qed

lemma working_coherent: "coherent s \<Longrightarrow> working s lba = blocks (sd_card s) lba"
  by (auto simp: working_def coherent_def resident_def)

lemma faulty_fs_working: "working faulty_fs 32 = example_fat" "working faulty_fs 33 = replicate 512 0"
  by (simp_all add: working_def resident_def faulty_fs_def example_fs_def example_dev_def)

section \<open>The long-name branch of the filename parser\<close>

lemma parser_lfn_error:
  "Attributes e = AT_LFN \<Longrightarrow> fat_filename_parser e out idx = (Error, out[0 := 0], idx)"
  by (simp add: fat_filename_parser_def AT_LFN_def AT_VOLUME_ID_def Let_def)

section \<open>Scenarios on the small volume\<close>

section \<open>The free-cluster search\<close>

lemma fat_val_cong:
  "sd_card s' = sd_card s \<Longrightarrow> geometry s' = geometry s \<Longrightarrow> fat_val s' = fat_val s"
  by (auto simp: fat_val_def fat_lba_def entry_offset_def geometry_def fun_eq_iff)

lemma fat_entry_read_frame:
  "sd_card (snd (fat_entry s c v False)) = sd_card s"
  "geometry (snd (fat_entry s c v False)) = geometry s"
  by (auto simp: fat_entry_def fat_load_def geometry_def get_physical_block_def read_block_def
      Let_def split: option.splits if_splits)

lemma fat_entry_read_free:
  assumes "coherent s" and "fst (fat_entry s c 0 False) = CLUSTER_FREE"
  shows "fat_val s c = CLUSTER_FREE" and "2 \<le> c"
  using assms
  by (auto simp: fat_entry_def coherent_def fat_load_def get_physical_block_def read_block_def
      fat_val_def INVALID_CLUSTER_def CLUSTER_FREE_def Let_def not_less
      split: option.splits if_splits)

lemma fat_scan_found:
  "coherent s \<Longrightarrow> fat_scan s cs = (Some c, s1) \<Longrightarrow>
     c \<in> set cs \<and> fat_val s c = CLUSTER_FREE \<and> 2 \<le> c"
proof (induction cs arbitrary: s)
  case Nil
  then show ?case by simp
next
  case (Cons a cs)
  obtain v s2 where e: "fat_entry s a 0 False = (v, s2)" by (cases "fat_entry s a 0 False")
  have fr: "sd_card s2 = sd_card s" "geometry s2 = geometry s" "coherent s2"
    using fat_entry_read_frame [of s a 0] fat_entry_coherent [OF Cons.prems(1), of a 0 False] e
    by simp_all
  show ?case
  proof (cases "v = CLUSTER_FREE")
    case True
    then have "c = a" using Cons.prems(2) e by simp
    moreover have "fat_val s a = CLUSTER_FREE" "2 \<le> a"
      using fat_entry_read_free [OF Cons.prems(1), of a] e True by simp_all
    ultimately show ?thesis by simp
  next
    case False
    then have "fat_scan s2 cs = (Some c, s1)" using Cons.prems(2) e by simp
    from Cons.IH [OF fr(3) this] show ?thesis
      by (simp add: fat_val_cong [OF fr(1,2)])
  qed
qed

lemma fat_scan_frame:
  "sd_card (snd (fat_scan s cs)) = sd_card s \<and> geometry (snd (fat_scan s cs)) = geometry s
   \<and> (coherent s \<longrightarrow> coherent (snd (fat_scan s cs)))"
proof (induction cs arbitrary: s)
  case Nil
  then show ?case by simp
next
  case (Cons a cs)
  obtain v s2 where e: "fat_entry s a 0 False = (v, s2)" by (cases "fat_entry s a 0 False")
  have fr: "sd_card s2 = sd_card s" "geometry s2 = geometry s" "coherent s \<Longrightarrow> coherent s2"
    using fat_entry_read_frame [of s a 0] fat_entry_coherent [of s a 0 False] e
    by simp_all
  show ?case using Cons.IH [of s2] fr by (simp add: e)
qed

lemma cluster_range_mem:
  "c \<in> set (cluster_range lo hi) \<Longrightarrow> lo \<le> c \<and> c < hi"
proof -
  assume "c \<in> set (cluster_range lo hi)"
  then obtain n where n: "c = of_nat n" "unat lo \<le> n" "n < unat hi"
    by (auto simp: cluster_range_def)
  have "n < 2 ^ 32" using n(3) unsigned_less [of hi, where 'a=nat] by simp
  then have "unat c = n" using n(1) by (simp add: unat_of_nat)
  then show ?thesis using n by (simp add: word_le_nat_alt word_less_nat_alt)
qed

lemma unat_ucast_16_32: "unat (ucast (x :: u16) :: u32) = unat x"
  by (simp add: unsigned_ucast_eq take_bit_nat_eq_self_iff) (use unsigned_less [of x, where 'a=nat] in simp)

lemma unat_u16_bound: "unat (x :: u16) < 65536"
  using unsigned_less [of x, where 'a=nat] by simp

lemma trunc16_exact:
  assumes "c < ucast (x :: u16)"
  shows "(ucast (ucast (c::u32) :: u16) :: u32) = c" and "(ucast c :: u16) < x"
proof -
  have lt: "unat c < unat x" using assms by (simp add: word_less_nat_alt unat_ucast_16_32)
  then have b: "unat c < 65536" using unat_u16_bound [of x] by simp
  have u: "unat (ucast c :: u16) = unat c"
    using b by (simp add: unsigned_ucast_eq take_bit_nat_eq_self_iff)
  show "(ucast (ucast c :: u16) :: u32) = c"
    by (simp add: word_unat_eq_iff unat_ucast_16_32 u)
  show "(ucast c :: u16) < x" using lt by (simp add: word_less_nat_alt u)
qed

lemma trunc16_ge2: "2 \<le> (c::u32) \<Longrightarrow> c < ucast (x :: u16) \<Longrightarrow> 2 \<le> (ucast c :: u16)"
proof -
  assume a: "2 \<le> c" "c < ucast x"
  have lt: "unat c < unat x" using a(2) by (simp add: word_less_nat_alt unat_ucast_16_32)
  then have b: "unat c < 65536" using unat_u16_bound [of x] by simp
  have u: "unat (ucast c :: u16) = unat c"
    using b by (simp add: unsigned_ucast_eq take_bit_nat_eq_self_iff)
  show ?thesis using a(1) by (simp add: word_le_nat_alt u)
qed

lemma search_found:
  assumes co: "coherent s" and r: "fat_search_available_cluster s hint = (r, s')" and nz: "r \<noteq> 0"
  shows "2 \<le> r \<and> fat_val s (ucast r) = CLUSTER_FREE \<and> (r < last_cluster s \<or> r < hint)"
proof -
  define start :: u32 where "start = (if 2 \<le> hint then ucast hint else 2)"
  obtain o1 s1 where f1: "fat_scan s (cluster_range start (ucast (last_cluster s))) = (o1, s1)"
    by (cases "fat_scan s (cluster_range start (ucast (last_cluster s)))")
  have fr1: "sd_card s1 = sd_card s" "geometry s1 = geometry s" "coherent s1"
    using fat_scan_frame [of s "cluster_range start (ucast (last_cluster s))"] f1 co by simp_all
  show ?thesis
  proof (cases o1)
    case (Some c)
    then have rc: "r = ucast c" using r f1 by (simp add: fat_search_available_cluster_def start_def)
    have m: "c \<in> set (cluster_range start (ucast (last_cluster s)))" "fat_val s c = CLUSTER_FREE" "2 \<le> c"
      using fat_scan_found [OF co] f1 Some by simp_all
    have lt: "c < ucast (last_cluster s)" using cluster_range_mem [OF m(1)] by simp
    show ?thesis
      using trunc16_exact [OF lt] trunc16_ge2 [OF m(3) lt] m(2) by (simp add: rc)
  next
    case None
    obtain o2 s2 where f2: "fat_scan s1 (cluster_range 2 start) = (o2, s2)"
      by (cases "fat_scan s1 (cluster_range 2 start)")
    show ?thesis
    proof (cases o2)
      case (Some c)
      then have rc: "r = ucast c"
        using r f1 f2 None by (simp add: fat_search_available_cluster_def start_def)
      have m: "c \<in> set (cluster_range 2 start)" "fat_val s1 c = CLUSTER_FREE" "2 \<le> c"
        using fat_scan_found [OF fr1(3)] f2 Some by simp_all
      have lt0: "c < start" using cluster_range_mem [OF m(1)] by simp
      have h2: "2 \<le> hint"
      proof (rule ccontr)
        assume "\<not> 2 \<le> hint"
        then have "start = 2" by (simp add: start_def)
        then show False using lt0 m(3) by simp
      qed
      then have lt: "c < ucast hint" using lt0 by (simp add: start_def)
      show ?thesis
        using trunc16_exact [OF lt] trunc16_ge2 [OF m(3) lt] m(2)
        by (simp add: rc fat_val_cong [OF fr1(1,2)])
    next
      case None2: None
      then have "r = 0" using r f1 f2 None by (simp add: fat_search_available_cluster_def start_def)
      then show ?thesis using nz by simp
    qed
  qed
qed

lemma search_frame:
  "sd_card (snd (fat_search_available_cluster s hint)) = sd_card s
   \<and> geometry (snd (fat_search_available_cluster s hint)) = geometry s
   \<and> (coherent s \<longrightarrow> coherent (snd (fat_search_available_cluster s hint)))"
proof -
  define start :: u32 where "start = (if 2 \<le> hint then ucast hint else 2)"
  define r1 where "r1 = fat_scan s (cluster_range start (ucast (last_cluster s)))"
  define r2 where "r2 = fat_scan (snd r1) (cluster_range 2 start)"
  have a: "sd_card (snd r1) = sd_card s" "geometry (snd r1) = geometry s"
    "coherent s \<longrightarrow> coherent (snd r1)"
    using fat_scan_frame [of s "cluster_range start (ucast (last_cluster s))"] by (simp_all add: r1_def)
  have b: "sd_card (snd r2) = sd_card s" "geometry (snd r2) = geometry s"
    "coherent s \<longrightarrow> coherent (snd r2)"
    using fat_scan_frame [of "snd r1" "cluster_range 2 start"] a by (simp_all add: r2_def)
  have "snd (fat_search_available_cluster s hint) = snd r1 \<or>
        snd (fat_search_available_cluster s hint) = snd r2"
    by (auto simp: fat_search_available_cluster_def r1_def r2_def start_def Let_def
        split: prod.splits option.splits)
  then show ?thesis using a b by auto
qed

lemma mount_example: "init (FAT32_new example_dev) = Some (True, example_fs)"
  by code_simp

lemma fat_scan_mem: "fat_scan s cs = (Some c, s1) \<Longrightarrow> c \<in> set cs"
proof (induction cs arbitrary: s)
  case Nil
  then show ?case by simp
next
  case (Cons a cs)
  then show ?case by (auto simp: split_beta Let_def split: if_splits)
qed

lemma u16_lt_65536: "c < ucast (x :: u16) \<Longrightarrow> (c :: u32) < 65536"
proof -
  assume "c < ucast x"
  then have "unat c < unat x" by (simp add: word_less_nat_alt unat_ucast_16_32)
  then have "unat c < 65536" using unat_u16_bound [of x] by simp
  then show ?thesis by (simp add: word_less_nat_alt)
qed

lemma search_scanned:
  fixes hint :: u16
  defines "start \<equiv> (if 2 \<le> hint then ucast hint else 2) :: u32"
  assumes nz: "fst (fat_search_available_cluster s hint) \<noteq> 0"
  shows "\<exists>c. (fst (fat_scan s (cluster_range start (ucast (last_cluster s)))) = Some c
                \<and> start \<le> c \<and> c < ucast (last_cluster s)
              \<or> fst (fat_scan s (cluster_range start (ucast (last_cluster s)))) = None
                \<and> fst (fat_scan (snd (fat_scan s (cluster_range start (ucast (last_cluster s)))))
                         (cluster_range 2 start)) = Some c
                \<and> c < ucast hint)
            \<and> fst (fat_search_available_cluster s hint) = ucast c
            \<and> ucast (fst (fat_search_available_cluster s hint)) = c
            \<and> 2 \<le> c \<and> c < 65536"
proof -
  have s2: "2 \<le> start"
    by (simp add: start_def word_le_nat_alt unat_ucast_16_32)
  obtain o1 s1 where f1: "fat_scan s (cluster_range start (ucast (last_cluster s))) = (o1, s1)"
    by (cases "fat_scan s (cluster_range start (ucast (last_cluster s)))")
  show ?thesis
  proof (cases o1)
    case (Some c)
    then have rc: "fst (fat_search_available_cluster s hint) = ucast c"
      using f1 by (simp add: fat_search_available_cluster_def start_def)
    have m: "c \<in> set (cluster_range start (ucast (last_cluster s)))"
      using fat_scan_mem f1 Some by simp
    have b: "start \<le> c" "c < ucast (last_cluster s)" using cluster_range_mem [OF m] by simp_all
    have "2 \<le> c" using s2 b(1) by simp
    then show ?thesis
      using trunc16_exact(1) [OF b(2)] u16_lt_65536 [OF b(2)] b f1 Some by (auto simp: rc)
  next
    case None
    obtain o2 s2' where f2: "fat_scan s1 (cluster_range 2 start) = (o2, s2')"
      by (cases "fat_scan s1 (cluster_range 2 start)")
    show ?thesis
    proof (cases o2)
      case (Some c)
      then have rc: "fst (fat_search_available_cluster s hint) = ucast c"
        using f1 f2 None by (simp add: fat_search_available_cluster_def start_def)
      have m: "c \<in> set (cluster_range 2 start)" using fat_scan_mem f2 Some by simp
      have b: "2 \<le> c" "c < start" using cluster_range_mem [OF m] by simp_all
      have h2: "2 \<le> hint"
      proof (rule ccontr)
        assume "\<not> 2 \<le> hint"
        then have "start = 2" by (simp add: start_def)
        then show False using b by simp
      qed
      then have lt: "c < ucast hint" using b(2) by (simp add: start_def)
      show ?thesis
        using trunc16_exact(1) [OF lt] u16_lt_65536 [OF lt] b lt f1 f2 None Some by (auto simp: rc)
    next
      case None2: None
      then have "fst (fat_search_available_cluster s hint) = 0"
        using f1 f2 None by (simp add: fat_search_available_cluster_def start_def)
      then show ?thesis using nz by simp
    qed
  qed
qed

section \<open>SDCard::write\_block\<close>

lemma mosi_spi_write_read: "mosi (snd (spi_write_read c d)) = mosi c @ [d]"
  by (simp add: spi_write_read_def split: list.splits)

lemma mosi_spi_write_blocking: "mosi (spi_write_blocking c src) = mosi c @ src"
  by (simp add: spi_write_blocking_def)

lemma mosi_read_r1: "\<exists>ext. mosi (snd (read_r1 n r c)) = mosi c @ ext"
proof (induction n arbitrary: r c)
  case 0
  then show ?case by simp
next
  case (Suc n)
  obtain r' c1 where e: "spi_write_read c 0xFF = (r', c1)" by (cases "spi_write_read c 0xFF")
  have m: "mosi c1 = mosi c @ [0xFF]" using mosi_spi_write_read [of c "0xFF"] e by simp
  show ?case
  proof (cases "r' AND 0x80 = 0")
    case True
    then show ?thesis using e m by simp
  next
    case False
    obtain ext where "mosi (snd (read_r1 n r' c1)) = mosi c1 @ ext" using Suc.IH by blast
    then show ?thesis using e m False by simp
  qed
qed

lemma length_cmd_packet: "length (cmd_packet cmd arg) = 6"
  by (simp add: cmd_packet_def)

lemma send_command_wire:
  assumes "cmd \<noteq> CMD0" and "wait_ready (spi_cs_select c) 500 = Some (True, c0)"
  shows "\<exists>r1 c1. send_command_keep_cs c cmd arg = Some (r1, c1)
           \<and> take (length (mosi c0) + 6) (mosi c1) = mosi c0 @ cmd_packet cmd arg"
proof -
  define c2 where "c2 = spi_write_blocking c0 (cmd_packet cmd arg)"
  obtain r1 c3 where r: "read_r1 20 0xFF c2 = (r1, c3)" by (cases "read_r1 20 0xFF c2")
  obtain ext where "mosi c3 = mosi c2 @ ext" using mosi_read_r1 [of 20 "0xFF" c2] r by auto
  then have m: "mosi c3 = mosi c0 @ cmd_packet cmd arg @ ext"
    by (simp add: c2_def mosi_spi_write_blocking)
  have "send_command_keep_cs c cmd arg = Some (r1, c3)"
    using assms r by (simp add: send_command_keep_cs_def send_command_core_def Let_def c2_def)
  then show ?thesis using m by (simp add: length_cmd_packet)
qed

lemma poll_until_timeout:
  "poll_until start timeout c ts = Some (False, c') \<Longrightarrow> \<exists>t \<in> set ts. timeout \<le> t - start"
proof (induction ts arbitrary: c)
  case Nil
  then show ?case by simp
next
  case (Cons t ts)
  show ?case
  proof (cases "t - start < timeout")
    case True
    obtain r c1 where e: "spi_write_read (c\<lparr>clock_ms := ts\<rparr>) 0xFF = (r, c1)"
      by (cases "spi_write_read (c\<lparr>clock_ms := ts\<rparr>) 0xFF")
    have "poll_until start timeout c1 ts = Some (False, c')"
      using Cons.prems True e by (simp split: if_splits)
    from Cons.IH [OF this] show ?thesis by auto
  next
    case False
    then show ?thesis by (auto simp: not_less)
  qed
qed

lemma wait_not_busy_timeout:
  "wait_not_busy c timeout = Some (False, c') \<Longrightarrow>
     \<exists>start ts. clock_ms c = start # ts \<and> (\<exists>t \<in> set ts. timeout \<le> t - start)"
  by (auto simp: wait_not_busy_def split: list.splits dest: poll_until_timeout)

lemma bus_drop: "bus (drop k m) n = bus m (k + n)"
  by (auto simp: bus_def)

lemma swr_wire: "spi_write_read c d = (bus (miso c) 0, spi_write_blocking c [d])"
proof (cases "miso c")
  case Nil
  then have "c\<lparr>mosi := mosi c @ [d]\<rparr> = c\<lparr>miso := [], mosi := mosi c @ [d]\<rparr>"
    by (cases c) simp
  then show ?thesis using Nil by (simp add: spi_write_read_def spi_write_blocking_def bus_def)
next
  case (Cons b bs)
  then show ?thesis by (simp add: spi_write_read_def spi_write_blocking_def bus_def)
qed

lemma swb_swb: "spi_write_blocking (spi_write_blocking c a) b = spi_write_blocking c (a @ b)"
  by (simp add: spi_write_blocking_def add.commute)

lemma miso_swb: "miso (spi_write_blocking c a) = drop (length a) (miso c)"
  by (simp add: spi_write_blocking_def)

lemma cs_swb:
  "spi_write_blocking (spi_cs_deselect c) a = spi_cs_deselect (spi_write_blocking c a)"
  "spi_write_blocking (spi_cs_select c) a = spi_cs_select (spi_write_blocking c a)"
  "spi_cs_deselect (spi_cs_deselect c) = spi_cs_deselect c"
  "spi_cs_deselect (spi_cs_select c) = spi_cs_deselect c"
  "spi_cs_select (spi_cs_deselect c) = spi_cs_select c"
  "miso (spi_cs_deselect c) = miso c" "miso (spi_cs_select c) = miso c"
  by (simp_all add: spi_write_blocking_def spi_cs_deselect_def spi_cs_select_def)

lemma write_data_wire:
  assumes "length buf = 512"
  shows "write_data c buf
     = (bus (miso c) 515, spi_write_blocking c ([DATA_TOKEN] @ buf @ [0xFF, 0xFF, 0xFF]))"
proof -
  have "map (\<lambda>i. buf ! i) [0..<512] = buf" using assms map_nth [of buf] by simp
  then show ?thesis
    by (simp add: write_data_def BLOCK_SIZE_def swr_wire swb_swb miso_swb bus_drop assms)
qed

lemma read_r1_found:
  "k < n \<Longrightarrow> (\<forall>j<k. bus (miso c) j AND 0x80 \<noteq> 0) \<Longrightarrow> bus (miso c) k AND 0x80 = 0 \<Longrightarrow>
     read_r1 n r c = (bus (miso c) k, spi_write_blocking c (replicate (Suc k) 0xFF))"
proof (induction n arbitrary: k r c)
  case 0
  then show ?case by simp
next
  case (Suc n)
  show ?case
  proof (cases k)
    case 0
    then show ?thesis using Suc.prems by (simp add: swr_wire)
  next
    case (Suc k')
    have nz: "bus (miso c) 0 AND 0x80 \<noteq> 0" using Suc.prems(2) Suc by simp
    let ?c1 = "spi_write_blocking c [0xFF]"
    have a: "k' < n" using Suc.prems(1) Suc by simp
    have b: "\<forall>j<k'. bus (miso ?c1) j AND 0x80 \<noteq> 0"
      using Suc.prems(2) Suc by (auto simp: miso_swb bus_drop)
    have d: "bus (miso ?c1) k' AND 0x80 = 0"
      using Suc.prems(3) Suc by (simp add: miso_swb bus_drop)
    have "read_r1 n (bus (miso c) 0) ?c1
          = (bus (miso ?c1) k', spi_write_blocking ?c1 (replicate (Suc k') 0xFF))"
      by (rule Suc.IH [OF a b d])
    then show ?thesis using nz Suc
      by (simp add: swr_wire swb_swb miso_swb bus_drop)
  qed
qed

lemma read_r1_none:
  "(\<forall>j<n. bus (miso c) j AND 0x80 \<noteq> 0) \<Longrightarrow> r AND 0x80 \<noteq> 0 \<Longrightarrow>
     fst (read_r1 n r c) AND 0x80 \<noteq> 0
     \<and> snd (read_r1 n r c) = spi_write_blocking c (replicate n 0xFF)"
proof (induction n arbitrary: r c)
  case 0
  then show ?case by (simp add: spi_write_blocking_def)
next
  case (Suc n)
  have nz: "bus (miso c) 0 AND 0x80 \<noteq> 0" using Suc.prems(1) by simp
  let ?c1 = "spi_write_blocking c [0xFF]"
  have b: "\<forall>j<n. bus (miso ?c1) j AND 0x80 \<noteq> 0"
    using Suc.prems(1) by (auto simp: miso_swb bus_drop)
  from Suc.IH [OF b nz] show ?case using nz
    by (simp add: swr_wire swb_swb)
qed

lemma send_command_not_ready:
  assumes "cmd \<noteq> CMD0" and "wait_ready (spi_cs_select c) 500 = Some (False, c0)"
  shows "send_command_keep_cs c cmd arg = Some (0xFF, spi_cs_deselect c0)"
  using assms by (simp add: send_command_keep_cs_def send_command_core_def)

lemma send_command_r1:
  assumes "cmd \<noteq> CMD0" and "wait_ready (spi_cs_select c) 500 = Some (True, c0)"
    and "k < 20" and "r1_at (miso c0) k"
  shows "send_command_keep_cs c cmd arg
     = Some (bus (miso c0) (6 + k), after_command c0 cmd arg (Suc k))"
proof -
  let ?c2 = "spi_write_blocking c0 (cmd_packet cmd arg)"
  have a: "\<forall>j<k. bus (miso ?c2) j AND 0x80 \<noteq> 0" "bus (miso ?c2) k AND 0x80 = 0"
    using assms(4) by (simp_all add: r1_at_def miso_swb bus_drop length_cmd_packet)
  have "read_r1 20 0xFF ?c2 = (bus (miso ?c2) k, spi_write_blocking ?c2 (replicate (Suc k) 0xFF))"
    by (rule read_r1_found [OF assms(3) a])
  then show ?thesis using assms(1,2)
    by (simp add: send_command_keep_cs_def send_command_core_def Let_def after_command_def
        swb_swb miso_swb bus_drop length_cmd_packet)
qed

lemma send_command_no_r1:
  assumes "cmd \<noteq> CMD0" and "wait_ready (spi_cs_select c) 500 = Some (True, c0)"
    and "\<forall>j<20. bus (miso c0) (6 + j) AND 0x80 \<noteq> 0"
  shows "\<exists>r. r \<noteq> 0 \<and> send_command_keep_cs c cmd arg = Some (r, after_command c0 cmd arg 20)"
proof -
  let ?c2 = "spi_write_blocking c0 (cmd_packet cmd arg)"
  have a: "\<forall>j<20. bus (miso ?c2) j AND 0x80 \<noteq> 0"
    using assms(3) by (simp add: miso_swb bus_drop length_cmd_packet)
  have f: "(0xFF :: u8) AND 0x80 \<noteq> 0" by simp
  note n = read_r1_none [OF a f]
  have "fst (read_r1 20 0xFF ?c2) \<noteq> 0" using n by auto
  moreover have "read_r1 20 0xFF ?c2
       = (fst (read_r1 20 0xFF ?c2), spi_write_blocking ?c2 (replicate 20 0xFF))"
    using n by (simp add: prod_eq_iff)
  then have "send_command_keep_cs c cmd arg
       = Some (fst (read_r1 20 0xFF ?c2), after_command c0 cmd arg 20)"
    using assms(1,2)
    by (simp add: send_command_keep_cs_def send_command_core_def Let_def after_command_def
        swb_swb)
  ultimately show ?thesis by blast
qed

lemma cs_select_idem: "spi_cs_select (spi_cs_select c) = spi_cs_select c"
  by (simp add: spi_cs_select_def)

lemma miso_after_command: "miso (after_command c cmd arg n) = drop (6 + n) (miso c)"
  by (simp add: after_command_def miso_swb length_cmd_packet)

lemma write_status_not_ready:
  assumes "wait_ready (spi_cs_select (spi_write_blocking (spi_cs_deselect c3) [0xFF])) 500
             = Some (False, c5)"
  shows "\<exists>r2. write_status c3
     = Some (0xFF, r2, spi_cs_deselect (spi_write_blocking c5 [0xFF, 0xFF]))"
proof -
  have n: "CMD13 \<noteq> CMD0" by (simp add: CMD13_def CMD0_def)
  have "send_command_keep_cs (spi_cs_select (spi_write_blocking (spi_cs_deselect c3) [0xFF])) CMD13 0
        = Some (0xFF, spi_cs_deselect c5)"
    by (rule send_command_not_ready [OF n]) (simp add: cs_select_idem assms)
  then show ?thesis
    by (simp add: write_status_def swr_wire Let_def cs_swb swb_swb)
qed

lemma write_status_r1:
  assumes "wait_ready (spi_cs_select (spi_write_blocking (spi_cs_deselect c3) [0xFF])) 500
             = Some (True, c5)"
    and "k < 20" and "r1_at (miso c5) k"
  shows "write_status c3
     = Some (bus (miso c5) (6 + k), bus (miso c5) (7 + k),
             spi_cs_deselect (spi_write_blocking (after_command c5 CMD13 0 (Suc k)) [0xFF, 0xFF]))"
proof -
  have n: "CMD13 \<noteq> CMD0" by (simp add: CMD13_def CMD0_def)
  have "send_command_keep_cs (spi_cs_select (spi_write_blocking (spi_cs_deselect c3) [0xFF])) CMD13 0
        = Some (bus (miso c5) (6 + k), after_command c5 CMD13 0 (Suc k))"
    by (rule send_command_r1 [OF n _ assms(2,3)]) (simp add: cs_select_idem assms)
  then show ?thesis
    by (simp add: write_status_def swr_wire Let_def cs_swb swb_swb miso_after_command bus_drop)
qed

lemma write_status_no_r1:
  assumes "wait_ready (spi_cs_select (spi_write_blocking (spi_cs_deselect c3) [0xFF])) 500
             = Some (True, c5)"
    and "\<forall>j<20. bus (miso c5) (6 + j) AND 0x80 \<noteq> 0"
  shows "\<exists>r1 r2. r1 \<noteq> 0 \<and> write_status c3
     = Some (r1, r2, spi_cs_deselect (spi_write_blocking (after_command c5 CMD13 0 20) [0xFF, 0xFF]))"
proof -
  have n: "CMD13 \<noteq> CMD0" by (simp add: CMD13_def CMD0_def)
  have "\<exists>r. r \<noteq> 0 \<and> send_command_keep_cs (spi_cs_select (spi_write_blocking (spi_cs_deselect c3) [0xFF])) CMD13 0
        = Some (r, after_command c5 CMD13 0 20)"
    by (rule send_command_no_r1 [OF n _ assms(2)]) (simp add: cs_select_idem assms)
  then obtain r where "r \<noteq> 0"
    "send_command_keep_cs (spi_cs_select (spi_write_blocking (spi_cs_deselect c3) [0xFF])) CMD13 0
        = Some (r, after_command c5 CMD13 0 20)" by blast
  then show ?thesis
    by (simp add: write_status_def swr_wire Let_def cs_swb swb_swb)
qed

lemma write_cmd_cases:
  fixes c :: SDCard and lba :: u32
  defines "addr \<equiv> (if card_type c = CARD_TYPE_SDHC then lba else lba * 512)"
  shows "wait_ready (spi_cs_select c) 500 = Some (False, c0) \<Longrightarrow>
           write_cmd c lba = Some (0xFF, spi_cs_deselect c0)"
    and "wait_ready (spi_cs_select c) 500 = Some (True, c0) \<Longrightarrow>
           \<forall>j<20. bus (miso c0) (6 + j) AND 0x80 \<noteq> 0 \<Longrightarrow>
           \<exists>r. r \<noteq> 0 \<and> write_cmd c lba = Some (r, after_command c0 CMD24 addr 20)"
    and "wait_ready (spi_cs_select c) 500 = Some (True, c0) \<Longrightarrow> k < 20 \<Longrightarrow> r1_at (miso c0) k \<Longrightarrow>
           write_cmd c lba = Some (bus (miso c0) (6 + k), after_command c0 CMD24 addr (Suc k))"
proof -
  have n: "CMD24 \<noteq> CMD0" by (simp add: CMD24_def CMD0_def)
  have a: "(if card_type c = CARD_TYPE_SDHC then lba else lba * BLOCK_SIZE) = addr"
    by (simp add: addr_def BLOCK_SIZE_def)
  show "wait_ready (spi_cs_select c) 500 = Some (False, c0) \<Longrightarrow>
           write_cmd c lba = Some (0xFF, spi_cs_deselect c0)"
    unfolding write_cmd_def a by (rule send_command_not_ready [OF n])
  show "wait_ready (spi_cs_select c) 500 = Some (True, c0) \<Longrightarrow>
           \<forall>j<20. bus (miso c0) (6 + j) AND 0x80 \<noteq> 0 \<Longrightarrow>
           \<exists>r. r \<noteq> 0 \<and> write_cmd c lba = Some (r, after_command c0 CMD24 addr 20)"
    unfolding write_cmd_def a by (rule send_command_no_r1 [OF n])
  show "wait_ready (spi_cs_select c) 500 = Some (True, c0) \<Longrightarrow> k < 20 \<Longrightarrow> r1_at (miso c0) k \<Longrightarrow>
           write_cmd c lba = Some (bus (miso c0) (6 + k), after_command c0 CMD24 addr (Suc k))"
    unfolding write_cmd_def a by (rule send_command_r1 [OF n])
qed

lemma write_block_data_response:
  fixes c :: SDCard and lba :: u32 and buf :: "u8 list"
  assumes ini: "sd_initialized c" and len: "length buf = 512"
    and rdy: "wait_ready (spi_cs_select c) 500 = Some (True, c0)"
    and k: "k < 20" "r1_at (miso c0) k" and r1: "bus (miso c0) (6 + k) = 0"
    and resp: "bus (miso c0) (k + 522) AND 0x1F \<noteq> 0x05"
  shows "map_option (\<lambda>(ok, c). (ok, last_status c)) (SDCard_write_block c lba buf)
           = Some (False, SD_WRITE_DATA_FAILS)"
proof -
  define addr where "addr = (if card_type c = CARD_TYPE_SDHC then lba else lba * 512)"
  define c1 where "c1 = after_command c0 CMD24 addr (Suc k)"
  have wc: "write_cmd c lba = Some (bus (miso c0) (6 + k), c1)"
    using write_cmd_cases(3) [OF rdy k] unfolding addr_def c1_def by blast
  have wd: "fst (write_data c1 buf) = bus (miso c0) (k + 522)"
    by (simp add: write_data_wire [OF len] c1_def miso_after_command bus_drop add.commute)
  show ?thesis using ini wc wd r1 resp
    by (simp add: SDCard_write_block_def split_beta)
qed

lemma swb_clock: "spi_write_blocking (c\<lparr>clock_ms := ts\<rparr>) a = (spi_write_blocking c a)\<lparr>clock_ms := ts\<rparr>"
  by (simp add: spi_write_blocking_def)

lemma poll_until_wire:
  "poll_until start T c ts = Some (ok, c') \<Longrightarrow>
     \<exists>n. n < length ts \<and> (\<forall>j<n. ts ! j - start < T \<and> bus (miso c) j \<noteq> 0xFF)
         \<and> (if ok then ts ! n - start < T \<and> bus (miso c) n = 0xFF
                      \<and> c' = (spi_write_blocking c (replicate (Suc n) 0xFF))\<lparr>clock_ms := drop (Suc n) ts\<rparr>
             else T \<le> ts ! n - start
                      \<and> c' = (spi_write_blocking c (replicate n 0xFF))\<lparr>clock_ms := drop (Suc n) ts\<rparr>)"
proof (induction ts arbitrary: c)
  case Nil
  then show ?case by simp
next
  case (Cons t ts)
  show ?case
  proof (cases "t - start < T")
    case False
    then have "ok = False" "c' = c\<lparr>clock_ms := ts\<rparr>" using Cons.prems by simp_all
    then show ?thesis using False
      by (intro exI [of _ 0]) (simp add: spi_write_blocking_def not_less)
  next
    case True
    let ?c1 = "spi_write_blocking (c\<lparr>clock_ms := ts\<rparr>) [0xFF]"
    have m: "miso (c\<lparr>clock_ms := ts\<rparr>) = miso c" by simp
    show ?thesis
    proof (cases "bus (miso c) 0 = 0xFF")
      case ff: True
      then have "ok = True" "c' = ?c1" using Cons.prems True by (simp_all add: swr_wire)
      then show ?thesis using True ff
        by (intro exI [of _ 0]) (simp add: swb_clock)
    next
      case nf: False
      then have "poll_until start T ?c1 ts = Some (ok, c')"
        using Cons.prems True by (simp add: swr_wire)
      from Cons.IH [OF this] obtain n where n: "n < length ts"
        "\<forall>j<n. ts ! j - start < T \<and> bus (miso ?c1) j \<noteq> 0xFF"
        "if ok then ts ! n - start < T \<and> bus (miso ?c1) n = 0xFF
                      \<and> c' = (spi_write_blocking ?c1 (replicate (Suc n) 0xFF))\<lparr>clock_ms := drop (Suc n) ts\<rparr>
         else T \<le> ts ! n - start
                      \<and> c' = (spi_write_blocking ?c1 (replicate n 0xFF))\<lparr>clock_ms := drop (Suc n) ts\<rparr>"
        by blast
      have a: "\<forall>j<Suc n. (t # ts) ! j - start < T \<and> bus (miso c) j \<noteq> 0xFF"
      proof (intro allI impI)
        fix j assume "j < Suc n"
        then show "(t # ts) ! j - start < T \<and> bus (miso c) j \<noteq> 0xFF"
          using n(2) True nf by (cases j) (auto simp: miso_swb bus_drop)
      qed
      have b: "(spi_write_blocking ?c1 (replicate k 0xFF))\<lparr>clock_ms := ts'\<rparr>
                 = (spi_write_blocking c (replicate (Suc k) 0xFF))\<lparr>clock_ms := ts'\<rparr>" for k ts'
        by (simp add: spi_write_blocking_def)
      have m1: "bus (miso ?c1) n = bus (miso c) (Suc n)" by (simp add: miso_swb bus_drop)
      show ?thesis
      proof (cases ok)
        case True
        then have "ts ! n - start < T" "bus (miso c) (Suc n) = 0xFF"
          "c' = (spi_write_blocking c (replicate (Suc (Suc n)) 0xFF))\<lparr>clock_ms := drop (Suc n) ts\<rparr>"
          using n(3) m1 b [where k = "Suc n" and ts' = "drop (Suc n) ts"] by simp_all
        then show ?thesis using n(1) a True
          by (intro exI [of _ "Suc n"]) simp
      next
        case False
        then have "T \<le> ts ! n - start"
          "c' = (spi_write_blocking c (replicate (Suc n) 0xFF))\<lparr>clock_ms := drop (Suc n) ts\<rparr>"
          using n(3) b [where k = n and ts' = "drop (Suc n) ts"] by simp_all
        then show ?thesis using n(1) a False
          by (intro exI [of _ "Suc n"]) simp
      qed
    qed
  qed
qed

lemma wait_not_busy_wire:
  "wait_not_busy c T = Some (ok, c') \<Longrightarrow>
     \<exists>start ts n. clock_ms c = start # ts \<and> n < length ts
         \<and> (\<forall>j<n. ts ! j - start < T \<and> bus (miso c) j \<noteq> 0xFF)
         \<and> (if ok then ts ! n - start < T \<and> bus (miso c) n = 0xFF
                      \<and> c' = (spi_write_blocking c (replicate (Suc n) 0xFF))\<lparr>clock_ms := drop (Suc n) ts\<rparr>
             else T \<le> ts ! n - start
                      \<and> c' = (spi_write_blocking c (replicate n 0xFF))\<lparr>clock_ms := drop (Suc n) ts\<rparr>)"
proof -
  assume a: "wait_not_busy c T = Some (ok, c')"
  then obtain start ts where cl: "clock_ms c = start # ts"
    by (cases "clock_ms c") (simp_all add: wait_not_busy_def)
  then have "poll_until start T (c\<lparr>clock_ms := ts\<rparr>) ts = Some (ok, c')"
    using a by (simp add: wait_not_busy_def)
  from poll_until_wire [OF this] obtain n where n: "n < length ts"
    "\<forall>j<n. ts ! j - start < T \<and> bus (miso (c\<lparr>clock_ms := ts\<rparr>)) j \<noteq> 0xFF"
    "if ok then ts ! n - start < T \<and> bus (miso (c\<lparr>clock_ms := ts\<rparr>)) n = 0xFF
                  \<and> c' = (spi_write_blocking (c\<lparr>clock_ms := ts\<rparr>) (replicate (Suc n) 0xFF))\<lparr>clock_ms := drop (Suc n) ts\<rparr>
     else T \<le> ts ! n - start
                  \<and> c' = (spi_write_blocking (c\<lparr>clock_ms := ts\<rparr>) (replicate n 0xFF))\<lparr>clock_ms := drop (Suc n) ts\<rparr>"
    by blast
  have e: "(spi_write_blocking (c\<lparr>clock_ms := ts\<rparr>) a)\<lparr>clock_ms := ts'\<rparr>
           = (spi_write_blocking c a)\<lparr>clock_ms := ts'\<rparr>" for a ts'
    by (simp add: spi_write_blocking_def)
  have "\<forall>j<n. ts ! j - start < T \<and> bus (miso c) j \<noteq> 0xFF" using n(2) by simp
  moreover have "if ok then ts ! n - start < T \<and> bus (miso c) n = 0xFF
                  \<and> c' = (spi_write_blocking c (replicate (Suc n) 0xFF))\<lparr>clock_ms := drop (Suc n) ts\<rparr>
     else T \<le> ts ! n - start
                  \<and> c' = (spi_write_blocking c (replicate n 0xFF))\<lparr>clock_ms := drop (Suc n) ts\<rparr>"
    using n(3) by (cases ok) (simp_all only: e if_True if_False, simp_all)
  ultimately show ?thesis using cl n(1) by blast
qed

section \<open>FAT32::file\_read\<close>

lemma bytes_to_read_unat:
  fixes sz :: u32
  shows "unat ((if sz < 512 then ucast sz else 512) :: u16) = min 512 (unat sz)"
proof (cases "sz < 512")
  case True
  then have "unat sz < 512" by (simp add: word_less_nat_alt)
  then show ?thesis using True
    by (simp add: unsigned_ucast_eq take_bit_nat_eq_self_iff)
next
  case False
  then have "512 \<le> unat sz" by (simp add: word_less_nat_alt not_less)
  then show ?thesis using False by simp
qed

lemma ucast_ucast_small:
  fixes sz :: u32
  assumes "sz < 512"
  shows "(ucast (ucast sz :: u16) :: u32) = sz"
proof -
  have "sz < ucast (512 :: u16)" using assms by simp
  then show ?thesis by (rule trunc16_exact(1))
qed

lemma min512_word:
  fixes sz :: u32
  shows "of_nat (min 512 (unat sz)) = (if sz < 512 then sz else 512)"
proof (cases "sz < 512")
  case True
  then have "unat sz < 512" by (simp add: word_less_nat_alt)
  then show ?thesis using True by simp
next
  case False
  then have "512 \<le> unat sz" by (simp add: word_less_nat_alt not_less)
  then show ?thesis using False by simp
qed

lemma read_step_eof: "rh_File_Size h = 0 \<Longrightarrow> read_step s h = ([], h, s)"
  by (simp add: read_step_def)

lemma read_step_fail:
  "rh_File_Size h \<noteq> 0 \<Longrightarrow> read_fails (sd_card s) (cluster_lba s (rh_FAT_Entry h) (rh_SectorOffset h))
   \<Longrightarrow> read_step s h = ([], h, s)"
  by (simp add: read_step_def get_physical_block_def read_block_def Let_def)

lemma read_step_ok:
  assumes "rh_File_Size h \<noteq> 0"
    and "\<not> read_fails (sd_card s) (cluster_lba s (rh_FAT_Entry h) (rh_SectorOffset h))"
  defines "lba \<equiv> cluster_lba s (rh_FAT_Entry h) (rh_SectorOffset h)"
  defines "n \<equiv> min 512 (unat (rh_File_Size h))"
  defines "next \<equiv> fst (fat_entry (s\<lparr>read_buffer := blocks (sd_card s) lba\<rparr>) (rh_FAT_Entry h) 0 False)"
  shows "fst (read_step s h) = take n (blocks (sd_card s) lba)"
    and "rh_SectorOffset h + 1 < cluster_size s \<Longrightarrow>
           fst (snd (read_step s h)) = h\<lparr>rh_File_Size := rh_File_Size h - of_nat n,
                                         rh_SectorOffset := rh_SectorOffset h + 1\<rparr>"
    and "cluster_size s \<le> rh_SectorOffset h + 1 \<Longrightarrow>
           fst (snd (read_step s h)) = h\<lparr>rh_File_Size := (if EOC_MIN \<le> next \<or> next < 2 then 0
                                                          else rh_File_Size h - of_nat n),
                                         rh_SectorOffset := 0, rh_FAT_Entry := next\<rparr>"
    and "sd_card (snd (snd (read_step s h))) = sd_card s"
proof -
  have g: "get_physical_block s lba = Some (blocks (sd_card s) lba)"
    using assms(2) by (simp add: get_physical_block_def read_block_def lba_def)
  show "fst (read_step s h) = take n (blocks (sd_card s) lba)"
    using assms(1) g unfolding read_step_def lba_def [symmetric]
    by (simp add: Let_def bytes_to_read_unat n_def split: prod.splits)
  show "fst (snd (read_step s h)) = h\<lparr>rh_File_Size := rh_File_Size h - of_nat n,
                                         rh_SectorOffset := rh_SectorOffset h + 1\<rparr>"
    if "rh_SectorOffset h + 1 < cluster_size s"
    using assms(1) g that unfolding read_step_def lba_def [symmetric]
    by (simp add: Let_def ucast_ucast_small min512_word n_def not_le split: prod.splits)
  show "fst (snd (read_step s h)) = h\<lparr>rh_File_Size := (if EOC_MIN \<le> next \<or> next < 2 then 0
                                                          else rh_File_Size h - of_nat n),
                                         rh_SectorOffset := 0, rh_FAT_Entry := next\<rparr>"
    if "cluster_size s \<le> rh_SectorOffset h + 1"
    using assms(1) g that unfolding read_step_def lba_def [symmetric]
    by (simp add: Let_def ucast_ucast_small min512_word n_def next_def split: prod.splits)
  show "sd_card (snd (snd (read_step s h))) = sd_card s"
    using assms(1) g fat_entry_read_frame(1) [of "s\<lparr>read_buffer := blocks (sd_card s) lba\<rparr>" "rh_FAT_Entry h" 0]
    unfolding read_step_def lba_def [symmetric]
    by (auto simp: Let_def split: prod.splits)
qed

lemma file_read_as_step:
  assumes "initialized s" and "\<not> reseeded s handler" and "file_read s handler = (out, handler', s')"
  shows "out = fst (read_step s (the_handle s handler))"
    and "the_handle s' handler' = fst (snd (read_step s (the_handle s handler)))"
    and "sd_card s' = sd_card (snd (snd (read_step s (the_handle s handler))))"
  using assms
  by (auto simp: file_read_def the_handle_def reseeded_def split: option.splits prod.splits if_splits)

lemma read_step_card: "sd_card (snd (snd (read_step s h))) = sd_card s"
proof (cases "rh_File_Size h = 0")
  case True
  then show ?thesis by (simp add: read_step_eof)
next
  case False
  show ?thesis
  proof (cases "read_fails (sd_card s) (cluster_lba s (rh_FAT_Entry h) (rh_SectorOffset h))")
    case True
    then show ?thesis using False by (simp add: read_step_fail)
  next
    case f: False
    then show ?thesis using False by (rule read_step_ok(4) [rotated])
  qed
qed

lemma fat_entry_read_val:
  assumes "initialized s" "coherent s" "2 \<le> c" "\<not> read_fails (sd_card s) (fat_lba s c)"
  shows "fst (fat_entry (s\<lparr>read_buffer := b\<rparr>) c 0 False) = fat_val s c"
  using assms
  by (auto simp: fat_entry_def fat_load_def get_physical_block_def read_block_def fat_val_def
      coherent_def fat_lba_def entry_offset_def Let_def not_less split: option.splits)

lemma length_dir_entry_bytes [simp]: "length (dir_entry_bytes name11 attr cluster) = min (length name11) 11 + 21"
  by (simp add: dir_entry_bytes_def)

lemma length_hello35 [simp]: "length hello35 = 35"
  by (simp add: hello35_def bytes_def)

lemma length_example_fat [simp]: "length example_fat = 512"
  by (simp add: example_fat_def)

lemma hello_dev_lengths: "\<forall>a. length (blocks hello_dev a) = 512"
  by (simp add: hello_dev_def bytes_def)

section \<open>Deleting a file: the cluster chain is freed\<close>

lemma in_chain_valid: "in_chain fat start c \<Longrightarrow> 2 \<le> c \<and> c < EOC_MIN"
  by (induction rule: in_chain.induct) simp_all

lemma nth_store_le32_other:
  "j < off \<or> off + 4 \<le> j \<Longrightarrow> store_le32 buf off v ! j = buf ! j"
  by (auto simp: store_le32_def nth_list_update)

lemma load_store_le32_other:
  "off' + 4 \<le> off \<or> off + 4 \<le> off' \<Longrightarrow>
     load_le32 (store_le32 buf off v) off' = load_le32 buf off'"
  by (auto simp: load_le32_def nth_store_le32_other)

lemma unat_mul4: "c < 2 ^ 30 \<Longrightarrow> unat (c * 4 :: u32) = unat c * 4"
proof -
  assume "c < 2 ^ 30"
  then have "unat c < 2 ^ 30" by (simp add: word_less_nat_alt)
  then have "unat c * 4 < 2 ^ 32" by simp
  then show ?thesis by (simp add: unat_word_ariths)
qed

lemma EOC_lt: "c < EOC_MIN \<Longrightarrow> c < 2 ^ 30"
  by (simp add: EOC_MIN_def word_less_nat_alt)

lemma entry_offset_eq: "sector_size s = 512 \<Longrightarrow> entry_offset s c = 4 * (unat c mod 128)"
proof -
  assume a: "sector_size s = 512"
  have "(unat c * 4) mod 512 = 4 * (unat c mod 128)"
    using mult_mod_right [of 4 "unat c" 128] by (simp add: mult.commute)
  then show ?thesis using a by (simp add: entry_offset_def unat_mul4_mod512)
qed

lemma fat_pos_inj:
  assumes ss: "sector_size s = 512" and x: "x < 2 ^ 30" and c: "c < 2 ^ 30"
    and l: "fat_lba s x = fat_lba s c" and o: "entry_offset s x = entry_offset s c"
  shows "x = c"
proof -
  have d: "(x * 4) div 512 = (c * 4) div (512 :: u32)"
    using l ss by (simp add: fat_lba_def)
  have m: "(x * 4) mod 512 = (c * 4) mod (512 :: u32)"
    using o ss by (simp add: entry_offset_def word_unat_eq_iff)
  have "x * 4 = (x * 4) div 512 * 512 + (x * 4) mod 512" by (rule div_mult_mod_eq [symmetric])
  also have "\<dots> = (c * 4) div 512 * 512 + (c * 4) mod 512" by (simp only: d m)
  also have "\<dots> = c * 4" by (rule div_mult_mod_eq)
  finally have "unat (x * 4) = unat (c * 4)" by simp
  then have "unat x = unat c" using unat_mul4 [OF x] unat_mul4 [OF c] by simp
  then show ?thesis by (simp add: word_unat_eq_iff)
qed

lemma fat_ok_D:
  "fat_ok s \<Longrightarrow> initialized s" "fat_ok s \<Longrightarrow> sector_size s = 512" "fat_ok s \<Longrightarrow> coherent s"
  "fat_ok s \<Longrightarrow> \<not> read_fails (sd_card s) a" "fat_ok s \<Longrightarrow> \<not> write_fails (sd_card s) a"
  "fat_ok s \<Longrightarrow> length (blocks (sd_card s) a) = 512"
  by (simp_all add: fat_ok_def healthy_def)

lemma fat_ok_cong:
  "fat_ok s \<Longrightarrow> sd_card s' = sd_card s \<Longrightarrow> geometry s' = geometry s \<Longrightarrow> coherent s' \<Longrightarrow> fat_ok s'"
  by (simp add: fat_ok_def geometry_def)

lemma fat_entry_read_buffer: "read_buffer (snd (fat_entry s c v w)) = read_buffer s"
  by (auto simp: fat_entry_def fat_load_def get_physical_block_def read_block_def
      store_physical_block_def write_block_def Let_def split: option.splits if_splits)

lemma fat_entry_read_ok:
  assumes "fat_ok s" and "2 \<le> c"
  shows "fst (fat_entry s c v False) = fat_val s c"
    and "fat_ok (snd (fat_entry s c v False))"
    and "sd_card (snd (fat_entry s c v False)) = sd_card s"
    and "geometry (snd (fat_entry s c v False)) = geometry s"
proof -
  have r: "resident s (fat_lba s c) \<or> \<not> read_fails (sd_card s) (fat_lba s c)"
    using fat_ok_D(4) [OF assms(1)] by simp
  show "fst (fat_entry s c v False) = fat_val s c"
    using fat_entry_read(1) [OF fat_ok_D(1) [OF assms(1)] assms(2) fat_ok_D(3) [OF assms(1)] r]
    by (simp add: fat_val_def)
  show "sd_card (snd (fat_entry s c v False)) = sd_card s" "geometry (snd (fat_entry s c v False)) = geometry s"
    by (rule fat_entry_read_frame)+
  then show "fat_ok (snd (fat_entry s c v False))"
    using fat_ok_cong [OF assms(1)] fat_entry_coherent [OF fat_ok_D(3) [OF assms(1)]] by blast
qed

lemma fat_entry_write_ok:
  fixes s :: FAT32 and c v :: u32
  assumes ok: "fat_ok s" and c2: "2 \<le> c" and c30: "c < 2 ^ 30"
  defines "s2 \<equiv> snd (fat_entry s c v True)"
  shows "fat_ok s2" and "geometry s2 = geometry s"
    and "fat_val s2 c = v AND 0x0FFFFFFF"
    and "x \<noteq> c \<Longrightarrow> x < 2 ^ 30 \<Longrightarrow> fat_val s2 x = fat_val s x"
    and "a \<noteq> fat_lba s c \<Longrightarrow> blocks (sd_card s2) a = blocks (sd_card s) a"
proof -
  let ?lba = "fat_lba s c" and ?off = "entry_offset s c"
  let ?new = "(load_le32 (blocks (sd_card s) ?lba) ?off AND 0xF0000000) OR (v AND 0x0FFFFFFF)"
  let ?sec = "store_le32 (blocks (sd_card s) ?lba) ?off ?new"
  have r: "resident s ?lba \<or> \<not> read_fails (sd_card s) ?lba"
    using fat_ok_D(4) [OF ok] by simp
  have e: "s2 = s\<lparr>fat_cache := ?sec, fat_cache_sector := ?lba, fat_cache_valid := True,
         sd_card := (sd_card s)\<lparr>blocks := (blocks (sd_card s))(?lba := ?sec)\<rparr>\<rparr>"
    unfolding s2_def
    using fat_entry_write [OF fat_ok_D(1) [OF ok] c2 fat_ok_D(3) [OF ok] r fat_ok_D(5) [OF ok], of v]
    by simp
  have ss: "sector_size s = 512" by (rule fat_ok_D(2) [OF ok])
  have len: "?off + 3 < length (blocks (sd_card s) ?lba)"
    using entry_offset_512 [OF ss] fat_ok_D(6) [OF ok] by simp
  show g: "geometry s2 = geometry s" by (simp add: e geometry_def)
  show "fat_ok s2"
    using ok by (simp add: e fat_ok_def healthy_def coherent_def)
  have fl: "fat_lba s2 = fat_lba s" "entry_offset s2 = entry_offset s"
    by (simp_all add: e fat_lba_def entry_offset_def fun_eq_iff)
  have m: "?new AND 0x0FFFFFFF = v AND 0x0FFFFFFF"
  proof -
    have "?new AND 0x0FFFFFFF
          = (load_le32 (blocks (sd_card s) ?lba) ?off AND (0xF0000000 AND 0x0FFFFFFF))
            OR (v AND (0x0FFFFFFF AND (0x0FFFFFFF::u32)))"
      by (simp only: bit.conj_disj_distrib2 and.assoc)
    also have "\<dots> = v AND 0x0FFFFFFF" by simp
    finally show ?thesis .
  qed
  show "fat_val s2 c = v AND 0x0FFFFFFF"
    by (simp add: fat_val_def fl) (simp add: e load_store_le32 [OF len] m)
  show "fat_val s2 x = fat_val s x" if xc: "x \<noteq> c" and x30: "x < 2 ^ 30"
  proof (cases "fat_lba s x = ?lba")
    case False
    then show ?thesis by (simp add: fat_val_def fl) (simp add: e)
  next
    case True
    have "entry_offset s x \<noteq> ?off"
      using fat_pos_inj [OF ss x30 c30 True] xc by blast
    then have "unat x mod 128 \<noteq> unat c mod 128" by (simp add: entry_offset_eq [OF ss])
    then have "entry_offset s x + 4 \<le> ?off \<or> ?off + 4 \<le> entry_offset s x"
      by (simp add: entry_offset_eq [OF ss]) linarith
    then have "load_le32 ?sec (entry_offset s x) = load_le32 (blocks (sd_card s) ?lba) (entry_offset s x)"
      by (rule load_store_le32_other)
    then show ?thesis using True by (simp add: fat_val_def fl) (simp add: e)
  qed
  show "blocks (sd_card s2) a = blocks (sd_card s) a" if "a \<noteq> ?lba"
    using that by (simp add: e)
qed

lemma in_chain_start: "in_chain f c x \<Longrightarrow> 2 \<le> c \<and> c < EOC_MIN"
  by (induction rule: in_chain.induct) simp_all

lemma chain_split:
  assumes "in_chain f c x" and "\<And>y. y \<noteq> c \<Longrightarrow> y < EOC_MIN \<Longrightarrow> g y = f y"
  shows "x = c \<or> in_chain g (f c) x"
  using assms(1)
proof (induction rule: in_chain.induct)
  case first
  then show ?case by simp
next
  case (step y)
  show ?case
  proof (cases "y = c")
    case True
    then show ?thesis using step.hyps(2,3) by (simp add: in_chain.first)
  next
    case False
    then have c: "in_chain g (f c) y" using step.IH by simp
    have "y < EOC_MIN" using in_chain_valid [OF step.hyps(1)] by simp
    then have "g y = f y" using assms(2) False by simp
    then show ?thesis using in_chain.step [OF c] step.hyps(2,3) by simp
  qed
qed

lemma free_chain_frees:
  "fat_ok s \<Longrightarrow> free_chain n s c = Some s1 \<Longrightarrow>
     fat_ok s1 \<and> geometry s1 = geometry s \<and> read_buffer s1 = read_buffer s
     \<and> (\<forall>x. in_chain (fat_val s) c x \<longrightarrow> fat_val s1 x = 0)
     \<and> (\<forall>x. x < 2 ^ 30 \<longrightarrow> fat_val s x = 0 \<longrightarrow> fat_val s1 x = 0)"
proof (induction n arbitrary: s c)
  case 0
  then have "\<not> (2 \<le> c \<and> c < EOC_MIN)" and "s1 = s" by (simp_all split: if_splits)
  then show ?case using in_chain_start [of "fat_val s" c] "0.prems"(1) by auto
next
  case (Suc n)
  show ?case
  proof (cases "2 \<le> c \<and> c < EOC_MIN")
    case False
    then have "s1 = s" using Suc.prems(2) by auto
    then show ?thesis using in_chain_start [of "fat_val s" c] False Suc.prems(1) by auto
  next
    case True
    define sa where "sa = snd (fat_entry s c 0 False)"
    define sb where "sb = snd (fat_entry sa c CLUSTER_FREE True)"
    have c2: "2 \<le> c" and c30: "c < 2 ^ 30" using True EOC_lt by auto
    have nx: "fst (fat_entry s c 0 False) = fat_val s c"
      and oka: "fat_ok sa" and ca: "sd_card sa = sd_card s" and ga: "geometry sa = geometry s"
      unfolding sa_def using fat_entry_read_ok [OF Suc.prems(1) c2] by simp_all
    have ra: "read_buffer sa = read_buffer s" unfolding sa_def by (rule fat_entry_read_buffer)
    have va: "fat_val sa = fat_val s" by (rule fat_val_cong [OF ca ga])
    have okb: "fat_ok sb" and gb: "geometry sb = geometry sa"
      and vc: "fat_val sb c = 0"
      and vo: "\<And>x. x \<noteq> c \<Longrightarrow> x < 2 ^ 30 \<Longrightarrow> fat_val sb x = fat_val sa x"
      unfolding sb_def using fat_entry_write_ok [OF oka c2 c30, where v = CLUSTER_FREE]
      by (simp_all add: CLUSTER_FREE_def)
    have rb: "read_buffer sb = read_buffer sa" unfolding sb_def by (rule fat_entry_read_buffer)
    have rec: "free_chain n sb (fat_val s c) = Some s1"
      using Suc.prems(2) True nx
      by (simp add: sa_def sb_def split_beta Let_def)
    note ih = Suc.IH [OF okb rec]
    have "fat_val s1 x = 0" if x: "in_chain (fat_val s) c x" for x
    proof -
      have "\<And>y. y \<noteq> c \<Longrightarrow> y < EOC_MIN \<Longrightarrow> fat_val sb y = fat_val s y"
        using vo va EOC_lt by (metis order_less_trans)
      from chain_split [OF x this] have "x = c \<or> in_chain (fat_val sb) (fat_val s c) x" by simp
      then show ?thesis using ih vc c30 by auto
    qed
    moreover have "fat_val s1 x = 0" if "x < 2 ^ 30" "fat_val s x = 0" for x
      using ih vc vo [of x] va that by (cases "x = c") auto
    ultimately show ?thesis using ih gb ga ra rb by simp
  qed
qed

lemma scan_entries_frame:
  "(\<forall>l i s'. scan_entries name il lba lf ln s is = Matched l i s' \<longrightarrow>
       l = lba \<and> i \<in> set is \<and> s'\<lparr>lfn_index := 0\<rparr> = s\<lparr>lfn_index := 0\<rparr>)
   \<and> (\<forall>c s'. scan_entries name il lba lf ln s is = Returned c s' \<longrightarrow>
       s'\<lparr>lfn_index := 0\<rparr> = s\<lparr>lfn_index := 0\<rparr>)
   \<and> (\<forall>d s'. scan_entries name il lba lf ln s is = Found d s' \<longrightarrow>
       s'\<lparr>lfn_index := 0\<rparr> = s\<lparr>lfn_index := 0\<rparr>)
   \<and> (\<forall>a b s'. scan_entries name il lba lf ln s is = NotFound a b s' \<longrightarrow>
       s'\<lparr>lfn_index := 0\<rparr> = s\<lparr>lfn_index := 0\<rparr>)"
proof (induction "is" arbitrary: lf ln s)
  case Nil
  then show ?case by simp
next
  case (Cons i rest)
  show ?case
    using Cons.IH [of lf ln s] Cons.IH [of False "[]" "s\<lparr>lfn_index := idx\<rparr>" for idx]
      Cons.IH [of lf ln "s\<lparr>lfn_index := idx\<rparr>" for idx]
      Cons.IH [of True nm "s\<lparr>lfn_index := idx\<rparr>" for nm idx]
    by (simp add: Let_def split: prod.splits if_splits) 
qed

lemma lfn_eq_D:
  "s'\<lparr>lfn_index := 0\<rparr> = s\<lparr>lfn_index := 0\<rparr> \<Longrightarrow> s' = s\<lparr>lfn_index := lfn_index s'\<rparr>"
  by (cases s, cases s') simp

lemma lfn_rb_eq_D:
  "s'\<lparr>lfn_index := 0, read_buffer := []\<rparr> = s\<lparr>lfn_index := 0, read_buffer := []\<rparr> \<Longrightarrow>
     s' = s\<lparr>lfn_index := lfn_index s', read_buffer := read_buffer s'\<rparr>"
  by (cases s, cases s') simp

lemma scan_entries_Matched:
  "scan_entries name il lba lf ln s is = Matched l i s' \<Longrightarrow>
     l = lba \<and> i \<in> set is \<and> s' = s\<lparr>lfn_index := lfn_index s'\<rparr>"
  using scan_entries_frame [of name il lba lf ln s "is"] lfn_eq_D [of s' s] by blast

lemma scan_entries_other:
  "scan_entries name il lba lf ln s is = Returned c s' \<Longrightarrow> s' = s\<lparr>lfn_index := lfn_index s'\<rparr>"
  "scan_entries name il lba lf ln s is = Found d s' \<Longrightarrow> s' = s\<lparr>lfn_index := lfn_index s'\<rparr>"
  "scan_entries name il lba lf ln s is = NotFound x y s' \<Longrightarrow> s' = s\<lparr>lfn_index := lfn_index s'\<rparr>"
  using scan_entries_frame [of name il lba lf ln s "is"] lfn_eq_D [of s' s] by blast+

lemma sv_refl: "same_volume s s" by (simp add: same_volume_def)

lemma sv_trans: "same_volume a b \<Longrightarrow> same_volume b c \<Longrightarrow> same_volume a c"
  by (simp add: same_volume_def)

lemma sv_upd:
  "same_volume s (s\<lparr>lfn_index := k\<rparr>)"
  "same_volume s (s\<lparr>read_buffer := b\<rparr>)"
  "same_volume s (s\<lparr>read_buffer := b, lfn_index := k\<rparr>)"
  by (simp_all add: same_volume_def geometry_def coherent_def)

lemma sv_fat_read: "same_volume s (snd (fat_entry s c v False))"
  using fat_entry_read_frame [of s c v] fat_entry_coherent [of s c v False]
  by (simp add: same_volume_def)

lemma sv_fat_ok: "fat_ok s \<Longrightarrow> same_volume s s' \<Longrightarrow> fat_ok s'"
  by (simp add: same_volume_def fat_ok_def geometry_def)

lemma sv_fields:
  assumes "same_volume s s'"
  shows "sd_card s' = sd_card s" "ents s' = ents s" "cluster_size s' = cluster_size s"
    "cluster_lba s' = cluster_lba s" "fat_val s' = fat_val s" "initialized s' = initialized s"
    "root_dir_first_cluster s' = root_dir_first_cluster s"
    "current_dir_cluster s' = current_dir_cluster s"
  using assms fat_val_cong [of s' s]
  by (simp_all add: same_volume_def geometry_def ents_def cluster_lba_def fun_eq_iff)

lemma scan_entries_sv:
  "same_volume s (scan_state (scan_entries name il lba lf ln s is))"
  "read_buffer (scan_state (scan_entries name il lba lf ln s is)) = read_buffer s"
proof -
  let ?r = "scan_entries name il lba lf ln s is"
  have "\<exists>k. scan_state ?r = s\<lparr>lfn_index := k\<rparr>"
    using scan_entries_Matched [of name il lba lf ln s "is"]
      scan_entries_other [of name il lba lf ln s "is"]
    by (cases ?r) (simp_all, blast+)
  then obtain k where k: "scan_state ?r = s\<lparr>lfn_index := k\<rparr>" by blast
  show "same_volume s (scan_state ?r)" "read_buffer (scan_state ?r) = read_buffer s"
    by (simp_all add: k sv_upd)
qed

lemma scan_sectors_sv:
  "same_volume s (scan_state (scan_sectors name il cl lf ln s secs))"
proof (induction secs arbitrary: lf ln s)
  case Nil
  then show ?case by (simp add: sv_refl)
next
  case (Cons sec rest)
  define lba where "lba = cluster_lba s cl (of_nat sec)"
  show ?case
  proof (cases "get_physical_block s lba")
    case None
    then show ?thesis by (simp add: lba_def [symmetric] sv_refl)
  next
    case (Some b)
    define r where "r = scan_entries name il lba lf ln (s\<lparr>read_buffer := b\<rparr>) [0..<ents s]"
    have unf: "scan_sectors name il cl lf ln s (sec # rest)
               = (case r of NotFound lf' ln' s' \<Rightarrow> scan_sectors name il cl lf' ln' s' rest | r \<Rightarrow> r)"
      using Some by (simp add: lba_def [symmetric] r_def)
    have sv: "same_volume s (scan_state r)"
      unfolding r_def by (rule sv_trans [OF sv_upd(2) scan_entries_sv(1)])
    show ?thesis
    proof (cases r)
      case (NotFound lf' ln' s1)
      then show ?thesis using sv_trans [OF _ Cons.IH [of s1 lf' ln']] sv by (simp add: unf del: scan_sectors.simps)
    qed (use sv in \<open>simp_all add: unf del: scan_sectors.simps\<close>)
  qed
qed

lemma scan_sectors_Matched:
  "scan_sectors name il cl lf ln s secs = Matched l i s' \<Longrightarrow>
     read_buffer s' = blocks (sd_card s) l \<and> i < ents s"
proof (induction secs arbitrary: lf ln s)
  case Nil
  then show ?case by simp
next
  case (Cons sec rest)
  define lba where "lba = cluster_lba s cl (of_nat sec)"
  show ?case
  proof (cases "get_physical_block s lba")
    case None
    then show ?thesis using Cons.prems by (simp add: lba_def [symmetric])
  next
    case (Some b)
    then have b: "b = blocks (sd_card s) lba"
      by (simp add: get_physical_block_def read_block_def split: if_splits)
    define r where "r = scan_entries name il lba lf ln (s\<lparr>read_buffer := b\<rparr>) [0..<ents s]"
    have unf: "scan_sectors name il cl lf ln s (sec # rest)
               = (case r of NotFound lf' ln' s' \<Rightarrow> scan_sectors name il cl lf' ln' s' rest | r \<Rightarrow> r)"
      using Some by (simp add: lba_def [symmetric] r_def)
    have sv: "same_volume s (scan_state r)"
      unfolding r_def by (rule sv_trans [OF sv_upd(2) scan_entries_sv(1)])
    have rb: "read_buffer (scan_state r) = b"
      unfolding r_def by (simp add: scan_entries_sv(2))
    show ?thesis
    proof (cases r)
      case (NotFound lf' ln' s1)
      then have "scan_sectors name il cl lf' ln' s1 rest = Matched l i s'"
        using Cons.prems by (simp add: unf del: scan_sectors.simps)
      from Cons.IH [OF this] show ?thesis using sv_fields [of s s1] sv NotFound by simp
    next
      case (Matched l' i' s'')
      then have "l' = l" "i' = i" "s'' = s'" using Cons.prems by (simp_all add: unf del: scan_sectors.simps)
      moreover have "l' = lba \<and> i' \<in> set [0..<ents s]"
        using scan_entries_Matched [OF Matched [unfolded r_def]] by blast
      ultimately show ?thesis using rb Matched b by simp
    qed (use Cons.prems in \<open>simp_all add: unf del: scan_sectors.simps\<close>)
  qed
qed

lemma scan_chain_sv:
  "scan_chain n name il cl lf ln s = Some r \<Longrightarrow> same_volume s (scan_state r)"
proof (induction n arbitrary: cl lf ln s)
  case 0
  then show ?case by (auto simp: sv_refl split: if_splits)
next
  case (Suc n)
  show ?case
  proof (cases "2 \<le> cl \<and> cl < EOC_MIN")
    case False
    then show ?thesis using Suc.prems by (auto simp: sv_refl)
  next
    case True
    define r0 where "r0 = scan_sectors name il cl lf ln s [0..<unat (cluster_size s)]"
    have sv0: "same_volume s (scan_state r0)" unfolding r0_def by (rule scan_sectors_sv)
    have unf: "scan_chain (Suc n) name il cl lf ln s =
        (case r0 of
           NotFound lf' ln' s1 \<Rightarrow>
             (let (next, s2) = fat_entry s1 cl 0 False
              in if EOC_MIN \<le> next \<or> next = 0 then Some (NotFound lf' ln' s2)
                 else scan_chain n name il next lf' ln' s2)
         | r \<Rightarrow> Some r)"
      using True by (simp add: r0_def)
    show ?thesis
    proof (cases r0)
      case (NotFound lf' ln' s1)
      define s2 where "s2 = snd (fat_entry s1 cl 0 False)"
      have sv2: "same_volume s s2"
        using sv_trans [OF _ sv_fat_read [of s1 cl 0]] sv0 NotFound by (simp add: s2_def)
      show ?thesis
      proof (cases "EOC_MIN \<le> fst (fat_entry s1 cl 0 False) \<or> fst (fat_entry s1 cl 0 False) = 0")
        case True
        then have "r = NotFound lf' ln' s2"
          using Suc.prems NotFound unfolding unf by (simp add: split_beta s2_def)
        then show ?thesis using sv2 by simp
      next
        case False
        then have "scan_chain n name il (fst (fat_entry s1 cl 0 False)) lf' ln' s2 = Some r"
          using Suc.prems NotFound unfolding unf by (simp add: split_beta s2_def)
        from sv_trans [OF sv2 Suc.IH [OF this]] show ?thesis .
      qed
    qed (use Suc.prems sv0 in \<open>auto simp: unf simp del: scan_chain.simps\<close>)
  qed
qed

lemma scan_chain_Matched:
  "scan_chain n name il cl lf ln s = Some (Matched l i s') \<Longrightarrow>
     read_buffer s' = blocks (sd_card s) l \<and> i < ents s"
proof (induction n arbitrary: cl lf ln s)
  case 0
  then show ?case by (auto split: if_splits)
next
  case (Suc n)
  show ?case
  proof (cases "2 \<le> cl \<and> cl < EOC_MIN")
    case False
    then show ?thesis using Suc.prems by auto
  next
    case True
    define r0 where "r0 = scan_sectors name il cl lf ln s [0..<unat (cluster_size s)]"
    have sv0: "same_volume s (scan_state r0)" unfolding r0_def by (rule scan_sectors_sv)
    have unf: "scan_chain (Suc n) name il cl lf ln s =
        (case r0 of
           NotFound lf' ln' s1 \<Rightarrow>
             (let (next, s2) = fat_entry s1 cl 0 False
              in if EOC_MIN \<le> next \<or> next = 0 then Some (NotFound lf' ln' s2)
                 else scan_chain n name il next lf' ln' s2)
         | r \<Rightarrow> Some r)"
      using True by (simp add: r0_def)
    show ?thesis
    proof (cases r0)
      case (NotFound lf' ln' s1)
      define s2 where "s2 = snd (fat_entry s1 cl 0 False)"
      have sv2: "same_volume s s2"
        using sv_trans [OF _ sv_fat_read [of s1 cl 0]] sv0 NotFound by (simp add: s2_def)
      have "\<not> (EOC_MIN \<le> fst (fat_entry s1 cl 0 False) \<or> fst (fat_entry s1 cl 0 False) = 0)"
        using Suc.prems NotFound unfolding unf by (auto simp: split_beta)
      then have "scan_chain n name il (fst (fat_entry s1 cl 0 False)) lf' ln' s2 = Some (Matched l i s')"
        using Suc.prems NotFound unfolding unf by (simp add: split_beta s2_def)
      from Suc.IH [OF this] show ?thesis using sv_fields(1,2) [OF sv2] by simp
    next
      case (Matched l' i' s'')
      then have "scan_sectors name il cl lf ln s [0..<unat (cluster_size s)] = Matched l i s'"
        using Suc.prems unfolding unf by (simp add: r0_def)
      then show ?thesis by (rule scan_sectors_Matched)
    qed (use Suc.prems in \<open>auto simp: unf simp del: scan_chain.simps\<close>)
  qed
qed

lemma walk_Hit:
  "walk n dc s names = Some (Hit l i s') \<Longrightarrow>
     same_volume s s' \<and> read_buffer s' = blocks (sd_card s) l \<and> i < ents s"
proof (induction names arbitrary: dc s)
  case Nil
  then show ?case by simp
next
  case (Cons name rest)
  obtain r where r: "scan_chain n name (rest = []) dc False [] s = Some r"
    using Cons.prems by (cases "scan_chain n name (rest = []) dc False [] s") (simp_all add: Let_def)
  note sv = scan_chain_sv [OF r]
  show ?case
  proof (cases r)
    case (Matched l' i' s'')
    then have "l' = l" "i' = i" "s'' = s'" using Cons.prems r by (simp_all add: Let_def)
    then show ?thesis using scan_chain_Matched [of n name "rest = []" dc False "[]" s l i s'] r sv Matched
      by simp
  next
    case (Found d s1)
    then have "walk n d s1 rest = Some (Hit l i s')"
      using Cons.prems r by (simp add: Let_def split: if_splits)
    from Cons.IH [OF this] show ?thesis
      using sv Found sv_fields(1,2) [of s s1] sv_trans [of s s1 s'] by simp
  qed (use Cons.prems r in \<open>simp_all add: Let_def split: if_splits\<close>)
qed

lemma resolve_Hit:
  "resolve n s p = Some (Hit l i s') \<Longrightarrow>
     same_volume s s' \<and> read_buffer s' = blocks (sd_card s) l \<and> i < ents s"
  by (auto simp: resolve_def Let_def dest: walk_Hit split: if_splits)

lemma geometry_fat_pos:
  "geometry s' = geometry s \<Longrightarrow> fat_lba s' = fat_lba s \<and> entry_offset s' = entry_offset s"
  by (simp add: geometry_def fat_lba_def entry_offset_def fun_eq_iff)

lemma open_matched_delete:
  assumes ok: "fat_ok s" and len: "32 * i < length (read_buffer s)"
    and res: "open_matched n s DELETE lba i = Some (FILE_FOUND, s')"
  shows "(\<forall>c. in_chain (fat_val s) (first_cluster_of (entry_at (read_buffer s) i)) c
                \<longrightarrow> fat_lba s c \<noteq> lba) \<longrightarrow>
         (\<forall>c. in_chain (fat_val s) (first_cluster_of (entry_at (read_buffer s) i)) c
                \<longrightarrow> fat_val s' c = CLUSTER_FREE)"
    and "blocks (sd_card s') lba ! (32 * i) = FILE_ERASED"
proof -
  let ?fc = "first_cluster_of (entry_at (read_buffer s) i)"
  obtain s1 where fr: "free_chain n s ?fc = Some s1"
    using res by (cases "free_chain n s ?fc") (simp_all add: open_matched_def Let_def split: if_splits)
  let ?buf = "(read_buffer s1)[32 * i := FILE_ERASED]"
  have s': "s' = s1\<lparr>read_buffer := ?buf,
                    sd_card := (sd_card s1)\<lparr>blocks := (blocks (sd_card s1))(lba := ?buf)\<rparr>\<rparr>"
    using res fr
    by (simp add: open_matched_def Let_def store_physical_block_def write_block_def
        split: if_splits option.splits)
  note inv = free_chain_frees [OF ok fr]
  have g: "geometry s' = geometry s" using inv by (simp add: s' geometry_def)
  have g1: "geometry s1 = geometry s" using inv by simp
  note p = geometry_fat_pos [OF g] geometry_fat_pos [OF g1]
  show "(\<forall>c. in_chain (fat_val s) ?fc c \<longrightarrow> fat_lba s c \<noteq> lba) \<longrightarrow>
        (\<forall>c. in_chain (fat_val s) ?fc c \<longrightarrow> fat_val s' c = CLUSTER_FREE)"
  proof (intro allI impI)
    fix c assume dis: "\<forall>c. in_chain (fat_val s) ?fc c \<longrightarrow> fat_lba s c \<noteq> lba"
      and c: "in_chain (fat_val s) ?fc c"
    then have "fat_lba s c \<noteq> lba" by simp
    then have "fat_val s' c = fat_val s1 c"
      by (simp add: fat_val_def p) (simp add: s')
    then show "fat_val s' c = CLUSTER_FREE" using inv c by (simp add: CLUSTER_FREE_def)
  qed
  have "read_buffer s1 = read_buffer s" using inv by simp
  then show "blocks (sd_card s') lba ! (32 * i) = FILE_ERASED"
    using len by (simp add: s')
qed

lemma chain_dev_lengths: "\<forall>a. length (blocks chain_dev a) = 512"
  by (simp add: chain_dev_def bytes_def length_dir_entry_bytes)

lemma chain_fs_ok: "fat_ok chain_fs"
  using chain_dev_lengths
  by (simp add: fat_ok_def healthy_def coherent_def chain_fs_def example_fs_def)
     (simp add: chain_dev_def)

lemma chain_fs_fat:
  "fat_val chain_fs 3 = 5" "fat_val chain_fs 5 = 4" "fat_val chain_fs 4 = 0x0FFFFFFF"
  "fat_lba chain_fs 3 = 32" "fat_lba chain_fs 4 = 32" "fat_lba chain_fs 5 = 32"
  "first_cluster_of (entry_at (blocks (sd_card chain_fs) 34) 0) = 3"
  by code_simp+

lemma chain_fs_chain: "in_chain (fat_val chain_fs) 3 c \<Longrightarrow> c = 3 \<or> c = 4 \<or> c = 5"
  by (induction rule: in_chain.induct) (auto simp: chain_fs_fat EOC_MIN_def)

lemma chain_fs_in:
  "in_chain (fat_val chain_fs) 3 3" "in_chain (fat_val chain_fs) 3 5" "in_chain (fat_val chain_fs) 3 4"
proof -
  show 3: "in_chain (fat_val chain_fs) 3 3" by (rule in_chain.first) (simp_all add: EOC_MIN_def)
  from in_chain.step [OF 3] show 5: "in_chain (fat_val chain_fs) 3 5"
    by (simp add: chain_fs_fat EOC_MIN_def)
  from in_chain.step [OF 5] show "in_chain (fat_val chain_fs) 3 4"
    by (simp add: chain_fs_fat EOC_MIN_def)
qed

lemma chain_fs_delete:
  "(case resolve 4 chain_fs (bytes ''BIG.TXT'') of Some (Hit l i sm) \<Rightarrow> l = 34 \<and> i = 0 | _ \<Rightarrow> False)"
  "(case file_open 4 chain_fs (bytes ''BIG.TXT'') DELETE of Some (r, s') \<Rightarrow> r = FILE_FOUND | None \<Rightarrow> False)"
  by code_simp+

lemma scan_entries_not_Returned:
  "scan_entries name il lba lf ln s is \<noteq> Returned c s'"
proof (induction "is" arbitrary: il lf ln s)
  case Nil
  then show ?case by simp
next
  case (Cons i rest)
  show ?case
    using Cons.IH by (simp add: Let_def split: prod.splits if_splits)
qed

lemma scan_sectors_Returned:
  "scan_sectors name il cl lf ln s secs = Returned c s' \<Longrightarrow> c = FILE_NOT_FOUND"
proof (induction secs arbitrary: lf ln s)
  case Nil
  then show ?case by simp
next
  case (Cons sec rest)
  then show ?case
    using scan_entries_not_Returned
    by (auto simp: Let_def split: option.splits scan.splits)
qed

lemma scan_chain_Returned:
  "scan_chain n name il cl lf ln s = Some (Returned c s') \<Longrightarrow> c = FILE_NOT_FOUND"
proof (induction n arbitrary: cl lf ln s)
  case 0
  then show ?case by (auto split: if_splits)
next
  case (Suc n)
  then show ?case
    using scan_sectors_Returned
    by (auto simp: Let_def split_beta split: if_splits scan.splits)
qed

lemma walk_Failed:
  "walk n dc s names = Some (Failed c s') \<Longrightarrow> c = FILE_NOT_FOUND"
proof (induction names arbitrary: dc s)
  case Nil
  then show ?case by simp
next
  case (Cons name rest)
  then show ?case
    using scan_chain_Returned
    by (auto simp: Let_def split: option.splits scan.splits if_splits)
qed

lemma resolve_Failed:
  "resolve n s p = Some (Failed c s') \<Longrightarrow> c = FILE_NOT_FOUND"
  by (auto simp: resolve_def Let_def dest: walk_Failed split: if_splits)

lemma delete_found_Hit:
  assumes "file_open n s path DELETE = Some (FILE_FOUND, s')"
  shows "\<exists>lba i sm. resolve n s path = Some (Hit lba i sm)"
proof (cases "resolve n s path")
  case None
  then show ?thesis using assms by (simp add: file_open_def)
next
  case (Some r)
  show ?thesis
  proof (cases r)
    case (Failed c s1)
    then have "c = FILE_NOT_FOUND" using resolve_Failed Some by blast
    then show ?thesis using assms Some Failed by (simp add: file_open_def)
  next
    case (Hit lba i sm)
    then show ?thesis using Some by simp
  next
    case (Missing nm dc s1)
    then show ?thesis using assms Some by (simp add: file_open_def create_missing_def)
  qed
qed

text \<open>
  Claim C3 as stated fails on a mounted volume whose cache line no longer agrees with the
  card.  On the 16 GB volume the 16-bit \<open>data_base\<close> is 32, the first FAT sector, so the root
  directory is read and written there.  After \<open>init\<close> and \<open>file_open("A.TXT", CREATE)\<close> the FAT
  sector 32 is resident in the cache line, the new directory entry has been written to
  sector 32 past the cache, and \<open>fat_entry(8, 0, false)\<close> returns 0 while the value stored at
  offset 32 of sector 32 of the card, masked, is \<open>0x00202041\<close>.
\<close>

theorem stale_cache_counterexample:
  "do { (ok, s) \<leftarrow> init (FAT32_new alias_dev);
        (r, s1) \<leftarrow> file_open 4 s (bytes ''A.TXT'') CREATE;
        Some (ok, fat_base s, data_base s, first_data_sector s, r, resident s1 (fat_lba s1 8),
              fst (fat_entry s1 8 0 False), fat_lba s1 8, entry_offset s1 8,
              load_le32 (blocks (sd_card s1) (fat_lba s1 8)) (entry_offset s1 8) AND 0x0FFFFFFF) }
   = Some (True, 32, 32, 65568, FILE_CREATE_OK, True, 0, 32, 32, 0x00202041)"
  by code_simp

text \<open>
  Claim C3 as amended.  On a mounted volume \<open>fat_entry\<close> works on the driver's one cache
  line (\<open>working\<close>): the line as it is when it is valid and tagged with the FAT sector
  \<open>fat_base + (c*4) div sector_size\<close>, that sector as loaded from the card otherwise; sector
  and offset are computed in the driver's \<open>uint32_t\<close> arithmetic (\<open>fat_lba\<close>, \<open>entry_offset\<close>).
  \<^item> For a cluster number below 2 it returns the invalid-cluster sentinel and leaves the
    whole state, the card included, untouched.
  \<^item> When the sector is not resident and cannot be loaded, the sentinel is returned and the
    cache line is invalidated.
  \<^item> Otherwise a read of cluster \<open>c \<ge> 2\<close> returns the little-endian 32-bit value at byte offset
    \<open>(c*4) mod sector_size\<close> of the working line with the top four bits cleared; the line
    becomes resident and nothing else changes.
  \<^item> Otherwise a write stores \<open>(old_raw AND 0xF0000000) OR (v AND 0x0FFFFFFF)\<close> at that offset
    of the working line and writes the whole line through to the card at once, returning
    \<open>v AND 0x0FFFFFFF\<close>; when the card rejects the write the sentinel is returned and the
    cache line is invalidated.
  \<^item> If the cache line agreed with the card before the call, the working line is the FAT
    sector as the card holds it, and the line agrees with the card after the call.
  \<^item> With 512-byte sectors the four bytes of the entry lie inside a 512-byte line, and
    reading the entry back from the line after the store gives the value stored.
\<close>

theorem fat_entry_contract:
  assumes "initialized s"
  shows "(c < 2 \<longrightarrow> fat_entry s c v w = (INVALID_CLUSTER, s))
    \<and> (2 \<le> c \<and> \<not> resident s (fat_lba s c) \<and> read_fails (sd_card s) (fat_lba s c) \<longrightarrow>
          fat_entry s c v w = (INVALID_CLUSTER, s\<lparr>fat_cache_valid := False\<rparr>))
    \<and> (2 \<le> c \<and> (resident s (fat_lba s c) \<or> \<not> read_fails (sd_card s) (fat_lba s c)) \<longrightarrow>
          fat_entry s c v False
            = (load_le32 (working s (fat_lba s c)) (entry_offset s c) AND 0x0FFFFFFF,
               s\<lparr>fat_cache := working s (fat_lba s c), fat_cache_sector := fat_lba s c,
                 fat_cache_valid := True\<rparr>)
          \<and> fat_entry s c v True
            = (let new_raw = (load_le32 (working s (fat_lba s c)) (entry_offset s c) AND 0xF0000000)
                               OR (v AND 0x0FFFFFFF);
                   line = store_le32 (working s (fat_lba s c)) (entry_offset s c) new_raw
               in if write_fails (sd_card s) (fat_lba s c)
                  then (INVALID_CLUSTER, s\<lparr>fat_cache := line, fat_cache_sector := fat_lba s c,
                                            fat_cache_valid := False\<rparr>)
                  else (v AND 0x0FFFFFFF,
                        s\<lparr>fat_cache := line, fat_cache_sector := fat_lba s c,
                          fat_cache_valid := True,
                          sd_card := (sd_card s)\<lparr>blocks :=
                                       (blocks (sd_card s))(fat_lba s c := line)\<rparr>\<rparr>)))
    \<and> (coherent s \<longrightarrow> working s (fat_lba s c) = blocks (sd_card s) (fat_lba s c)
                      \<and> coherent (snd (fat_entry s c v w)))
    \<and> (sector_size s = 512 \<and> length (working s (fat_lba s c)) = 512 \<longrightarrow>
          entry_offset s c + 3 < 512
          \<and> load_le32 (store_le32 (working s (fat_lba s c)) (entry_offset s c) x) (entry_offset s c) = x)"
proof (intro conjI impI)
  show "fat_entry s c v w = (INVALID_CLUSTER, s)" if "c < 2"
    using that by (rule fat_entry_low)
next
  assume a: "2 \<le> c \<and> \<not> resident s (fat_lba s c) \<and> read_fails (sd_card s) (fat_lba s c)"
  then have "\<not> c < 2" by (simp add: not_less)
  then show "fat_entry s c v w = (INVALID_CLUSTER, s\<lparr>fat_cache_valid := False\<rparr>)"
    using a assms by (simp add: fat_entry_def fat_load_fail)
next
  assume a: "2 \<le> c \<and> (resident s (fat_lba s c) \<or> \<not> read_fails (sd_card s) (fat_lba s c))"
  show "fat_entry s c v False
            = (load_le32 (working s (fat_lba s c)) (entry_offset s c) AND 0x0FFFFFFF,
               s\<lparr>fat_cache := working s (fat_lba s c), fat_cache_sector := fat_lba s c,
                 fat_cache_valid := True\<rparr>)"
    using a by (intro fat_entry_read_working assms) auto
  show "fat_entry s c v True
            = (let new_raw = (load_le32 (working s (fat_lba s c)) (entry_offset s c) AND 0xF0000000)
                               OR (v AND 0x0FFFFFFF);
                   line = store_le32 (working s (fat_lba s c)) (entry_offset s c) new_raw
               in if write_fails (sd_card s) (fat_lba s c)
                  then (INVALID_CLUSTER, s\<lparr>fat_cache := line, fat_cache_sector := fat_lba s c,
                                            fat_cache_valid := False\<rparr>)
                  else (v AND 0x0FFFFFFF,
                        s\<lparr>fat_cache := line, fat_cache_sector := fat_lba s c,
                          fat_cache_valid := True,
                          sd_card := (sd_card s)\<lparr>blocks :=
                                       (blocks (sd_card s))(fat_lba s c := line)\<rparr>\<rparr>))"
    using a by (intro fat_entry_write_working assms) auto
next
  assume "coherent s"
  then show "working s (fat_lba s c) = blocks (sd_card s) (fat_lba s c)"
    by (rule working_coherent)
  show "coherent (snd (fat_entry s c v w))" using \<open>coherent s\<close> by (rule fat_entry_coherent)
next
  assume a: "sector_size s = 512 \<and> length (working s (fat_lba s c)) = 512"
  then show o: "entry_offset s c + 3 < 512" using entry_offset_512 by simp
  show "load_le32 (store_le32 (working s (fat_lba s c)) (entry_offset s c) x) (entry_offset s c) = x"
    using o a by (intro load_store_le32) simp
qed

theorem fat_entry_contract_witness:
  "initialized faulty_fs
   \<and> fat_entry faulty_fs 1 0 True = (INVALID_CLUSTER, faulty_fs)
   \<and> fst (fat_entry faulty_fs 2 0 False) = 0x0FFFFFFF
   \<and> fst (fat_entry faulty_fs 3 0x12345678 True) = 0x02345678
   \<and> fat_cache (snd (fat_entry faulty_fs 3 0x12345678 True)) = store_le32 example_fat 12 0x02345678
   \<and> blocks (sd_card (snd (fat_entry faulty_fs 3 0x12345678 True))) 32
        = store_le32 example_fat 12 0x02345678
   \<and> load_le32 (store_le32 example_fat 12 0x02345678) 12 = 0x02345678
   \<and> fat_entry faulty_fs 130 0 False = (INVALID_CLUSTER, faulty_fs\<lparr>fat_cache_valid := False\<rparr>)"
proof -
  have g: "fat_lba faulty_fs 2 = 32" "fat_lba faulty_fs 3 = 32" "fat_lba faulty_fs 130 = 33"
    "entry_offset faulty_fs 2 = 8" "entry_offset faulty_fs 3 = 12"
    by (simp_all add: fat_lba_def entry_offset_def faulty_fs_def example_fs_def)
  have d: "\<not> read_fails (sd_card faulty_fs) 32" "\<not> write_fails (sd_card faulty_fs) 32"
    "read_fails (sd_card faulty_fs) 33" "\<not> resident faulty_fs 33"
    by (simp_all add: faulty_fs_def example_fs_def example_dev_def resident_def)
  have l: "load_le32 example_fat 8 = 0x0FFFFFFF" "load_le32 example_fat 12 = 0"
    by (simp_all add: load_le32_def example_fat_def)
  note i = faulty_fs_ok(1)
  note t = fat_entry_contract [OF i]
  have 1: "fat_entry faulty_fs 1 0 True = (INVALID_CLUSTER, faulty_fs)"
    using t [of 1 0 True] by simp
  have 2: "fst (fat_entry faulty_fs 2 0 False) = 0x0FFFFFFF"
    using t [of 2 0 False] by (simp add: g d l faulty_fs_working)
  have 3: "fat_entry faulty_fs 3 0x12345678 True
      = (0x02345678, faulty_fs\<lparr>fat_cache := store_le32 example_fat 12 0x02345678,
            fat_cache_sector := 32, fat_cache_valid := True,
            sd_card := (sd_card faulty_fs)\<lparr>blocks :=
               (blocks (sd_card faulty_fs))(32 := store_le32 example_fat 12 0x02345678)\<rparr>\<rparr>)"
    using t [of 3 "0x12345678" True] by (simp add: g d l faulty_fs_working Let_def)
  have 4: "load_le32 (store_le32 example_fat 12 0x02345678) 12 = 0x02345678"
    using t [of 3 0 True "0x02345678"] by (simp add: g faulty_fs_working faulty_fs_ok(2))
  have 5: "fat_entry faulty_fs 130 0 False = (INVALID_CLUSTER, faulty_fs\<lparr>fat_cache_valid := False\<rparr>)"
    using t [of 130 0 False] by (simp add: g d)
  show ?thesis using i 1 2 4 5 by (simp add: 3)
qed

text \<open>
  Claim C7 describes how the parser assembles a long name from entries with attribute byte
  \<open>0x0F\<close>.  The parser tests \<open>Attributes AND AT_VOLUME_ID\<close> before it tests
  \<open>Attributes = AT_LFN\<close>, and \<open>0x0F\<close> has the volume-ID bit \<open>0x08\<close> set: every long-name entry
  is classified \<open>Error\<close>, the assembly index is left as it was, and neither "complete" nor
  "incomplete" is ever reported.  Shown here on the single-fragment entry for the name \<open>A\<close>
  (ordinal \<open>0x41\<close>), for which the claim asks for index 0 and "complete".
\<close>

theorem lfn_entry_never_assembled:
  "Attributes lfn_entry_A = 0x0F \<and> Ordinal lfn_entry_A = 0x41
   \<and> fat_filename_parser lfn_entry_A (replicate 255 0) 13 = (Error, replicate 255 0, 13)"
proof -
  have a: "Attributes lfn_entry_A = AT_LFN" "Ordinal lfn_entry_A = 0x41"
    by (simp_all add: lfn_entry_A_def Attributes_def Ordinal_def AT_LFN_def)
  have "(replicate 255 (0::u8))[0 := 0] = replicate 255 0"
    by (rule nth_equalityI) (auto simp: nth_list_update)
  then show ?thesis
    using a by (simp add: parser_lfn_error [OF a(1)] AT_LFN_def)
qed

text \<open>
  Claim C1 (round trip).  On the freshly formatted volume, \<open>A.TXT\<close> is created empty and
  then \<open>B.TXT\<close> is created, written with the three bytes \<open>xyz\<close> and closed.  \<open>file_write\<close>
  stores the first cluster of \<open>B.TXT\<close> in the first entry of the directory sector that has
  size 0 and no cluster, which is \<open>A.TXT\<close>; \<open>B.TXT\<close> keeps size 0 and no cluster.  Reopened
  for reading, \<open>B.TXT\<close> is found with size 0 and the first \<open>file_read\<close> returns nothing.
\<close>

theorem roundtrip_lost_after_empty_file:
  "do { (_, s1) \<leftarrow> create_file 2 example_fs (bytes ''A.TXT'');
        (st, s2) \<leftarrow> write_text_file 2 s1 (bytes ''B.TXT'') (bytes ''xyz'');
        (r, s3) \<leftarrow> file_open 2 s2 (bytes ''B.TXT'') READ;
        Some (st, r, rh_File_Size (read_handler s3), fst (file_read s3 None)) }
   = Some (SD_OK, FILE_FOUND, 0, [])"
  by code_simp

text \<open>
  Claim C5 (free clusters plus clusters in use equal the usable clusters).  The small volume
  has 100 usable clusters, one of them in use by the root directory.
  \<open>count_free_clusters\<close> walks every entry of every FAT sector, so it also counts the 26
  entries of the FAT sector that lie beyond the last cluster: it reports 125 free clusters.
\<close>

theorem count_free_exceeds_total:
  "fst (count_free_clusters example_fs) = 125 \<and> total_clusters example_fs = 100"
  by code_simp

text \<open>
  Claim C9 (every path with a \<open>..\<close> component is rejected).  Only a \<open>..\<close> that is the first
  component other than \<open>.\<close> is rejected.  After a directory \<open>SUB\<close> has been made with
  \<open>create_directory\<close>, which writes a \<open>..\<close> entry holding the parent's cluster, and \<open>A.TXT\<close>
  has been written in the root, the path \<open>SUB/../A.TXT\<close> opens \<open>A.TXT\<close>: the \<open>..\<close> component is
  looked up like any name, matches the on-disk \<open>..\<close> entry and leads back to the root.
\<close>

theorem dotdot_inside_path_resolves:
  "do { (ok, s1) \<leftarrow> create_directory 2 example_fs (bytes ''SUB'');
        (st, s2) \<leftarrow> write_text_file 2 s1 (bytes ''A.TXT'') (bytes ''xyz'');
        (r, s3) \<leftarrow> file_open 2 s2 (bytes ''SUB/../A.TXT'') READ;
        Some (ok, st, r, rh_File_Size (read_handler s3), fst (file_read s3 None)) }
   = Some (True, SD_OK, FILE_FOUND, 3, bytes ''xyz'')"
  by code_simp

text \<open>
  Claim C10 says that the allocator handles cluster numbers as 16-bit values and concludes
  that on a volume whose last cluster exceeds 65535 the number returned can differ from the
  cluster whose FAT entry was found FREE.  In the driver the scan bound \<open>last_cluster\<close> is
  itself a \<open>uint16_t\<close> field and the hint is a \<open>uint16_t\<close>, so no scan reaches a cluster above
  65535.  On the volume with 65540 clusters, where clusters 2 to 4 are in use and every
  other cluster is free, the mounted driver has \<open>last_cluster = 5\<close>: the search with hint 2
  examines clusters 2 to 4 only and returns 0, not \<open>65538 mod 2^16 = 2\<close>, although the FAT entry
  of cluster 65538 reads FREE; the search with hint 50 finds nothing in its first pass and
  returns 5 from the wrap-around pass, which is not bounded by \<open>last_cluster\<close>.
\<close>

theorem wide_volume_search_counterexample:
  "do { (ok, s) \<leftarrow> init (FAT32_new big_dev);
        Some (ok, last_cluster s, total_clusters s, fst (fat_entry s 65538 0 False),
              fst (fat_search_available_cluster s 2), fst (fat_search_available_cluster s 50)) }
   = Some (True, 5, 65540, CLUSTER_FREE, 0, 5)"
  by code_simp

text \<open>
  Claim C10 as amended.  Let \<open>start\<close> be the 16-bit hint, or 2 when the hint is below 2.  The
  first pass scans the clusters from \<open>start\<close> up to but excluding the 16-bit \<open>last_cluster\<close>, the
  wrap-around pass the clusters from 2 up to but excluding \<open>start\<close>; each stops at the first
  cluster whose FAT entry \<open>fat_entry\<close> reads as FREE (\<open>fat_scan\<close>).  Whenever the search returns
  a nonzero number, there is a cluster \<open>c\<close> such that
  \<^item> the first pass stopped at \<open>c\<close>, with \<open>start \<le> c < last_cluster\<close>, or the first pass found
    nothing and the wrap-around pass stopped at \<open>c\<close>, with \<open>c\<close> below the hint;
  \<^item> the number returned is \<open>c\<close> cast to 16 bits, and widening it again gives \<open>c\<close>: \<open>c\<close> is at
    least 2 and below 65536, so the cast loses nothing;
  \<^item> if the cache line agreed with the card before the search, the FAT entry of \<open>c\<close> on the
    card is FREE.

  The search does not change the card.
\<close>

theorem search_returns_scanned_cluster:
  fixes hint :: u16
  defines "start \<equiv> (if 2 \<le> hint then ucast hint else 2) :: u32"
  assumes nz: "fst (fat_search_available_cluster s hint) \<noteq> 0"
  shows "(\<exists>c. (fst (fat_scan s (cluster_range start (ucast (last_cluster s)))) = Some c
                \<and> start \<le> c \<and> c < ucast (last_cluster s)
              \<or> fst (fat_scan s (cluster_range start (ucast (last_cluster s)))) = None
                \<and> fst (fat_scan (snd (fat_scan s (cluster_range start (ucast (last_cluster s)))))
                         (cluster_range 2 start)) = Some c
                \<and> c < ucast hint)
            \<and> fst (fat_search_available_cluster s hint) = ucast c
            \<and> ucast (fst (fat_search_available_cluster s hint)) = c
            \<and> 2 \<le> c \<and> c < 65536
            \<and> (coherent s \<longrightarrow> fat_val s c = CLUSTER_FREE))
         \<and> sd_card (snd (fat_search_available_cluster s hint)) = sd_card s"
proof -
  obtain c where c: "fst (fat_scan s (cluster_range start (ucast (last_cluster s)))) = Some c
                \<and> start \<le> c \<and> c < ucast (last_cluster s)
              \<or> fst (fat_scan s (cluster_range start (ucast (last_cluster s)))) = None
                \<and> fst (fat_scan (snd (fat_scan s (cluster_range start (ucast (last_cluster s)))))
                         (cluster_range 2 start)) = Some c
                \<and> c < ucast hint"
    and r: "fst (fat_search_available_cluster s hint) = ucast c"
      "ucast (fst (fat_search_available_cluster s hint)) = c" "2 \<le> c" "c < 65536"
    using search_scanned [OF nz] unfolding start_def by blast
  have "fat_val s c = CLUSTER_FREE" if co: "coherent s"
    using search_found [OF co surjective_pairing nz] r(2) by simp
  then show ?thesis using c r search_frame [of s hint] by blast
qed

theorem search_returns_scanned_cluster_witness:
  "fst (fat_search_available_cluster example_fs 2) = 3
   \<and> coherent example_fs \<and> fat_val example_fs 3 = CLUSTER_FREE
   \<and> sd_card (snd (fat_search_available_cluster example_fs 2)) = example_dev"
proof -
  have co: "coherent example_fs" by (simp add: coherent_def example_fs_def)
  have f: "fst (fat_search_available_cluster example_fs 2) = 3" by code_simp
  then have nz: "fst (fat_search_available_cluster example_fs 2) \<noteq> 0" by simp
  have d: "sd_card example_fs = example_dev" by (simp add: example_fs_def)
  from search_returns_scanned_cluster [OF nz] f co d show ?thesis by auto
qed

text \<open>
  Claim C6 as stated fails in two places.  It lets \<open>write_block\<close> return true with \<open>SD_OK\<close>
  whenever none of the three listed failures occurs: a card that answers CMD24 with the
  illegal-command response \<open>0x04\<close> never reaches the data phase, so none of them occurs, and
  \<open>write_block\<close> returns false with \<open>SD_WRITE_COMMAND_FAILS\<close> after the ready poll, the command
  packet and one R1 poll.  And it makes the data phase fail when the data-response nibble is
  not \<open>0x05\<close>: a card that accepts CMD24 and answers the 512 data bytes with \<open>0x15\<close>, whose low
  nibble is \<open>0x05\<close>, makes \<open>write_block\<close> return false with \<open>SD_WRITE_DATA_FAILS\<close>, the driver
  testing the low five bits.
\<close>

theorem refused_command_counterexample:
  "map_option (\<lambda>(ok, c). (ok, last_status c, mosi c)) (SDCard_write_block refusing_card 3 block512)
     = Some (False, SD_WRITE_COMMAND_FAILS, [0xFF] @ cmd_packet CMD24 (3 * 512) @ [0xFF])
   \<and> (0x15 :: u8) AND 0x0F = 0x05
   \<and> bus (miso (snd (the (wait_ready (spi_cs_select fussy_card) 500)))) 522 = 0x15
   \<and> map_option (\<lambda>(ok, c). (ok, last_status c)) (SDCard_write_block fussy_card 3 block512)
     = Some (False, SD_WRITE_DATA_FAILS)"
proof -
  define c0 where "c0 = snd (the (wait_ready (spi_cs_select fussy_card) 500))"
  have 1: "map_option (\<lambda>(ok, c). (ok, last_status c, mosi c)) (SDCard_write_block refusing_card 3 block512)
     = Some (False, SD_WRITE_COMMAND_FAILS, [0xFF] @ cmd_packet CMD24 (3 * 512) @ [0xFF])"
    by code_simp
  have 2: "(0x15 :: u8) AND 0x0F = 0x05" by simp
  have i: "sd_initialized fussy_card" by (simp add: fussy_card_def)
  have l: "length block512 = 512" by (simp add: block512_def)
  have p1: "wait_ready (spi_cs_select fussy_card) 500 = Some (True, c0)"
    unfolding c0_def by code_simp
  have b0: "bus (miso c0) 6 = 0" "bus (miso c0) 522 = 0x15" unfolding c0_def by code_simp+
  have r0: "r1_at (miso c0) 0" by (simp add: r1_at_def b0)
  have 3: "map_option (\<lambda>(ok, c). (ok, last_status c)) (SDCard_write_block fussy_card 3 block512)
     = Some (False, SD_WRITE_DATA_FAILS)"
    by (rule write_block_data_response [OF i l p1 _ r0]) (simp_all add: b0)
  show ?thesis using 1 2 3 b0(2) unfolding c0_def by blast
qed

text \<open>
  Claim C6 as amended.  For a call of \<open>write_block\<close> with a 512-byte buffer on an initialised
  card, in terms of the bytes the card shifts out (\<open>bus\<close>) and the bytes the driver sends
  (\<open>spi_write_blocking\<close>, \<open>after_command\<close>); \<open>c0\<close> is the driver when the ready poll before CMD24
  has ended, and the address \<open>addr\<close> in the CMD24 packet is \<open>lba * 512\<close> for a card that is not
  SDHC and \<open>lba\<close> for SDHC:
  \<^item> if the card does not get ready, or none of the 20 bytes after the packet has bit 7
    clear, or the first such byte (R1) is nonzero, it returns false with
    \<open>SD_WRITE_COMMAND_FAILS\<close>;
  \<^item> otherwise it sends the token \<open>0xFE\<close>, the 512 bytes of the buffer and three bytes \<open>0xFF\<close>;
    the byte the card shifts out during the last of them is the data response, and when
    its low five bits are not \<open>0x05\<close> it returns false with \<open>SD_WRITE_DATA_FAILS\<close>;
  \<^item> otherwise a busy poll that gives up makes it return false with \<open>SD_WRITE_TIMEOUT_BUSY\<close>,
    and the poll gives up only on a clock reading at least 600 ms after its start;
  \<^item> otherwise it deselects, sends one byte, selects and sends CMD13 with argument 0; it
    returns false with \<open>SD_WRITE_STATUS_ERROR\<close> if the card does not get ready, or no R1
    arrives within 20 bytes, or R1 or the byte after it (R2) is nonzero, and true with
    \<open>SD_OK\<close> otherwise;
  \<^item> every failure returns at once with the status code recorded, and the state returned
    shows what has been sent: nothing is sent twice;
  \<^item> a poll, for ready or for not busy, starts with a clock reading and then, before each
    byte \<open>0xFF\<close> it sends, takes another: it ends ready at the first byte \<open>0xFF\<close> the card shifts
    out, and it gives up, having read only other bytes, at the first reading that is at
    least the timeout after the first.
\<close>

theorem write_block_outcomes:
  fixes c :: SDCard and lba :: u32 and buf :: "u8 list"
  defines "addr \<equiv> (if card_type c = CARD_TYPE_SDHC then lba else lba * 512)"
  assumes ini: "sd_initialized c" and len: "length buf = 512"
  shows "(wait_ready (spi_cs_select c) 500 = Some (False, c0) \<longrightarrow>
            SDCard_write_block c lba buf
              = Some (False, (spi_cs_deselect c0)\<lparr>last_status := SD_WRITE_COMMAND_FAILS\<rparr>))
    \<and> (wait_ready (spi_cs_select c) 500 = Some (True, c0)
          \<and> (\<forall>j<20. bus (miso c0) (6 + j) AND 0x80 \<noteq> 0) \<longrightarrow>
            SDCard_write_block c lba buf
              = Some (False, (spi_cs_deselect (after_command c0 CMD24 addr 20))
                               \<lparr>last_status := SD_WRITE_COMMAND_FAILS\<rparr>))
    \<and> (wait_ready (spi_cs_select c) 500 = Some (True, c0) \<and> k < 20 \<and> r1_at (miso c0) k \<longrightarrow>
         (let c1 = after_command c0 CMD24 addr (Suc k);
              c2 = spi_write_blocking c1 ([DATA_TOKEN] @ buf @ [0xFF, 0xFF, 0xFF]);
              r1 = bus (miso c0) (6 + k);
              resp = bus (miso c0) (k + 522)
          in (r1 \<noteq> 0 \<longrightarrow>
                SDCard_write_block c lba buf
                  = Some (False, (spi_cs_deselect c1)\<lparr>last_status := SD_WRITE_COMMAND_FAILS\<rparr>))
           \<and> (r1 = 0 \<and> resp AND 0x1F \<noteq> 0x05 \<longrightarrow>
                SDCard_write_block c lba buf
                  = Some (False, (spi_cs_deselect c2)\<lparr>last_status := SD_WRITE_DATA_FAILS\<rparr>))
           \<and> (r1 = 0 \<and> resp AND 0x1F = 0x05
                 \<and> wait_not_busy c2 WRITE_TIMEOUT_MS = Some (False, c3) \<longrightarrow>
                SDCard_write_block c lba buf
                  = Some (False, (spi_cs_deselect c3)\<lparr>last_status := SD_WRITE_TIMEOUT_BUSY\<rparr>)
                \<and> (\<exists>start ts. clock_ms c2 = start # ts \<and> (\<exists>t \<in> set ts. 600 \<le> t - start)))
           \<and> (r1 = 0 \<and> resp AND 0x1F = 0x05
                 \<and> wait_not_busy c2 WRITE_TIMEOUT_MS = Some (True, c3) \<longrightarrow>
                (let c4 = spi_cs_select (spi_write_blocking (spi_cs_deselect c3) [0xFF])
                 in (wait_ready c4 500 = Some (False, c5) \<longrightarrow>
                       SDCard_write_block c lba buf
                         = Some (False, (spi_cs_deselect (spi_write_blocking c5 [0xFF, 0xFF]))
                                          \<lparr>last_status := SD_WRITE_STATUS_ERROR\<rparr>))
                  \<and> (wait_ready c4 500 = Some (True, c5)
                        \<and> (\<forall>j<20. bus (miso c5) (6 + j) AND 0x80 \<noteq> 0) \<longrightarrow>
                       SDCard_write_block c lba buf
                         = Some (False, (spi_cs_deselect (spi_write_blocking
                                            (after_command c5 CMD13 0 20) [0xFF, 0xFF]))
                                          \<lparr>last_status := SD_WRITE_STATUS_ERROR\<rparr>))
                  \<and> (wait_ready c4 500 = Some (True, c5) \<and> k' < 20 \<and> r1_at (miso c5) k' \<longrightarrow>
                       SDCard_write_block c lba buf
                         = (let c6 = spi_cs_deselect (spi_write_blocking
                                        (after_command c5 CMD13 0 (Suc k')) [0xFF, 0xFF])
                            in if bus (miso c5) (6 + k') \<noteq> 0 \<or> bus (miso c5) (7 + k') \<noteq> 0
                               then Some (False, c6\<lparr>last_status := SD_WRITE_STATUS_ERROR\<rparr>)
                               else Some (True, c6\<lparr>last_status := SD_OK\<rparr>)))))))
    \<and> (wait_not_busy x T = Some (ok, x') \<longrightarrow>
          (\<exists>start ts n. clock_ms x = start # ts \<and> n < length ts
            \<and> (\<forall>j<n. ts ! j - start < T \<and> bus (miso x) j \<noteq> 0xFF)
            \<and> (if ok then ts ! n - start < T \<and> bus (miso x) n = 0xFF
                         \<and> x' = (spi_write_blocking x (replicate (Suc n) 0xFF))
                                  \<lparr>clock_ms := drop (Suc n) ts\<rparr>
                else T \<le> ts ! n - start
                         \<and> x' = (spi_write_blocking x (replicate n 0xFF))
                                  \<lparr>clock_ms := drop (Suc n) ts\<rparr>)))
    \<and> wait_ready x T = wait_not_busy x T"
proof (intro conjI impI)
  assume "wait_ready (spi_cs_select c) 500 = Some (False, c0)"
  from write_cmd_cases(1) [OF this]
  show "SDCard_write_block c lba buf
              = Some (False, (spi_cs_deselect c0)\<lparr>last_status := SD_WRITE_COMMAND_FAILS\<rparr>)"
    using ini by (simp add: SDCard_write_block_def cs_swb)
next
  assume "wait_ready (spi_cs_select c) 500 = Some (True, c0)
          \<and> (\<forall>j<20. bus (miso c0) (6 + j) AND 0x80 \<noteq> 0)"
  then obtain r where "r \<noteq> 0" "write_cmd c lba = Some (r, after_command c0 CMD24 addr 20)"
    using write_cmd_cases(2) [of c c0 lba] unfolding addr_def by blast
  then show "SDCard_write_block c lba buf
              = Some (False, (spi_cs_deselect (after_command c0 CMD24 addr 20))
                               \<lparr>last_status := SD_WRITE_COMMAND_FAILS\<rparr>)"
    using ini by (simp add: SDCard_write_block_def)
next
  assume a: "wait_ready (spi_cs_select c) 500 = Some (True, c0) \<and> k < 20 \<and> r1_at (miso c0) k"
  define c1 where "c1 = after_command c0 CMD24 addr (Suc k)"
  define c2 where "c2 = spi_write_blocking c1 ([DATA_TOKEN] @ buf @ [0xFF, 0xFF, 0xFF])"
  define c4 where "c4 = spi_cs_select (spi_write_blocking (spi_cs_deselect c3) [0xFF])"
  have wc: "write_cmd c lba = Some (bus (miso c0) (6 + k), c1)"
    using write_cmd_cases(3) [of c c0 k lba] a unfolding addr_def c1_def by blast
  have wd: "write_data c1 buf = (bus (miso c0) (k + 522), c2)"
    by (simp add: write_data_wire [OF len] c2_def c1_def miso_after_command bus_drop add.commute)
  have 1: "bus (miso c0) (6 + k) \<noteq> 0 \<longrightarrow>
        SDCard_write_block c lba buf
          = Some (False, (spi_cs_deselect c1)\<lparr>last_status := SD_WRITE_COMMAND_FAILS\<rparr>)"
    using ini wc by (simp add: SDCard_write_block_def)
  have 2: "bus (miso c0) (6 + k) = 0 \<and> bus (miso c0) (k + 522) AND 0x1F \<noteq> 0x05 \<longrightarrow>
        SDCard_write_block c lba buf
          = Some (False, (spi_cs_deselect c2)\<lparr>last_status := SD_WRITE_DATA_FAILS\<rparr>)"
    using ini wc wd by (simp add: SDCard_write_block_def)
  have 3: "bus (miso c0) (6 + k) = 0 \<and> bus (miso c0) (k + 522) AND 0x1F = 0x05
         \<and> wait_not_busy c2 WRITE_TIMEOUT_MS = Some (False, c3) \<longrightarrow>
        SDCard_write_block c lba buf
          = Some (False, (spi_cs_deselect c3)\<lparr>last_status := SD_WRITE_TIMEOUT_BUSY\<rparr>)
        \<and> (\<exists>start ts. clock_ms c2 = start # ts \<and> (\<exists>t \<in> set ts. 600 \<le> t - start))"
    using ini wc wd wait_not_busy_timeout [of c2 WRITE_TIMEOUT_MS c3]
    by (simp add: SDCard_write_block_def WRITE_TIMEOUT_MS_def)
  have 4: "wait_ready c4 500 = Some (False, c5) \<longrightarrow>
             SDCard_write_block c lba buf
               = Some (False, (spi_cs_deselect (spi_write_blocking c5 [0xFF, 0xFF]))
                                \<lparr>last_status := SD_WRITE_STATUS_ERROR\<rparr>)"
    if p: "bus (miso c0) (6 + k) = 0 \<and> bus (miso c0) (k + 522) AND 0x1F = 0x05
         \<and> wait_not_busy c2 WRITE_TIMEOUT_MS = Some (True, c3)"
  proof
    assume "wait_ready c4 500 = Some (False, c5)"
    then obtain r2 where "write_status c3
       = Some (0xFF, r2, spi_cs_deselect (spi_write_blocking c5 [0xFF, 0xFF]))"
      using write_status_not_ready [of c3 c5] unfolding c4_def by blast
    then show "SDCard_write_block c lba buf
               = Some (False, (spi_cs_deselect (spi_write_blocking c5 [0xFF, 0xFF]))
                                \<lparr>last_status := SD_WRITE_STATUS_ERROR\<rparr>)"
      using ini wc wd p by (simp add: SDCard_write_block_def)
  qed
  have 5: "wait_ready c4 500 = Some (True, c5)
             \<and> (\<forall>j<20. bus (miso c5) (6 + j) AND 0x80 \<noteq> 0) \<longrightarrow>
             SDCard_write_block c lba buf
               = Some (False, (spi_cs_deselect (spi_write_blocking
                                  (after_command c5 CMD13 0 20) [0xFF, 0xFF]))
                                \<lparr>last_status := SD_WRITE_STATUS_ERROR\<rparr>)"
    if p: "bus (miso c0) (6 + k) = 0 \<and> bus (miso c0) (k + 522) AND 0x1F = 0x05
         \<and> wait_not_busy c2 WRITE_TIMEOUT_MS = Some (True, c3)"
  proof
    assume "wait_ready c4 500 = Some (True, c5)
             \<and> (\<forall>j<20. bus (miso c5) (6 + j) AND 0x80 \<noteq> 0)"
    then obtain r1 r2 where "r1 \<noteq> 0" "write_status c3
       = Some (r1, r2, spi_cs_deselect (spi_write_blocking (after_command c5 CMD13 0 20) [0xFF, 0xFF]))"
      using write_status_no_r1 [of c3 c5] unfolding c4_def by blast
    then show "SDCard_write_block c lba buf
               = Some (False, (spi_cs_deselect (spi_write_blocking
                                  (after_command c5 CMD13 0 20) [0xFF, 0xFF]))
                                \<lparr>last_status := SD_WRITE_STATUS_ERROR\<rparr>)"
      using ini wc wd p by (simp add: SDCard_write_block_def)
  qed
  have 6: "wait_ready c4 500 = Some (True, c5) \<and> k' < 20 \<and> r1_at (miso c5) k' \<longrightarrow>
             SDCard_write_block c lba buf
               = (let c6 = spi_cs_deselect (spi_write_blocking
                              (after_command c5 CMD13 0 (Suc k')) [0xFF, 0xFF])
                  in if bus (miso c5) (6 + k') \<noteq> 0 \<or> bus (miso c5) (7 + k') \<noteq> 0
                     then Some (False, c6\<lparr>last_status := SD_WRITE_STATUS_ERROR\<rparr>)
                     else Some (True, c6\<lparr>last_status := SD_OK\<rparr>))"
    if p: "bus (miso c0) (6 + k) = 0 \<and> bus (miso c0) (k + 522) AND 0x1F = 0x05
         \<and> wait_not_busy c2 WRITE_TIMEOUT_MS = Some (True, c3)"
  proof
    assume "wait_ready c4 500 = Some (True, c5) \<and> k' < 20 \<and> r1_at (miso c5) k'"
    then have "write_status c3
       = Some (bus (miso c5) (6 + k'), bus (miso c5) (7 + k'),
               spi_cs_deselect (spi_write_blocking (after_command c5 CMD13 0 (Suc k')) [0xFF, 0xFF]))"
      using write_status_r1 [of c3 c5 k'] unfolding c4_def by blast
    then show "SDCard_write_block c lba buf
               = (let c6 = spi_cs_deselect (spi_write_blocking
                              (after_command c5 CMD13 0 (Suc k')) [0xFF, 0xFF])
                  in if bus (miso c5) (6 + k') \<noteq> 0 \<or> bus (miso c5) (7 + k') \<noteq> 0
                     then Some (False, c6\<lparr>last_status := SD_WRITE_STATUS_ERROR\<rparr>)
                     else Some (True, c6\<lparr>last_status := SD_OK\<rparr>))"
      using ini wc wd p by (simp add: SDCard_write_block_def Let_def)
  qed
  show "let c1 = after_command c0 CMD24 addr (Suc k);
              c2 = spi_write_blocking c1 ([DATA_TOKEN] @ buf @ [0xFF, 0xFF, 0xFF]);
              r1 = bus (miso c0) (6 + k);
              resp = bus (miso c0) (k + 522)
          in (r1 \<noteq> 0 \<longrightarrow>
                SDCard_write_block c lba buf
                  = Some (False, (spi_cs_deselect c1)\<lparr>last_status := SD_WRITE_COMMAND_FAILS\<rparr>))
           \<and> (r1 = 0 \<and> resp AND 0x1F \<noteq> 0x05 \<longrightarrow>
                SDCard_write_block c lba buf
                  = Some (False, (spi_cs_deselect c2)\<lparr>last_status := SD_WRITE_DATA_FAILS\<rparr>))
           \<and> (r1 = 0 \<and> resp AND 0x1F = 0x05
                 \<and> wait_not_busy c2 WRITE_TIMEOUT_MS = Some (False, c3) \<longrightarrow>
                SDCard_write_block c lba buf
                  = Some (False, (spi_cs_deselect c3)\<lparr>last_status := SD_WRITE_TIMEOUT_BUSY\<rparr>)
                \<and> (\<exists>start ts. clock_ms c2 = start # ts \<and> (\<exists>t \<in> set ts. 600 \<le> t - start)))
           \<and> (r1 = 0 \<and> resp AND 0x1F = 0x05
                 \<and> wait_not_busy c2 WRITE_TIMEOUT_MS = Some (True, c3) \<longrightarrow>
                (let c4 = spi_cs_select (spi_write_blocking (spi_cs_deselect c3) [0xFF])
                 in (wait_ready c4 500 = Some (False, c5) \<longrightarrow>
                       SDCard_write_block c lba buf
                         = Some (False, (spi_cs_deselect (spi_write_blocking c5 [0xFF, 0xFF]))
                                          \<lparr>last_status := SD_WRITE_STATUS_ERROR\<rparr>))
                  \<and> (wait_ready c4 500 = Some (True, c5)
                        \<and> (\<forall>j<20. bus (miso c5) (6 + j) AND 0x80 \<noteq> 0) \<longrightarrow>
                       SDCard_write_block c lba buf
                         = Some (False, (spi_cs_deselect (spi_write_blocking
                                            (after_command c5 CMD13 0 20) [0xFF, 0xFF]))
                                          \<lparr>last_status := SD_WRITE_STATUS_ERROR\<rparr>))
                  \<and> (wait_ready c4 500 = Some (True, c5) \<and> k' < 20 \<and> r1_at (miso c5) k' \<longrightarrow>
                       SDCard_write_block c lba buf
                         = (let c6 = spi_cs_deselect (spi_write_blocking
                                        (after_command c5 CMD13 0 (Suc k')) [0xFF, 0xFF])
                            in if bus (miso c5) (6 + k') \<noteq> 0 \<or> bus (miso c5) (7 + k') \<noteq> 0
                               then Some (False, c6\<lparr>last_status := SD_WRITE_STATUS_ERROR\<rparr>)
                               else Some (True, c6\<lparr>last_status := SD_OK\<rparr>)))))"
    unfolding Let_def c1_def [symmetric] c2_def [symmetric] c4_def [symmetric]
    using 1 2 3 4 5 6 unfolding Let_def by blast
next
  assume "wait_not_busy x T = Some (ok, x')"
  then show "\<exists>start ts n. clock_ms x = start # ts \<and> n < length ts
         \<and> (\<forall>j<n. ts ! j - start < T \<and> bus (miso x) j \<noteq> 0xFF)
         \<and> (if ok then ts ! n - start < T \<and> bus (miso x) n = 0xFF
                      \<and> x' = (spi_write_blocking x (replicate (Suc n) 0xFF))
                               \<lparr>clock_ms := drop (Suc n) ts\<rparr>
             else T \<le> ts ! n - start
                      \<and> x' = (spi_write_blocking x (replicate n 0xFF))
                               \<lparr>clock_ms := drop (Suc n) ts\<rparr>)"
    by (rule wait_not_busy_wire)
next
  show "wait_ready x T = wait_not_busy x T" by (simp add: wait_ready_def)
qed

theorem write_block_outcomes_witness:
  "sd_initialized good_card \<and> length block512 = 512
   \<and> map_option (\<lambda>(ok, c). (ok, last_status c, take 7 (mosi c)))
        (SDCard_write_block good_card 3 block512)
       = Some (True, SD_OK, [0xFF, 0x58, 0x00, 0x00, 0x06, 0x00, 0x01])"
proof -
  define c0 where "c0 = snd (the (wait_ready (spi_cs_select good_card) 500))"
  define c3 where "c3 = snd (the (wait_not_busy
      (spi_write_blocking (after_command c0 CMD24
           (if card_type good_card = CARD_TYPE_SDHC then 3 else 3 * 512) (Suc 0))
         ([DATA_TOKEN] @ block512 @ [0xFF, 0xFF, 0xFF])) WRITE_TIMEOUT_MS))"
  define c5 where "c5 = snd (the (wait_ready
      (spi_cs_select (spi_write_blocking (spi_cs_deselect c3) [0xFF])) 500))"
  have i: "sd_initialized good_card" by (simp add: good_card_def)
  have l: "length block512 = 512" by (simp add: block512_def)
  have p1: "wait_ready (spi_cs_select good_card) 500 = Some (True, c0)"
    unfolding c0_def by code_simp
  have b0: "bus (miso c0) 6 = 0" "bus (miso c0) 522 = 0xE5" unfolding c0_def by code_simp+
  have p3: "wait_not_busy
      (spi_write_blocking (after_command c0 CMD24
           (if card_type good_card = CARD_TYPE_SDHC then 3 else 3 * 512) (Suc 0))
         ([DATA_TOKEN] @ block512 @ [0xFF, 0xFF, 0xFF])) WRITE_TIMEOUT_MS = Some (True, c3)"
    unfolding c3_def c0_def by code_simp
  have p4: "wait_ready (spi_cs_select (spi_write_blocking (spi_cs_deselect c3) [0xFF])) 500
      = Some (True, c5)"
    unfolding c5_def c3_def c0_def by code_simp
  have b5: "bus (miso c5) 6 = 0" "bus (miso c5) 7 = 0"
    unfolding c5_def c3_def c0_def by code_simp+
  have m5: "length (mosi c5) = 528"
    "take 7 (mosi c5) = [0xFF, 0x58, 0x00, 0x00, 0x06, 0x00, 0x01]"
    unfolding c5_def c3_def c0_def by code_simp+
  have r0: "r1_at (miso c0) 0" by (simp add: r1_at_def b0)
  have r5: "r1_at (miso c5) 0" by (simp add: r1_at_def b5)
  have e: "(0xE5 :: u8) AND 0x1F = 0x05" by simp
  from write_block_outcomes [OF i l, where lba = 3 and ?c0.0 = c0 and k = 0 and ?c3.0 = c3
      and ?c5.0 = c5 and k' = 0]
  have "map_option (\<lambda>(ok, c). (ok, last_status c, take 7 (mosi c)))
        (SDCard_write_block good_card 3 block512)
       = Some (True, SD_OK, [0xFF, 0x58, 0x00, 0x00, 0x06, 0x00, 0x01])"
    using p1 r0 b0 e p3 p4 r5 b5 m5
    by (simp add: Let_def after_command_def mosi_spi_write_blocking spi_cs_deselect_def)
  then show ?thesis using i l by simp
qed

text \<open>
  Claim C4 as stated fails in two places.  A caller's handle that is still in its
  default-constructed state has remaining size 0, yet the first \<open>file_read\<close> on it after the
  35-byte file has been opened returns the 35 bytes: the call first copies the driver's own
  handle into it.  And a handle with 35 bytes left returns nothing when the card cannot
  read the sector.
\<close>

theorem uninitialised_handle_counterexample:
  "rh_File_Size fresh_handler = 0
   \<and> do { (st, s1) \<leftarrow> write_text_file 2 example_fs (bytes ''TEST.TXT'') hello35;
           (r, s2) \<leftarrow> file_open 2 s1 (bytes ''TEST.TXT'') READ;
           Some (st, r, fst (file_read s2 (Some fresh_handler)) = hello35,
                 length (fst (file_read s2 (Some fresh_handler)))) }
      = Some (SD_OK, FILE_FOUND, True, 35)
   \<and> rh_File_Size (read_handler hello_fs) = 35
   \<and> fst (file_read (hello_fs\<lparr>sd_card := hello_dev\<lparr>read_fails := (\<lambda>a. a = 35)\<rparr>\<rparr>) None) = []"
  by code_simp

text \<open>
  Claim C4 as amended.  Let \<open>h\<close> be the handle a \<open>file_read\<close> call works on, the call not being
  one that re-seeds an uninitialised caller's handle from the driver's, and \<open>S\<close> its
  remaining size, on a mounted volume.
  \<^item> If \<open>S = 0\<close> the call returns 0 bytes and leaves the handle as it is.
  \<^item> If \<open>S > 0\<close> and the card cannot read the sector, it returns 0 bytes and leaves the handle
    as it is.
  \<^item> If \<open>S > 0\<close> and the sector \<open>data_base + (cluster - 2) * cluster_size + sector_offset\<close> is
    read, it returns exactly the first \<open>min(512, S)\<close> bytes of that sector, lowers the remaining
    size by that amount and advances the sector offset; when the offset reaches the cluster
    size it is reset to 0 and the handle moves to the cluster named by the FAT entry of the
    current one, the remaining size becoming 0 when that is an end-of-chain mark or below 2.
  \<^item> The card is not changed.
  \<^item> On the freshly formatted volume, after a 35-byte file has been written and reopened the
    first \<open>file_read\<close> returns exactly the 35 bytes written and the next returns 0 bytes.
\<close>

theorem file_read_contract:
  assumes init: "initialized s" and ns: "\<not> reseeded s handler"
    and len: "\<forall>a. length (blocks (sd_card s) a) = 512"
    and res: "file_read s handler = (out, handler', s')"
    and h: "h = the_handle s handler" and h': "h' = the_handle s' handler'"
    and lba: "lba = cluster_lba s (rh_FAT_Entry h) (rh_SectorOffset h)"
    and n: "n = min 512 (unat (rh_File_Size h))"
    and nx: "next = fst (fat_entry (s\<lparr>read_buffer := blocks (sd_card s) lba\<rparr>) (rh_FAT_Entry h) 0 False)"
  shows "(rh_File_Size h = 0 \<longrightarrow> out = [] \<and> h' = h)
    \<and> (rh_File_Size h \<noteq> 0 \<and> read_fails (sd_card s) lba \<longrightarrow> out = [] \<and> h' = h)
    \<and> (rh_File_Size h \<noteq> 0 \<and> \<not> read_fails (sd_card s) lba \<longrightarrow>
          out = take n (blocks (sd_card s) lba) \<and> length out = n
          \<and> (rh_SectorOffset h + 1 < cluster_size s \<longrightarrow>
                h' = h\<lparr>rh_File_Size := rh_File_Size h - of_nat n,
                       rh_SectorOffset := rh_SectorOffset h + 1\<rparr>)
          \<and> (cluster_size s \<le> rh_SectorOffset h + 1 \<longrightarrow>
                h' = h\<lparr>rh_File_Size := (if EOC_MIN \<le> next \<or> next < 2 then 0
                                            else rh_File_Size h - of_nat n),
                       rh_SectorOffset := 0, rh_FAT_Entry := next\<rparr>))
    \<and> (coherent s \<and> 2 \<le> rh_FAT_Entry h \<and> \<not> read_fails (sd_card s) (fat_lba s (rh_FAT_Entry h))
          \<longrightarrow> next = fat_val s (rh_FAT_Entry h))
    \<and> sd_card s' = sd_card s
    \<and> do { (st, s1) \<leftarrow> write_text_file 2 example_fs (bytes ''TEST.TXT'') hello35;
            (r, s2) \<leftarrow> file_open 2 s1 (bytes ''TEST.TXT'') READ;
            Some (st, r, length (fst (file_read s2 None)), fst (file_read s2 None) = hello35,
                  fst (file_read (snd (snd (file_read s2 None))) None)) }
       = Some (SD_OK, FILE_FOUND, 35, True, [])"
proof -
  note st = file_read_as_step [OF init ns res, folded h h']
  have 1: "rh_File_Size h = 0 \<longrightarrow> out = [] \<and> h' = h"
    using st by (simp add: read_step_eof)
  have 2: "rh_File_Size h \<noteq> 0 \<and> read_fails (sd_card s) lba \<longrightarrow> out = [] \<and> h' = h"
    using st by (simp add: read_step_fail lba)
  have 3: "rh_File_Size h \<noteq> 0 \<and> \<not> read_fails (sd_card s) lba \<longrightarrow>
          out = take n (blocks (sd_card s) lba) \<and> length out = n
          \<and> (rh_SectorOffset h + 1 < cluster_size s \<longrightarrow>
                h' = h\<lparr>rh_File_Size := rh_File_Size h - of_nat n,
                       rh_SectorOffset := rh_SectorOffset h + 1\<rparr>)
          \<and> (cluster_size s \<le> rh_SectorOffset h + 1 \<longrightarrow>
                h' = h\<lparr>rh_File_Size := (if EOC_MIN \<le> next \<or> next < 2 then 0
                                            else rh_File_Size h - of_nat n),
                       rh_SectorOffset := 0, rh_FAT_Entry := next\<rparr>)"
  proof (intro impI, elim conjE)
    assume a: "rh_File_Size h \<noteq> 0" "\<not> read_fails (sd_card s) lba"
    note ok = read_step_ok [OF a(1) a(2) [unfolded lba], folded lba n, folded nx]
    have o: "out = take n (blocks (sd_card s) lba)" using st(1) ok(1) by simp
    have "n \<le> 512" by (simp add: n)
    then have l: "length out = n" using len o by simp
    show "out = take n (blocks (sd_card s) lba) \<and> length out = n
          \<and> (rh_SectorOffset h + 1 < cluster_size s \<longrightarrow>
                h' = h\<lparr>rh_File_Size := rh_File_Size h - of_nat n,
                       rh_SectorOffset := rh_SectorOffset h + 1\<rparr>)
          \<and> (cluster_size s \<le> rh_SectorOffset h + 1 \<longrightarrow>
                h' = h\<lparr>rh_File_Size := (if EOC_MIN \<le> next \<or> next < 2 then 0
                                            else rh_File_Size h - of_nat n),
                       rh_SectorOffset := 0, rh_FAT_Entry := next\<rparr>)"
      using o l st(2) ok(2,3) by simp
  qed
  have 4: "coherent s \<and> 2 \<le> rh_FAT_Entry h \<and> \<not> read_fails (sd_card s) (fat_lba s (rh_FAT_Entry h))
          \<longrightarrow> next = fat_val s (rh_FAT_Entry h)"
    using fat_entry_read_val [OF init] by (simp add: nx)
  have 5: "sd_card s' = sd_card s" using st(3) by (simp add: read_step_card)
  have 6: "do { (st, s1) \<leftarrow> write_text_file 2 example_fs (bytes ''TEST.TXT'') hello35;
            (r, s2) \<leftarrow> file_open 2 s1 (bytes ''TEST.TXT'') READ;
            Some (st, r, length (fst (file_read s2 None)), fst (file_read s2 None) = hello35,
                  fst (file_read (snd (snd (file_read s2 None))) None)) }
       = Some (SD_OK, FILE_FOUND, 35, True, [])"
    by code_simp
  show ?thesis using 1 2 3 4 5 6 by blast
qed

theorem file_read_contract_witness:
  "initialized hello_fs \<and> \<not> reseeded hello_fs None
   \<and> (\<forall>a. length (blocks (sd_card hello_fs) a) = 512)
   \<and> rh_File_Size (the_handle hello_fs None) = 35
   \<and> fst (file_read hello_fs None) = hello35
   \<and> sd_card (snd (snd (file_read hello_fs None))) = hello_dev"
proof -
  have i: "initialized hello_fs" by (simp add: hello_fs_def example_fs_def)
  have ns: "\<not> reseeded hello_fs None" by (simp add: reseeded_def)
  have c: "sd_card hello_fs = hello_dev" by (simp add: hello_fs_def)
  have len: "\<forall>a. length (blocks (sd_card hello_fs) a) = 512"
    using hello_dev_lengths by (simp add: c)
  have res: "file_read hello_fs None
    = (fst (file_read hello_fs None), fst (snd (file_read hello_fs None)),
       snd (snd (file_read hello_fs None)))" by simp
  have hd: "the_handle hello_fs None
    = \<lparr>rh_Dir_Entry = 0, rh_File_Size = 35, rh_FAT_Entry = 3, rh_SectorOffset = 0\<rparr>"
    by (simp add: the_handle_def hello_fs_def)
  have l: "cluster_lba hello_fs 3 0 = 35"
    by (simp add: cluster_lba_def hello_fs_def example_fs_def)
  have b: "take 35 (blocks hello_dev 35) = hello35" by (simp add: hello_dev_def)
  have rf: "\<not> read_fails hello_dev 35" by (simp add: hello_dev_def)
  from file_read_contract [OF i ns len res refl refl refl refl refl]
  have "fst (file_read hello_fs None) = hello35
        \<and> sd_card (snd (snd (file_read hello_fs None))) = hello_dev"
    by (simp add: hd l c b rf)
  then show ?thesis using i ns len hd by simp
qed

text \<open>
  Claim C2 as stated fails when the card rejects a FAT write.  \<open>BIG.TXT\<close> has the chain
  3, 5, 4; the card rejects writes to the FAT sector and accepts the others.  Deleting the
  file returns \<open>FILE_FOUND\<close> and the directory entry is marked erased, yet the FAT entries of
  the three clusters are what they were: the results of the FAT writes are discarded.
\<close>

theorem delete_on_worn_card_counterexample:
  "in_chain (fat_val worn_fs) 3 3 \<and> in_chain (fat_val worn_fs) 3 5
   \<and> in_chain (fat_val worn_fs) 3 4
   \<and> first_cluster_of (entry_at (blocks (sd_card worn_fs) 34) 0) = 3
   \<and> do { (r, s') \<leftarrow> file_open 4 worn_fs (bytes ''BIG.TXT'') DELETE;
           Some (r, fat_val s' 3, fat_val s' 5, fat_val s' 4, blocks (sd_card s') 34 ! 0) }
      = Some (FILE_FOUND, 5, 4, 0x0FFFFFFF, FILE_ERASED)"
proof -
  have v: "fat_val worn_fs 3 = 5" "fat_val worn_fs 5 = 4" by code_simp+
  have 3: "in_chain (fat_val worn_fs) 3 3" by (rule in_chain.first) (simp_all add: EOC_MIN_def)
  from in_chain.step [OF 3] have 5: "in_chain (fat_val worn_fs) 3 5" by (simp add: v EOC_MIN_def)
  from in_chain.step [OF 5] have 4: "in_chain (fat_val worn_fs) 3 4" by (simp add: v EOC_MIN_def)
  have "first_cluster_of (entry_at (blocks (sd_card worn_fs) 34) 0) = 3
   \<and> do { (r, s') \<leftarrow> file_open 4 worn_fs (bytes ''BIG.TXT'') DELETE;
           Some (r, fat_val s' 3, fat_val s' 5, fat_val s' 4, blocks (sd_card s') 34 ! 0) }
      = Some (FILE_FOUND, 5, 4, 0x0FFFFFFF, FILE_ERASED)"
    by code_simp
  then show ?thesis using 3 5 4 by simp
qed

text \<open>
  Claim C2 as amended.  On a mounted volume with 512-byte sectors whose card reads and
  writes every sector and whose FAT cache line agrees with the card (\<open>fat_ok\<close>), if
  \<open>file_open(path, DELETE)\<close> returns \<open>FILE_FOUND\<close>, then \<open>path\<close> resolves to a directory entry,
  entry \<open>i\<close> of a directory sector \<open>lba\<close>, and afterwards the first name byte of that entry on
  the card is the erased mark \<open>0xE5\<close>.  If moreover the directory sector is not one of the
  FAT sectors that hold the entries of the file's chain (\<open>in_chain\<close> from the entry's first
  cluster), then afterwards the FAT entry of every cluster that was in the chain is \<open>FREE\<close>
  (0).
\<close>

theorem delete_frees_chain:
  assumes ok: "fat_ok s" and res: "file_open n s path DELETE = Some (FILE_FOUND, s')"
  shows "\<exists>lba i sm. resolve n s path = Some (Hit lba i sm) \<and> i < 16
           \<and> blocks (sd_card s') lba ! (32 * i) = FILE_ERASED
           \<and> ((\<forall>c. in_chain (fat_val s)
                        (first_cluster_of (entry_at (blocks (sd_card s) lba) i)) c
                      \<longrightarrow> fat_lba s c \<noteq> lba) \<longrightarrow>
                (\<forall>c. in_chain (fat_val s)
                        (first_cluster_of (entry_at (blocks (sd_card s) lba) i)) c
                      \<longrightarrow> fat_val s' c = CLUSTER_FREE))"
proof -
  obtain lba i sm where hit: "resolve n s path = Some (Hit lba i sm)"
    using delete_found_Hit [OF res] by blast
  note h = resolve_Hit [OF hit]
  have sv: "same_volume s sm" and rb: "read_buffer sm = blocks (sd_card s) lba" and i: "i < ents s"
    using h by simp_all
  have okm: "fat_ok sm" by (rule sv_fat_ok [OF ok sv])
  have e: "ents s = 16" using ok by (simp add: ents_def fat_ok_def)
  have "length (read_buffer sm) = 512" using ok by (simp add: rb fat_ok_def healthy_def)
  then have len: "32 * i < length (read_buffer sm)" using i e by simp
  have om: "open_matched n sm DELETE lba i = Some (FILE_FOUND, s')"
    using res hit by (simp add: file_open_def)
  have fv: "fat_val sm = fat_val s" by (rule sv_fields(5) [OF sv])
  have fl: "fat_lba sm = fat_lba s"
    using sv geometry_fat_pos [of sm s] by (simp add: same_volume_def)
  note d = open_matched_delete [OF okm len om, unfolded fv fl rb]
  show ?thesis using hit i e d by auto
qed

theorem delete_frees_chain_witness:
  "fat_ok chain_fs
   \<and> in_chain (fat_val chain_fs) 3 3 \<and> in_chain (fat_val chain_fs) 3 5
   \<and> in_chain (fat_val chain_fs) 3 4
   \<and> (\<exists>s'. file_open 4 chain_fs (bytes ''BIG.TXT'') DELETE = Some (FILE_FOUND, s')
          \<and> fat_val s' 3 = CLUSTER_FREE \<and> fat_val s' 5 = CLUSTER_FREE
          \<and> fat_val s' 4 = CLUSTER_FREE \<and> blocks (sd_card s') 34 ! 0 = FILE_ERASED)"
proof -
  obtain sm where hit: "resolve 4 chain_fs (bytes ''BIG.TXT'') = Some (Hit 34 0 sm)"
    using chain_fs_delete(1) by (auto split: option.splits resolved.splits)
  obtain s' where res: "file_open 4 chain_fs (bytes ''BIG.TXT'') DELETE = Some (FILE_FOUND, s')"
    using chain_fs_delete(2) by (auto split: option.splits)
  have dis: "\<forall>c. in_chain (fat_val chain_fs) (first_cluster_of (entry_at (blocks (sd_card chain_fs) 34) 0)) c
                \<longrightarrow> fat_lba chain_fs c \<noteq> 34"
  proof (intro allI impI)
    fix c
    assume "in_chain (fat_val chain_fs) (first_cluster_of (entry_at (blocks (sd_card chain_fs) 34) 0)) c"
    then have "c = 3 \<or> c = 4 \<or> c = 5" using chain_fs_chain by (simp add: chain_fs_fat)
    then show "fat_lba chain_fs c \<noteq> 34" using chain_fs_fat(4,5,6) by auto
  qed
  from delete_frees_chain [OF chain_fs_ok res] obtain lba i sm' where
    t: "resolve 4 chain_fs (bytes ''BIG.TXT'') = Some (Hit lba i sm')"
       "blocks (sd_card s') lba ! (32 * i) = FILE_ERASED"
       "(\<forall>c. in_chain (fat_val chain_fs)
                (first_cluster_of (entry_at (blocks (sd_card chain_fs) lba) i)) c
              \<longrightarrow> fat_lba chain_fs c \<noteq> lba) \<longrightarrow>
        (\<forall>c. in_chain (fat_val chain_fs)
                (first_cluster_of (entry_at (blocks (sd_card chain_fs) lba) i)) c
              \<longrightarrow> fat_val s' c = CLUSTER_FREE)"
    by blast
  have l: "lba = 34" "i = 0" using t(1) hit by simp_all
  have "\<forall>c. in_chain (fat_val chain_fs) 3 c \<longrightarrow> fat_val s' c = CLUSTER_FREE"
    using t(3) dis unfolding l by (simp add: chain_fs_fat)
  then have "fat_val s' 3 = CLUSTER_FREE \<and> fat_val s' 5 = CLUSTER_FREE
          \<and> fat_val s' 4 = CLUSTER_FREE"
    using chain_fs_in by blast
  moreover have "blocks (sd_card s') 34 ! 0 = FILE_ERASED" using t(2) unfolding l by simp
  ultimately show ?thesis using chain_fs_ok chain_fs_in res by blast
qed

text \<open>
  Claim C8 (after a successful rename a lookup of the new name finds the entry).  The new
  name is converted by \<open>to_dos_8_3\<close>, which cuts the base at 8 and the extension at 3
  characters instead of refusing the name.  On the freshly formatted volume \<open>A.TXT\<close> is
  written with the three bytes \<open>xyz\<close> and renamed to \<open>verylongname.text\<close>: the rename
  succeeds, the 11 name bytes of the entry become \<open>VERYLONGTEX\<close>, and a lookup of the new name
  does not find the file, which is found under \<open>VERYLONG.TEX\<close>.
\<close>

theorem rename_to_long_name_lost:
  "to_dos_8_3 (bytes ''verylongname.text'') = Some (bytes ''VERYLONGTEX'')
   \<and> do { (st, s1) \<leftarrow> write_text_file 2 example_fs (bytes ''A.TXT'') (bytes ''xyz'');
           (ok, s2) \<leftarrow> rename_file 2 s1 (bytes ''A.TXT'') (bytes ''verylongname.text'');
           (r_old, _) \<leftarrow> file_open 2 s2 (bytes ''A.TXT'') READ;
           (r_new, _) \<leftarrow> file_open 2 s2 (bytes ''verylongname.text'') READ;
           (r_83, s3) \<leftarrow> file_open 2 s2 (bytes ''VERYLONG.TEX'') READ;
           Some (st, ok, take 11 (blocks (sd_card s2) 34), r_old, r_new, r_83,
                 fst (file_read s3 None)) }
      = Some (SD_OK, True, bytes ''VERYLONGTEX'', FILE_NOT_FOUND, FILE_NOT_FOUND, FILE_FOUND,
              bytes ''xyz'')"
  by code_simp

end
